theory Spec2Isabelle
  imports Complex_Main
begin

section \<open>Python values\<close>

text \<open>
  The exceptions the modelled code can raise. The string is what \<open>str(e)\<close> gives,
  which the service stores in \<open>AIRequest.error_message\<close>.
\<close>

datatype exn =
    ValueError string
  | TypeError string
  | ZeroDivisionError string
  | Exception string
  | APIError string
  | JSONDecodeError string
  | DoesNotExist string
  | MultipleObjectsReturned string
  | IntegrityError string
  | AttributeError string
  | ValidationError string
  | DataError string

fun str_exn :: "exn \<Rightarrow> string" where
  "str_exn (ValueError m) = m"
| "str_exn (TypeError m) = m"
| "str_exn (ZeroDivisionError m) = m"
| "str_exn (Exception m) = m"
| "str_exn (APIError m) = m"
| "str_exn (JSONDecodeError m) = m"
| "str_exn (DoesNotExist m) = m"
| "str_exn (MultipleObjectsReturned m) = m"
| "str_exn (IntegrityError m) = m"
| "str_exn (AttributeError m) = m"
| "str_exn (ValidationError m) = m"
| "str_exn (DataError m) = m"

text \<open>
  A Python number is an \<open>int\<close>, a \<open>float\<close> or a \<open>decimal.Decimal\<close>. Each carries
  the rational it denotes. Float arithmetic rounds: the rounding of a real result to
  the nearest double is the parameter \<open>fl\<close> of every operation that computes in
  floats, so that what is proved holds for any rounding.
\<close>

datatype pynum = PyInt int | PyFloat rat | PyDecimal rat

fun pyval :: "pynum \<Rightarrow> rat" where
  "pyval (PyInt i) = of_int i"
| "pyval (PyFloat x) = x"
| "pyval (PyDecimal d) = d"

text \<open>\<open>float(x)\<close>.\<close>

fun py_float :: "(rat \<Rightarrow> rat) \<Rightarrow> pynum \<Rightarrow> rat" where
  "py_float fl (PyInt i) = fl (of_int i)"
| "py_float fl (PyFloat x) = x"
| "py_float fl (PyDecimal d) = fl d"

text \<open>
  \<open>a + b\<close>. \<open>Decimal\<close> and \<open>float\<close> do not mix: \<open>Decimal.__add__\<close> and
  \<open>float.__radd__\<close> both return \<open>NotImplemented\<close>, and Python raises \<open>TypeError\<close>
  (the message is Python's, without the quotation marks around the type names).
\<close>

fun py_add :: "(rat \<Rightarrow> rat) \<Rightarrow> pynum \<Rightarrow> pynum \<Rightarrow> exn + pynum" where
  "py_add fl (PyInt a) (PyInt b) = Inr (PyInt (a + b))"
| "py_add fl (PyInt a) (PyFloat b) = Inr (PyFloat (fl (fl (of_int a) + b)))"
| "py_add fl (PyInt a) (PyDecimal b) = Inr (PyDecimal (of_int a + b))"
| "py_add fl (PyFloat a) (PyInt b) = Inr (PyFloat (fl (a + fl (of_int b))))"
| "py_add fl (PyFloat a) (PyFloat b) = Inr (PyFloat (fl (a + b)))"
| "py_add fl (PyFloat a) (PyDecimal b) =
     Inl (TypeError ''unsupported operand type(s) for +=: float and decimal.Decimal'')"
| "py_add fl (PyDecimal a) (PyInt b) = Inr (PyDecimal (a + of_int b))"
| "py_add fl (PyDecimal a) (PyFloat b) =
     Inl (TypeError ''unsupported operand type(s) for +=: decimal.Decimal and float'')"
| "py_add fl (PyDecimal a) (PyDecimal b) = Inr (PyDecimal (a + b))"

text \<open>Comparisons are exact between all three types.\<close>

definition py_ge :: "pynum \<Rightarrow> pynum \<Rightarrow> bool" where
  "py_ge a b = (pyval b \<le> pyval a)"

definition py_is_zero :: "pynum \<Rightarrow> bool" where
  "py_is_zero a = (pyval a = 0)"

text \<open>
  True division. \<open>a / b\<close> on two ints gives the float nearest to the quotient and
  raises \<open>ZeroDivisionError\<close> when \<open>b\<close> is zero; on two floats likewise.
\<close>

definition int_truediv :: "(rat \<Rightarrow> rat) \<Rightarrow> int \<Rightarrow> int \<Rightarrow> exn + rat" where
  "int_truediv fl a b =
     (if b = 0 then Inl (ZeroDivisionError ''division by zero'')
      else Inr (fl (of_int a / of_int b)))"

definition float_truediv :: "(rat \<Rightarrow> rat) \<Rightarrow> rat \<Rightarrow> rat \<Rightarrow> exn + rat" where
  "float_truediv fl a b =
     (if b = 0 then Inl (ZeroDivisionError ''float division by zero'') else Inr (fl (a / b)))"

text \<open>\<open>min(100, x)\<close> for a float \<open>x\<close>: the first argument unless the second is smaller.\<close>

definition min_100 :: "rat \<Rightarrow> pynum" where
  "min_100 x = (if x < 100 then PyFloat x else PyInt 100)"

section \<open>AI usage quota (ai\_services/models.py)\<close>

record ai_usage_quota =
  q_id :: nat
  q_user :: nat
  q_period_type :: string
  q_period_start :: int
  q_period_end :: int
  max_requests :: int
  max_tokens :: int
  max_cost_usd :: pynum
  current_requests :: int
  current_tokens :: int
  current_cost_usd :: pynum
  is_exceeded :: bool

definition requests_percentage :: "(rat \<Rightarrow> rat) \<Rightarrow> ai_usage_quota \<Rightarrow> exn + pynum" where
  "requests_percentage fl q =
     (if max_requests q = 0 then Inr (PyInt 0)
      else case int_truediv fl (current_requests q) (max_requests q) of
             Inl e \<Rightarrow> Inl e
           | Inr r \<Rightarrow> Inr (min_100 (fl (r * 100))))"

definition tokens_percentage :: "(rat \<Rightarrow> rat) \<Rightarrow> ai_usage_quota \<Rightarrow> exn + pynum" where
  "tokens_percentage fl q =
     (if max_tokens q = 0 then Inr (PyInt 0)
      else case int_truediv fl (current_tokens q) (max_tokens q) of
             Inl e \<Rightarrow> Inl e
           | Inr r \<Rightarrow> Inr (min_100 (fl (r * 100))))"

definition cost_percentage :: "(rat \<Rightarrow> rat) \<Rightarrow> ai_usage_quota \<Rightarrow> exn + pynum" where
  "cost_percentage fl q =
     (if py_is_zero (max_cost_usd q) then Inr (PyInt 0)
      else case float_truediv fl (py_float fl (current_cost_usd q)) (py_float fl (max_cost_usd q)) of
             Inl e \<Rightarrow> Inl e
           | Inr r \<Rightarrow> Inr (min_100 (fl (r * 100))))"

section \<open>JSON values\<close>

datatype json =
    JNull
  | JBool bool
  | JNum int
  | JReal rat
  | JStr string
  | JArr "json list"
  | JObj "(string \<times> json) list"

text \<open>\<open>d.get(key, default)\<close> on a dict, given by its items.\<close>

definition dict_get :: "(string \<times> json) list \<Rightarrow> string \<Rightarrow> json \<Rightarrow> json" where
  "dict_get kvs k d = (case map_of kvs k of None \<Rightarrow> d | Some v \<Rightarrow> v)"

section \<open>Users (authentication/models.py)\<close>

record user =
  user_id :: nat
  email :: string
  company_name :: string
  subscription_tier :: string
  monthly_ai_calls :: int
  business_type :: string
  preferred_language :: string

definition ai_usage_limit :: "user \<Rightarrow> int" where
  "ai_usage_limit u =
     (case map_of [(''starter'', 1000), (''business'', 5000), (''pro'', 99999)] (subscription_tier u) of
        None \<Rightarrow> 1000
      | Some l \<Rightarrow> l)"

definition can_use_ai :: "user \<Rightarrow> bool" where
  "can_use_ai u = (monthly_ai_calls u < ai_usage_limit u)"

section \<open>Automation models (automations/models.py)\<close>

record automation_workflow =
  wf_id :: nat
  wf_user :: nat
  wf_name :: string
  wf_description :: string
  wf_status :: string
  wf_trigger_type :: string
  wf_trigger_config :: json
  wf_ai_instructions :: string
  wf_use_ai_processing :: bool
  wf_ai_model_preference :: string
  wf_total_executions :: int
  wf_successful_executions :: int
  wf_failed_executions :: int
  wf_last_executed :: "int option"
  wf_business_hours_only :: bool
  wf_language_context :: string
  wf_created_at :: int
  wf_updated_at :: int

record automation_action =
  act_id :: nat
  act_workflow :: nat
  act_name :: string
  act_action_type :: string
  act_action_config :: json
  act_order :: int
  act_conditions :: json
  act_is_conditional :: bool
  act_ai_enhanced :: bool
  act_ai_prompt_template :: string
  act_retry_on_failure :: bool
  act_max_retries :: int
  act_delay_seconds :: int
  act_created_at :: int
  act_updated_at :: int

record workflow_execution =
  ex_id :: nat
  ex_workflow :: nat
  ex_status :: string
  ex_trigger_data :: json
  ex_execution_log :: json
  ex_output_data :: json
  ex_error_message :: string
  ex_error_details :: json
  ex_started_at :: int
  ex_completed_at :: "int option"
  ex_duration_seconds :: "rat option"
  ex_ai_calls_made :: int
  ex_ai_tokens_used :: int
  ex_ai_cost_estimate :: pynum
  ex_actions_completed :: int
  ex_actions_failed :: int

text \<open>
  \<open>round(x, 2)\<close> on a float is the parameter \<open>round2\<close> of the two properties below.
\<close>

definition success_rate ::
  "(rat \<Rightarrow> rat) \<Rightarrow> (rat \<Rightarrow> rat) \<Rightarrow> automation_workflow \<Rightarrow> exn + pynum" where
  "success_rate fl round2 w =
     (if wf_total_executions w = 0 then Inr (PyInt 0)
      else case int_truediv fl (wf_successful_executions w) (wf_total_executions w) of
             Inl e \<Rightarrow> Inl e
           | Inr r \<Rightarrow> Inr (PyFloat (round2 (fl (r * 100)))))"

definition is_running :: "automation_workflow \<Rightarrow> bool" where
  "is_running w = (wf_status w = ''active'')"

definition success_percentage ::
  "(rat \<Rightarrow> rat) \<Rightarrow> (rat \<Rightarrow> rat) \<Rightarrow> workflow_execution \<Rightarrow> exn + pynum" where
  "success_percentage fl round2 e =
     (let total = ex_actions_completed e + ex_actions_failed e in
      if total = 0 then Inr (PyInt 0)
      else case int_truediv fl (ex_actions_completed e) total of
             Inl e \<Rightarrow> Inl e
           | Inr r \<Rightarrow> Inr (PyFloat (round2 (fl (r * 100)))))"

subsection \<open>Example values\<close>

definition example_quota :: ai_usage_quota where
  "example_quota =
     \<lparr>q_id = 1, q_user = 1, q_period_type = ''monthly'', q_period_start = 0, q_period_end = 100,
      max_requests = 2, max_tokens = 2000, max_cost_usd = PyDecimal 10,
      current_requests = 1, current_tokens = 500, current_cost_usd = PyDecimal (1 / 2),
      is_exceeded = False\<rparr>"

definition example_workflow :: automation_workflow where
  "example_workflow =
     \<lparr>wf_id = 7, wf_user = 1, wf_name = ''Leads'', wf_description = '''',
      wf_status = ''active'', wf_trigger_type = ''manual'', wf_trigger_config = JObj [],
      wf_ai_instructions = '''', wf_use_ai_processing = False,
      wf_ai_model_preference = ''auto'', wf_total_executions = 0,
      wf_successful_executions = 0, wf_failed_executions = 0, wf_last_executed = None,
      wf_business_hours_only = True, wf_language_context = ''mixed'',
      wf_created_at = 10, wf_updated_at = 10\<rparr>"

definition example_execution :: workflow_execution where
  "example_execution =
     \<lparr>ex_id = 3, ex_workflow = 7, ex_status = ''pending'', ex_trigger_data = JObj [],
      ex_execution_log = JArr [], ex_output_data = JObj [], ex_error_message = '''',
      ex_error_details = JObj [], ex_started_at = 20, ex_completed_at = None,
      ex_duration_seconds = None, ex_ai_calls_made = 0, ex_ai_tokens_used = 0,
      ex_ai_cost_estimate = PyFloat 0, ex_actions_completed = 0, ex_actions_failed = 0\<rparr>"

text \<open>
  \<open>AutomationTemplate.workflow_config\<close> is a JSON document (a \<open>JSONField\<close>) that
  \<open>create_workflow_from_template\<close> reads with \<open>.get(key, default)\<close>; no code of
  the repository validates it.
\<close>

record automation_template =
  atpl_id :: nat
  atpl_name :: string
  atpl_description :: string
  atpl_business_type :: string
  atpl_category :: string
  atpl_workflow_config :: json
  atpl_usage_count :: int
  atpl_is_featured :: bool
  atpl_is_premium :: bool

section \<open>AI service models (ai\_services/models.py)\<close>

text \<open>
  The value of a \<open>DecimalField\<close> read from the database is a \<open>Decimal\<close>; the value
  of one on an instance built from the field's default \<open>0.0\<close> is a \<open>float\<close>. The
  decimal fields that the code assigns or computes with on an instance are therefore of
  type \<open>pynum\<close>; the provider's two cost fields, which are only read from the database,
  are the rationals their \<open>Decimal\<close> values denote.
\<close>

record ai_provider =
  prov_id :: nat
  prov_name :: string
  prov_is_active :: bool
  cost_per_input_token :: rat
  cost_per_output_token :: rat

record ai_model =
  mdl_pk :: nat
  mdl_provider :: nat
  mdl_name :: string
  mdl_model_id :: string
  mdl_model_type :: string
  mdl_min_subscription_tier :: string
  mdl_is_active :: bool

record ai_request =
  req_id :: nat
  req_user :: nat
  req_model :: "nat option"
  req_request_type :: string
  req_status :: string
  req_input_data :: json
  req_processed_input :: string
  req_output_data :: json
  req_input_tokens :: int
  req_output_tokens :: int
  req_total_tokens :: int
  req_cost_usd :: pynum
  req_cost_php :: pynum
  req_response_time_ms :: "int option"
  req_error_message :: string
  req_error_code :: string
  req_retry_count :: int
  req_created_at :: int
  req_completed_at :: "int option"

record ai_template =
  tpl_id :: nat
  tpl_name :: string
  tpl_user_prompt_template :: string
  tpl_usage_count :: int
  tpl_success_rate :: rat
  tpl_is_active :: bool
  tpl_is_premium :: bool

section \<open>Integration models (integrations/models.py)\<close>

record integration =
  int_id :: nat
  int_user :: nat
  int_name :: string
  int_integration_type :: string
  int_service_name :: string
  int_service_url :: string
  int_config_data :: json
  int_is_active :: bool
  int_refresh_token :: string
  int_api_key :: string
  int_api_secret :: string
  int_webhook_secret :: string
  int_health_status :: string
  int_total_requests :: int
  int_successful_requests :: int
  int_failed_requests :: int
  int_created_at :: int
  int_updated_at :: int

record integration_log =
  log_id :: nat
  log_integration :: nat
  log_log_type :: string
  log_method :: string
  log_endpoint :: string
  log_request_data :: json
  log_response_data :: json
  log_status_code :: "int option"
  log_response_time_ms :: "int option"
  log_created_at :: int

record webhook_endpoint =
  wh_id :: nat
  wh_integration :: nat
  wh_name :: string
  wh_url_path :: string
  wh_secret_key :: string
  wh_allowed_ips :: json
  wh_require_signature :: bool
  wh_signature_header :: string
  wh_status :: string
  wh_auto_trigger_workflows :: bool
  wh_total_requests :: int
  wh_successful_requests :: int
  wh_failed_requests :: int
  wh_created_at :: int
  wh_updated_at :: int

section \<open>The database and the outside world\<close>

text \<open>
  One list of rows per table, and the log of calls made to the external AI provider
  (model id, system prompt, user prompt), oldest first. Primary keys (UUIDs and
  automatic integer keys alike) are natural numbers.
\<close>

record state =
  users :: "user list"
  workflows :: "automation_workflow list"
  actions :: "automation_action list"
  executions :: "workflow_execution list"
  automation_templates :: "automation_template list"
  ai_providers :: "ai_provider list"
  ai_models :: "ai_model list"
  ai_requests :: "ai_request list"
  ai_templates :: "ai_template list"
  ai_quotas :: "ai_usage_quota list"
  integrations :: "integration list"
  integration_logs :: "integration_log list"
  webhooks :: "webhook_endpoint list"
  provider_calls :: "(string \<times> string \<times> string) list"

text \<open>A completion of the provider: the message content and the token usage.\<close>

record completion =
  cmp_content :: string
  cmp_prompt_tokens :: int
  cmp_completion_tokens :: int
  cmp_total_tokens :: int

text \<open>
  What a call takes from outside the database: the float rounding \<open>env_fl\<close>; the
  rounding \<open>env_quantize places\<close> of a decimal column to its decimal places; the time
  of the call with the start and end of its month; the UUID and the automatic key that
  the rows created by the call get; the measured response time; the provider's answer to
  \<open>client.chat.completions.create\<close> (an exception, or a completion with a choice and
  its usage); \<open>json.loads\<close>; Python's \<open>str\<close> of a JSON value, \<open>int\<close> of a string
  and \<open>str.format\<close>. The database is the one of \<open>DATABASE_URL\<close>: whether an
  integer column holds a value and whether a \<open>varchar\<close> column of a given length
  holds a string (PostgreSQL refuses an integer out of the range of the column and a
  string longer than the column; SQLite stores both) are \<open>env_int_column\<close> and
  \<open>env_char_column\<close>.
\<close>

record env =
  env_fl :: "rat \<Rightarrow> rat"
  env_quantize :: "nat \<Rightarrow> rat \<Rightarrow> rat"
  env_now :: int
  env_month_start :: int
  env_month_end :: int
  env_uuid :: nat
  env_auto_id :: nat
  env_response_time_ms :: int
  env_chat_completions_create :: "string \<Rightarrow> string \<Rightarrow> string \<Rightarrow> exn + completion"
  env_json_loads :: "string \<Rightarrow> exn + json"
  env_str :: "json \<Rightarrow> string"
  env_format :: "string \<Rightarrow> (string \<times> json) list \<Rightarrow> exn + string"
  env_int :: "string \<Rightarrow> exn + int"
  env_int_column :: "int \<Rightarrow> bool"
  env_char_column :: "nat \<Rightarrow> string \<Rightarrow> bool"

text \<open>An HTTP response of a function view: the status code and the JSON body.\<close>

record response =
  status_code :: nat
  body :: json

text \<open>
  \<open>instance.save()\<close> of a row that exists: the row with the instance's primary key
  is replaced by the instance.
\<close>

definition save_row :: "('a \<Rightarrow> nat) \<Rightarrow> 'a \<Rightarrow> 'a list \<Rightarrow> 'a list" where
  "save_row pk r rows = map (\<lambda>x. if pk x = pk r then r else x) rows"

section \<open>Automation views (automations/views.py)\<close>

text \<open>
  \<open>get_object_or_404(AutomationWorkflow, id=workflow_id, user=request.user)\<close>:
  \<open>None\<close> is the 404 response.
\<close>

definition get_workflow_or_404 :: "state \<Rightarrow> nat \<Rightarrow> user \<Rightarrow> automation_workflow option" where
  "get_workflow_or_404 s workflow_id u =
     find (\<lambda>w. wf_id w = workflow_id \<and> wf_user w = user_id u) (workflows s)"

definition not_found :: response where
  "not_found = \<lparr>status_code = 404, body = JObj [(''detail'', JStr ''Not found.'')]\<rparr>"

text \<open>
  \<open>toggle_workflow_status(request, workflow_id)\<close>. \<open>now\<close> is the time of the call:
  \<open>workflow.save()\<close> writes it to the \<open>auto_now\<close> field \<open>updated_at\<close>.
\<close>

definition toggle_workflow_status :: "int \<Rightarrow> user \<Rightarrow> nat \<Rightarrow> state \<Rightarrow> response \<times> state" where
  "toggle_workflow_status now u workflow_id s =
     (case get_workflow_or_404 s workflow_id u of
        None \<Rightarrow> (not_found, s)
      | Some workflow \<Rightarrow>
          if wf_status workflow = ''active'' then
            (let workflow' = workflow\<lparr>wf_status := ''paused'', wf_updated_at := now\<rparr> in
             (\<lparr>status_code = 200,
               body = JObj [(''message'', JStr ''Workflow paused successfully''),
                            (''status'', JStr (wf_status workflow'))]\<rparr>,
              s\<lparr>workflows := save_row wf_id workflow' (workflows s)\<rparr>))
          else if wf_status workflow = ''paused'' then
            (let workflow' = workflow\<lparr>wf_status := ''active'', wf_updated_at := now\<rparr> in
             (\<lparr>status_code = 200,
               body = JObj [(''message'', JStr ''Workflow activated successfully''),
                            (''status'', JStr (wf_status workflow'))]\<rparr>,
              s\<lparr>workflows := save_row wf_id workflow' (workflows s)\<rparr>))
          else
            (\<lparr>status_code = 400,
              body = JObj [(''error'', JStr ''Cannot toggle disabled workflow'')]\<rparr>, s))"

text \<open>
  \<open>execute_workflow_manually(request, workflow_id)\<close>. \<open>data\<close> is \<open>request.data\<close>, the
  parsed body of the request, whatever JSON value it is (an empty body is the empty
  object); \<open>new_id\<close> is the UUID that \<open>uuid.uuid4\<close> gives the new row, \<open>now\<close> its
  \<open>auto_now_add\<close> time. \<open>request.data.get\<close> exists when the body is an object, and
  raises \<open>AttributeError\<close> on any other value. The value of \<open>trigger_data\<close> is
  passed to \<open>objects.create\<close> as it is: a JSON \<open>null\<close> is Python's \<open>None\<close>, which
  the column (\<open>JSONField\<close> without \<open>null=True\<close>) refuses with \<open>IntegrityError\<close>. An
  exception leaves the view (\<open>Inl\<close>: the framework answers 500). The other fields of the
  new row take the defaults of the model. After the row is created the view only builds
  the response: the call that would queue the execution is a comment.
\<close>

definition execute_workflow_manually ::
  "int \<Rightarrow> nat \<Rightarrow> user \<Rightarrow> json \<Rightarrow> nat \<Rightarrow> state \<Rightarrow> (exn + response) \<times> state" where
  "execute_workflow_manually now new_id u data workflow_id s =
     (case get_workflow_or_404 s workflow_id u of
        None \<Rightarrow> (Inr not_found, s)
      | Some workflow \<Rightarrow>
          if wf_status workflow \<noteq> ''active'' then
            (Inr \<lparr>status_code = 400,
                  body = JObj [(''error'', JStr ''Workflow must be active to execute'')]\<rparr>, s)
          else if wf_use_ai_processing workflow \<and> \<not> can_use_ai u then
            (Inr \<lparr>status_code = 402,
                  body = JObj [(''error'', JStr ''AI usage limit exceeded for your subscription'')]\<rparr>, s)
          else
            (case data of
               JObj items \<Rightarrow>
                 (case dict_get items ''trigger_data'' (JObj []) of
                    JNull \<Rightarrow> (Inl (IntegrityError ''null value in column trigger_data''), s)
                  | trigger_data \<Rightarrow>
                      (let execution =
                         \<lparr>ex_id = new_id, ex_workflow = wf_id workflow, ex_status = ''pending'',
                          ex_trigger_data = trigger_data,
                          ex_execution_log = JArr [], ex_output_data = JObj [],
                          ex_error_message = '''', ex_error_details = JObj [],
                          ex_started_at = now, ex_completed_at = None, ex_duration_seconds = None,
                          ex_ai_calls_made = 0, ex_ai_tokens_used = 0,
                          ex_ai_cost_estimate = PyFloat 0,
                          ex_actions_completed = 0, ex_actions_failed = 0\<rparr>
                       in (Inr \<lparr>status_code = 202,
                                body = JObj [(''message'', JStr ''Workflow execution queued''),
                                             (''execution_id'', JNum (int (ex_id execution)))]\<rparr>,
                           s\<lparr>executions := executions s @ [execution]\<rparr>)))
             | _ \<Rightarrow> (Inl (AttributeError ''object has no attribute get''), s)))"

text \<open>A workflow with its \<open>status\<close> and \<open>updated_at\<close> blanked: all its other fields.\<close>

definition wf_other_fields :: "automation_workflow \<Rightarrow> automation_workflow" where
  "wf_other_fields w = w\<lparr>wf_status := '''', wf_updated_at := 0\<rparr>"

definition example_user :: user where
  "example_user =
     \<lparr>user_id = 1, email = ''ana@example.ph'', company_name = ''Ana Trading'',
      subscription_tier = ''starter'', monthly_ai_calls = 0, business_type = ''retail'',
      preferred_language = ''en''\<rparr>"

definition empty_state :: state where
  "empty_state =
     \<lparr>users = [], workflows = [], actions = [], executions = [], automation_templates = [],
      ai_providers = [], ai_models = [], ai_requests = [], ai_templates = [], ai_quotas = [],
      integrations = [], integration_logs = [], webhooks = [], provider_calls = []\<rparr>"

definition example_state :: state where
  "example_state = empty_state\<lparr>users := [example_user], workflows := [example_workflow]\<rparr>"

section \<open>Generic views of the REST framework\<close>

text \<open>
  The class-based views of the repository declare a queryset (\<open>get_queryset\<close>), a
  serializer and, for some, \<open>perform_create\<close>; listing, retrieving, updating and
  deleting are the framework's. \<open>get_object\<close> looks the primary key of the URL up in
  the view's queryset (404 when it is not there); a list view returns a page of its
  queryset (where a view declares filter, search and ordering backends, they narrow and
  reorder the queryset by the query parameters; the model lists it without query
  parameters). A class-based view answers with a status code and the rows it
  serialises.
\<close>

definition get_object :: "('a \<Rightarrow> nat) \<Rightarrow> 'a list \<Rightarrow> nat \<Rightarrow> 'a option" where
  "get_object pk queryset k = find (\<lambda>r. pk r = k) queryset"

text \<open>
  Lists are paginated (\<open>PageNumberPagination\<close>, \<open>PAGE_SIZE = 20\<close> in the settings):
  page 1 always exists, a later page exists when the queryset reaches it, and a page
  that does not exist is a 404.
\<close>

definition paginate :: "nat \<Rightarrow> 'a list \<Rightarrow> 'a list option" where
  "paginate page queryset =
     (if page = 0 then None
      else if page = 1 then Some (take 20 queryset)
      else if 20 * (page - 1) < length queryset
      then Some (take 20 (drop (20 * (page - 1)) queryset))
      else None)"

definition list_view :: "nat \<Rightarrow> 'a list \<Rightarrow> 's \<Rightarrow> (nat \<times> 'a list) \<times> 's" where
  "list_view page queryset s =
     (case paginate page queryset of
        None \<Rightarrow> ((404, []), s)
      | Some rows \<Rightarrow> ((200, rows), s))"

definition retrieve_view :: "('a \<Rightarrow> nat) \<Rightarrow> 'a list \<Rightarrow> nat \<Rightarrow> 's \<Rightarrow> (nat \<times> 'a list) \<times> 's" where
  "retrieve_view pk queryset k s =
     (case get_object pk queryset k of
        None \<Rightarrow> ((404, []), s)
      | Some r \<Rightarrow> ((200, [r]), s))"

text \<open>
  \<open>update_view\<close>: \<open>change\<close> is the serializer's \<open>update\<close> (it sets the writable
  fields present in the validated data), \<open>store\<close> writes the instance to its table.
\<close>

definition update_view ::
  "('a \<Rightarrow> nat) \<Rightarrow> 'a list \<Rightarrow> nat \<Rightarrow> ('a \<Rightarrow> 'a) \<Rightarrow> ('a \<Rightarrow> 's \<Rightarrow> 's) \<Rightarrow> 's \<Rightarrow> (nat \<times> 'a list) \<times> 's" where
  "update_view pk queryset k change store s =
     (case get_object pk queryset k of
        None \<Rightarrow> ((404, []), s)
      | Some r \<Rightarrow> ((200, [change r]), store (change r) s))"

definition destroy_view ::
  "('a \<Rightarrow> nat) \<Rightarrow> 'a list \<Rightarrow> nat \<Rightarrow> ('a \<Rightarrow> 's \<Rightarrow> 's) \<Rightarrow> 's \<Rightarrow> (nat \<times> 'a list) \<times> 's" where
  "destroy_view pk queryset k delete s =
     (case get_object pk queryset k of
        None \<Rightarrow> ((404, []), s)
      | Some r \<Rightarrow> ((204, []), delete r s))"

text \<open>A field of the validated data of a partial update: absent, or the new value.\<close>

definition field :: "'a option \<Rightarrow> 'a \<Rightarrow> 'a" where
  "field new old = (case new of None \<Rightarrow> old | Some v \<Rightarrow> v)"

section \<open>Class-based automation views (automations/views.py)\<close>

text \<open>The writable fields of \<open>AutomationWorkflowDetailSerializer\<close>, after validation.\<close>

record workflow_data =
  d_name :: "string option"
  d_description :: "string option"
  d_status :: "string option"
  d_trigger_type :: "string option"
  d_trigger_config :: "json option"
  d_ai_instructions :: "string option"
  d_use_ai_processing :: "bool option"
  d_ai_model_preference :: "string option"
  d_business_hours_only :: "bool option"
  d_language_context :: "string option"

definition update_workflow :: "int \<Rightarrow> workflow_data \<Rightarrow> automation_workflow \<Rightarrow> automation_workflow" where
  "update_workflow now d w =
     w\<lparr>wf_name := field (d_name d) (wf_name w),
       wf_description := field (d_description d) (wf_description w),
       wf_status := field (d_status d) (wf_status w),
       wf_trigger_type := field (d_trigger_type d) (wf_trigger_type w),
       wf_trigger_config := field (d_trigger_config d) (wf_trigger_config w),
       wf_ai_instructions := field (d_ai_instructions d) (wf_ai_instructions w),
       wf_use_ai_processing := field (d_use_ai_processing d) (wf_use_ai_processing w),
       wf_ai_model_preference := field (d_ai_model_preference d) (wf_ai_model_preference w),
       wf_business_hours_only := field (d_business_hours_only d) (wf_business_hours_only w),
       wf_language_context := field (d_language_context d) (wf_language_context w),
       wf_updated_at := now\<rparr>"

text \<open>
  \<open>AutomationWorkflowCreateSerializer.create\<close>: the user is the requesting user; the
  serializer has no \<open>status\<close> field, so the status is the model's default.
\<close>

definition create_workflow :: "int \<Rightarrow> nat \<Rightarrow> user \<Rightarrow> workflow_data \<Rightarrow> automation_workflow" where
  "create_workflow now new_id u d =
     \<lparr>wf_id = new_id, wf_user = user_id u,
      wf_name = field (d_name d) '''',
      wf_description = field (d_description d) '''',
      wf_status = ''active'',
      wf_trigger_type = field (d_trigger_type d) '''',
      wf_trigger_config = field (d_trigger_config d) (JObj []),
      wf_ai_instructions = field (d_ai_instructions d) '''',
      wf_use_ai_processing = field (d_use_ai_processing d) True,
      wf_ai_model_preference = field (d_ai_model_preference d) ''auto'',
      wf_total_executions = 0, wf_successful_executions = 0, wf_failed_executions = 0,
      wf_last_executed = None,
      wf_business_hours_only = field (d_business_hours_only d) True,
      wf_language_context = field (d_language_context d) ''mixed'',
      wf_created_at = now, wf_updated_at = now\<rparr>"

text \<open>\<open>AutomationWorkflowListView\<close> and \<open>AutomationWorkflowDetailView\<close>.\<close>

definition workflow_queryset :: "user \<Rightarrow> state \<Rightarrow> automation_workflow list" where
  "workflow_queryset u s = filter (\<lambda>w. wf_user w = user_id u) (workflows s)"

definition workflow_list :: "nat \<Rightarrow> user \<Rightarrow> state \<Rightarrow> (nat \<times> automation_workflow list) \<times> state" where
  "workflow_list page u s = list_view page (workflow_queryset u s) s"

definition workflow_create ::
  "int \<Rightarrow> nat \<Rightarrow> user \<Rightarrow> workflow_data \<Rightarrow> state \<Rightarrow> (nat \<times> automation_workflow list) \<times> state" where
  "workflow_create now new_id u d s =
     (let w = create_workflow now new_id u d
      in ((201, [w]), s\<lparr>workflows := workflows s @ [w]\<rparr>))"

definition workflow_retrieve :: "user \<Rightarrow> nat \<Rightarrow> state \<Rightarrow> (nat \<times> automation_workflow list) \<times> state" where
  "workflow_retrieve u k s = retrieve_view wf_id (workflow_queryset u s) k s"

definition workflow_update ::
  "int \<Rightarrow> user \<Rightarrow> nat \<Rightarrow> workflow_data \<Rightarrow> state \<Rightarrow> (nat \<times> automation_workflow list) \<times> state" where
  "workflow_update now u k d s =
     update_view wf_id (workflow_queryset u s) k (update_workflow now d)
       (\<lambda>w s. s\<lparr>workflows := save_row wf_id w (workflows s)\<rparr>) s"

text \<open>
  Deleting a workflow deletes its actions and its executions with it
  (\<open>on_delete=models.CASCADE\<close> on both foreign keys).
\<close>

definition delete_workflow :: "automation_workflow \<Rightarrow> state \<Rightarrow> state" where
  "delete_workflow w s =
     s\<lparr>workflows := filter (\<lambda>x. wf_id x \<noteq> wf_id w) (workflows s),
       actions := filter (\<lambda>a. act_workflow a \<noteq> wf_id w) (actions s),
       executions := filter (\<lambda>e. ex_workflow e \<noteq> wf_id w) (executions s)\<rparr>"

definition workflow_destroy :: "user \<Rightarrow> nat \<Rightarrow> state \<Rightarrow> (nat \<times> automation_workflow list) \<times> state" where
  "workflow_destroy u k s = destroy_view wf_id (workflow_queryset u s) k delete_workflow s"

text \<open>
  \<open>AutomationActionListView\<close> and \<open>AutomationActionDetailView\<close>. The related manager
  \<open>workflow.actions.all()\<close> gives the actions of the workflow in the order of
  \<open>Meta.ordering = ['order']\<close>. \<open>None\<close> is the 404 of \<open>get_object_or_404\<close>.
\<close>

definition workflow_actions :: "automation_workflow \<Rightarrow> state \<Rightarrow> automation_action list" where
  "workflow_actions w s = sort_key act_order (filter (\<lambda>a. act_workflow a = wf_id w) (actions s))"

definition action_queryset :: "user \<Rightarrow> nat \<Rightarrow> state \<Rightarrow> automation_action list option" where
  "action_queryset u workflow_id s =
     (case get_workflow_or_404 s workflow_id u of
        None \<Rightarrow> None
      | Some workflow \<Rightarrow> Some (workflow_actions workflow s))"

record action_data =
  d_act_name :: "string option"
  d_act_action_type :: "string option"
  d_act_action_config :: "json option"
  d_act_order :: "int option"
  d_act_conditions :: "json option"
  d_act_is_conditional :: "bool option"
  d_act_ai_enhanced :: "bool option"
  d_act_ai_prompt_template :: "string option"
  d_act_retry_on_failure :: "bool option"
  d_act_max_retries :: "int option"
  d_act_delay_seconds :: "int option"

definition update_action :: "int \<Rightarrow> action_data \<Rightarrow> automation_action \<Rightarrow> automation_action" where
  "update_action now d a =
     a\<lparr>act_name := field (d_act_name d) (act_name a),
       act_action_type := field (d_act_action_type d) (act_action_type a),
       act_action_config := field (d_act_action_config d) (act_action_config a),
       act_order := field (d_act_order d) (act_order a),
       act_conditions := field (d_act_conditions d) (act_conditions a),
       act_is_conditional := field (d_act_is_conditional d) (act_is_conditional a),
       act_ai_enhanced := field (d_act_ai_enhanced d) (act_ai_enhanced a),
       act_ai_prompt_template := field (d_act_ai_prompt_template d) (act_ai_prompt_template a),
       act_retry_on_failure := field (d_act_retry_on_failure d) (act_retry_on_failure a),
       act_max_retries := field (d_act_max_retries d) (act_max_retries a),
       act_delay_seconds := field (d_act_delay_seconds d) (act_delay_seconds a),
       act_updated_at := now\<rparr>"

definition create_action :: "int \<Rightarrow> nat \<Rightarrow> automation_workflow \<Rightarrow> action_data \<Rightarrow> automation_action" where
  "create_action now new_id workflow d =
     \<lparr>act_id = new_id, act_workflow = wf_id workflow,
      act_name = field (d_act_name d) '''',
      act_action_type = field (d_act_action_type d) '''',
      act_action_config = field (d_act_action_config d) (JObj []),
      act_order = field (d_act_order d) 0,
      act_conditions = field (d_act_conditions d) (JObj []),
      act_is_conditional = field (d_act_is_conditional d) False,
      act_ai_enhanced = field (d_act_ai_enhanced d) False,
      act_ai_prompt_template = field (d_act_ai_prompt_template d) '''',
      act_retry_on_failure = field (d_act_retry_on_failure d) True,
      act_max_retries = field (d_act_max_retries d) 3,
      act_delay_seconds = field (d_act_delay_seconds d) 0,
      act_created_at = now, act_updated_at = now\<rparr>"

definition action_list :: "nat \<Rightarrow> user \<Rightarrow> nat \<Rightarrow> state \<Rightarrow> (nat \<times> automation_action list) \<times> state" where
  "action_list page u workflow_id s =
     (case action_queryset u workflow_id s of
        None \<Rightarrow> ((404, []), s)
      | Some queryset \<Rightarrow> list_view page queryset s)"

definition action_create ::
  "int \<Rightarrow> nat \<Rightarrow> user \<Rightarrow> nat \<Rightarrow> action_data \<Rightarrow> state \<Rightarrow> (nat \<times> automation_action list) \<times> state" where
  "action_create now new_id u workflow_id d s =
     (case get_workflow_or_404 s workflow_id u of
        None \<Rightarrow> ((404, []), s)
      | Some workflow \<Rightarrow>
          (let a = create_action now new_id workflow d
           in ((201, [a]), s\<lparr>actions := actions s @ [a]\<rparr>)))"

definition action_retrieve :: "user \<Rightarrow> nat \<Rightarrow> nat \<Rightarrow> state \<Rightarrow> (nat \<times> automation_action list) \<times> state" where
  "action_retrieve u workflow_id k s =
     (case action_queryset u workflow_id s of
        None \<Rightarrow> ((404, []), s)
      | Some queryset \<Rightarrow> retrieve_view act_id queryset k s)"

definition action_update ::
  "int \<Rightarrow> user \<Rightarrow> nat \<Rightarrow> nat \<Rightarrow> action_data \<Rightarrow> state \<Rightarrow> (nat \<times> automation_action list) \<times> state" where
  "action_update now u workflow_id k d s =
     (case action_queryset u workflow_id s of
        None \<Rightarrow> ((404, []), s)
      | Some queryset \<Rightarrow>
          update_view act_id queryset k (update_action now d)
            (\<lambda>a s. s\<lparr>actions := save_row act_id a (actions s)\<rparr>) s)"

definition action_destroy :: "user \<Rightarrow> nat \<Rightarrow> nat \<Rightarrow> state \<Rightarrow> (nat \<times> automation_action list) \<times> state" where
  "action_destroy u workflow_id k s =
     (case action_queryset u workflow_id s of
        None \<Rightarrow> ((404, []), s)
      | Some queryset \<Rightarrow>
          destroy_view act_id queryset k
            (\<lambda>a s. s\<lparr>actions := filter (\<lambda>x. act_id x \<noteq> act_id a) (actions s)\<rparr>) s)"

text \<open>
  \<open>WorkflowExecutionListView\<close> and \<open>WorkflowExecutionDetailView\<close>: the filter
  \<open>workflow__user=self.request.user\<close> joins the execution with its workflow.
\<close>

definition execution_queryset :: "user \<Rightarrow> state \<Rightarrow> workflow_execution list" where
  "execution_queryset u s =
     filter (\<lambda>e. \<exists>w \<in> set (workflows s). wf_id w = ex_workflow e \<and> wf_user w = user_id u)
       (executions s)"

definition execution_list :: "nat \<Rightarrow> user \<Rightarrow> state \<Rightarrow> (nat \<times> workflow_execution list) \<times> state" where
  "execution_list page u s = list_view page (execution_queryset u s) s"

definition execution_retrieve :: "user \<Rightarrow> nat \<Rightarrow> state \<Rightarrow> (nat \<times> workflow_execution list) \<times> state" where
  "execution_retrieve u k s = retrieve_view ex_id (execution_queryset u s) k s"

text \<open>\<open>AutomationTemplateListView\<close> and \<open>AutomationTemplateDetailView\<close>.\<close>

definition template_queryset :: "user \<Rightarrow> state \<Rightarrow> automation_template list" where
  "template_queryset u s =
     (if subscription_tier u = ''starter''
      then filter (\<lambda>t. atpl_is_premium t = False) (automation_templates s)
      else automation_templates s)"

definition template_list :: "nat \<Rightarrow> user \<Rightarrow> state \<Rightarrow> (nat \<times> automation_template list) \<times> state" where
  "template_list page u s = list_view page (template_queryset u s) s"

definition template_retrieve :: "user \<Rightarrow> nat \<Rightarrow> state \<Rightarrow> (nat \<times> automation_template list) \<times> state" where
  "template_retrieve u k s = retrieve_view atpl_id (template_queryset u s) k s"

section \<open>Creating a workflow from a template (automations/views.py)\<close>

text \<open>
  What \<open>objects.create\<close> makes of a Python value given for a field when it writes the
  row; \<open>None\<close> is SQL \<open>NULL\<close>. A \<open>CharField\<close> or \<open>TextField\<close> keeps a string
  and takes \<open>str\<close> of any other value. An \<open>IntegerField\<close> takes \<open>int\<close> of the
  value: a float is truncated towards zero, a boolean is 0 or 1, a string is parsed, and a
  list or a dict raises \<open>TypeError\<close>. A \<open>BooleanField\<close> takes the values equal to
  \<open>True\<close> or \<open>False\<close> (1 and 0 among them) and six strings, and raises
  \<open>ValidationError\<close> on any other.
\<close>

definition char_value :: "env \<Rightarrow> json \<Rightarrow> string option" where
  "char_value env v =
     (case v of
        JNull \<Rightarrow> None
      | JStr text \<Rightarrow> Some text
      | _ \<Rightarrow> Some (env_str env v))"

definition integer_value :: "env \<Rightarrow> json \<Rightarrow> exn + int option" where
  "integer_value env v =
     (case v of
        JNull \<Rightarrow> Inr None
      | JBool b \<Rightarrow> Inr (Some (if b then 1 else 0))
      | JNum i \<Rightarrow> Inr (Some i)
      | JReal x \<Rightarrow> Inr (Some (if 0 \<le> x then \<lfloor>x\<rfloor> else \<lceil>x\<rceil>))
      | JStr text \<Rightarrow>
          (case env_int env text of
             Inl e \<Rightarrow> Inl (ValueError ''Field expected a number'')
           | Inr i \<Rightarrow> Inr (Some i))
      | JArr items \<Rightarrow> Inl (TypeError ''Field expected a number'')
      | JObj items \<Rightarrow> Inl (TypeError ''Field expected a number''))"

definition boolean_value :: "json \<Rightarrow> exn + bool option" where
  "boolean_value v =
     (case v of
        JNull \<Rightarrow> Inr None
      | JBool b \<Rightarrow> Inr (Some b)
      | JNum i \<Rightarrow>
          if i = 1 then Inr (Some True) else if i = 0 then Inr (Some False)
          else Inl (ValidationError ''value must be either True or False'')
      | JReal x \<Rightarrow>
          if x = 1 then Inr (Some True) else if x = 0 then Inr (Some False)
          else Inl (ValidationError ''value must be either True or False'')
      | JStr text \<Rightarrow>
          if text \<in> set [''t'', ''True'', ''1''] then Inr (Some True)
          else if text \<in> set [''f'', ''False'', ''0''] then Inr (Some False)
          else Inl (ValidationError ''value must be either True or False'')
      | JArr items \<Rightarrow> Inl (ValidationError ''value must be either True or False'')
      | JObj items \<Rightarrow> Inl (ValidationError ''value must be either True or False''))"

text \<open>
  \<open>for x in value\<close>: a list gives its items, a dict its keys, a string its
  characters; no other JSON value is iterable.
\<close>

definition iterate :: "json \<Rightarrow> exn + json list" where
  "iterate v =
     (case v of
        JArr items \<Rightarrow> Inr items
      | JObj items \<Rightarrow> Inr (map (\<lambda>kv. JStr (fst kv)) items)
      | JStr text \<Rightarrow> Inr (map (\<lambda>c. JStr [c]) text)
      | _ \<Rightarrow> Inl (TypeError ''object is not iterable''))"

text \<open>
  \<open>AutomationAction.objects.create(workflow=workflow, name=action_config.get('name', ''),
  ...)\<close> for one action of the template, a dict. The values are converted in the order
  of the model's fields, so that an exception of \<open>order\<close> comes before one of
  \<open>ai_enhanced\<close>; then the database refuses a \<open>NULL\<close> (none of the columns is
  nullable; \<open>action_type\<close> is read without a default), an integer out of the range
  of the column and a string longer than its \<open>varchar\<close>.
\<close>

definition template_action_row ::
  "env \<Rightarrow> nat \<Rightarrow> automation_workflow \<Rightarrow> (string \<times> json) list \<Rightarrow> exn + automation_action" where
  "template_action_row env new_id workflow action_config =
     (case integer_value env (dict_get action_config ''order'' (JNum 0)) of
        Inl e \<Rightarrow> Inl e
      | Inr order_value \<Rightarrow>
          (case boolean_value (dict_get action_config ''ai_enhanced'' (JBool False)) of
             Inl e \<Rightarrow> Inl e
           | Inr ai_enhanced_value \<Rightarrow>
               (case (char_value env (dict_get action_config ''name'' (JStr [])),
                      char_value env (dict_get action_config ''action_type'' JNull),
                      order_value, ai_enhanced_value,
                      char_value env (dict_get action_config ''ai_prompt_template'' (JStr []))) of
                  (Some name, Some action_type, Some order, Some ai_enhanced, Some prompt) \<Rightarrow>
                    if dict_get action_config ''action_config'' (JObj []) = JNull
                    then Inl (IntegrityError ''null value in column action_config'')
                    else if \<not> (env_char_column env 255 name \<and> env_char_column env 50 action_type
                                 \<and> env_int_column env order)
                    then Inl (DataError ''value out of range for its column'')
                    else
                      Inr \<lparr>act_id = new_id, act_workflow = wf_id workflow,
                           act_name = name,
                           act_action_type = action_type,
                           act_action_config = dict_get action_config ''action_config'' (JObj []),
                           act_order = order,
                           act_conditions = JObj [],
                           act_is_conditional = False,
                           act_ai_enhanced = ai_enhanced,
                           act_ai_prompt_template = prompt,
                           act_retry_on_failure = True,
                           act_max_retries = 3,
                           act_delay_seconds = 0,
                           act_created_at = env_now env, act_updated_at = env_now env\<rparr>
                | _ \<Rightarrow> Inl (IntegrityError ''null value in a column that is not nullable''))))"

text \<open>
  The loop over the template's actions. The automatic primary keys are \<open>next_id\<close>,
  \<open>next_id + 1\<close>, ... An item that is not a dict has no \<open>.get\<close>
  (\<open>AttributeError\<close>). An exception ends the loop, and the rows written before it
  stay (the view runs in no transaction).
\<close>

fun create_template_actions ::
  "env \<Rightarrow> nat \<Rightarrow> automation_workflow \<Rightarrow> json list \<Rightarrow> state \<Rightarrow> exn option \<times> state" where
  "create_template_actions env next_id workflow [] s = (None, s)"
| "create_template_actions env next_id workflow (item # rest) s =
     (case item of
        JObj action_config \<Rightarrow>
          (case template_action_row env next_id workflow action_config of
             Inl e \<Rightarrow> (Some e, s)
           | Inr action \<Rightarrow>
               create_template_actions env (Suc next_id) workflow rest
                 (s\<lparr>actions := actions s @ [action]\<rparr>))
      | _ \<Rightarrow> (Some (AttributeError ''object has no attribute get''), s))"

text \<open>\<open>AutomationTemplate.increment_usage\<close>.\<close>

definition increment_usage :: "automation_template \<Rightarrow> state \<Rightarrow> state" where
  "increment_usage t s =
     s\<lparr>automation_templates :=
         save_row atpl_id (t\<lparr>atpl_usage_count := atpl_usage_count t + 1\<rparr>) (automation_templates s)\<rparr>"

text \<open>
  \<open>create_workflow_from_template(request)\<close>. \<open>template_id\<close> and \<open>workflow_name\<close>
  are the validated data of the request. The serializer's \<open>validate_template_id\<close>
  answers 400 when the template does not exist or is premium and the user is on the
  starter tier. \<open>template.workflow_config.get\<close> exists when the document is an object.
  The workflow is created from the values the document holds, converted as above
  (\<open>use_ai_processing\<close> is its only field whose conversion can raise), and then the
  actions. The response carries the new workflow and, nested, its actions as
  \<open>workflow.actions.all()\<close> lists them. An exception leaves the view (\<open>Inl\<close>).
\<close>

definition template_workflow_row ::
  "env \<Rightarrow> nat \<Rightarrow> user \<Rightarrow> automation_template \<Rightarrow> string \<Rightarrow> (string \<times> json) list
     \<Rightarrow> exn + automation_workflow" where
  "template_workflow_row env new_id u template workflow_name config =
     (case boolean_value (dict_get config ''use_ai_processing'' (JBool True)) of
        Inl e \<Rightarrow> Inl e
      | Inr use_ai_processing_value \<Rightarrow>
          (case (char_value env (dict_get config ''trigger_type'' (JStr ''manual'')),
                 char_value env (dict_get config ''ai_instructions'' (JStr [])),
                 use_ai_processing_value,
                 char_value env (dict_get config ''language_context'' (JStr ''mixed''))) of
             (Some trigger_type, Some ai_instructions, Some use_ai_processing, Some language_context) \<Rightarrow>
               if dict_get config ''trigger_config'' (JObj []) = JNull
               then Inl (IntegrityError ''null value in column trigger_config'')
               else if \<not> (env_char_column env 50 trigger_type \<and> env_char_column env 10 language_context)
               then Inl (DataError ''value out of range for its column'')
               else
                 Inr \<lparr>wf_id = new_id, wf_user = user_id u,
                      wf_name = workflow_name,
                      wf_description = ''Created from template: '' @ atpl_name template,
                      wf_status = ''active'',
                      wf_trigger_type = trigger_type,
                      wf_trigger_config = dict_get config ''trigger_config'' (JObj []),
                      wf_ai_instructions = ai_instructions,
                      wf_use_ai_processing = use_ai_processing,
                      wf_ai_model_preference = ''auto'',
                      wf_total_executions = 0, wf_successful_executions = 0,
                      wf_failed_executions = 0, wf_last_executed = None,
                      wf_business_hours_only = True,
                      wf_language_context = language_context,
                      wf_created_at = env_now env, wf_updated_at = env_now env\<rparr>
           | _ \<Rightarrow> Inl (IntegrityError ''null value in a column that is not nullable'')))"

definition create_workflow_from_template ::
  "env \<Rightarrow> user \<Rightarrow> nat \<Rightarrow> string \<Rightarrow> state
     \<Rightarrow> (exn + nat \<times> automation_workflow list \<times> automation_action list) \<times> state" where
  "create_workflow_from_template env u template_id workflow_name s =
     (case find (\<lambda>t. atpl_id t = template_id) (automation_templates s) of
        None \<Rightarrow> (Inr (400, [], []), s)
      | Some template \<Rightarrow>
          if atpl_is_premium template \<and> subscription_tier u = ''starter''
          then (Inr (400, [], []), s)
          else
            (case atpl_workflow_config template of
               JObj config \<Rightarrow>
                 (case template_workflow_row env (env_uuid env) u template workflow_name config of
                    Inl e \<Rightarrow> (Inl e, s)
                  | Inr workflow \<Rightarrow>
                      (let s1 = s\<lparr>workflows := workflows s @ [workflow]\<rparr>
                       in case iterate (dict_get config ''actions'' (JArr [])) of
                            Inl e \<Rightarrow> (Inl e, s1)
                          | Inr items \<Rightarrow>
                              (case create_template_actions env (env_auto_id env) workflow items s1 of
                                 (Some e, s2) \<Rightarrow> (Inl e, s2)
                               | (None, s2) \<Rightarrow>
                                   (let s3 = increment_usage template s2
                                    in (Inr (201, [workflow], workflow_actions workflow s3), s3)))))
             | _ \<Rightarrow> (Inl (AttributeError ''object has no attribute get''), s)))"

definition example_template :: automation_template where
  "example_template =
     \<lparr>atpl_id = 5, atpl_name = ''Lead follow-up'', atpl_description = [],
      atpl_business_type = ''retail'', atpl_category = ''sales_marketing'',
      atpl_workflow_config =
        JObj [(''trigger_type'', JStr ''email''),
              (''use_ai_processing'', JBool False),
              (''actions'',
               JArr [JObj [(''name'', JStr ''Notify''), (''action_type'', JStr ''send_email''),
                           (''order'', JNum 2)],
                     JObj [(''name'', JStr ''Task''), (''action_type'', JStr ''create_task''),
                           (''order'', JNum 1)]])],
      atpl_usage_count = 0, atpl_is_featured = False, atpl_is_premium = False\<rparr>"

text \<open>The same template with the order 2.7 for its first action.\<close>

definition fractional_template :: automation_template where
  "fractional_template =
     example_template
       \<lparr>atpl_workflow_config :=
          JObj [(''trigger_type'', JStr ''email''),
                (''use_ai_processing'', JBool False),
                (''actions'',
                 JArr [JObj [(''name'', JStr ''Notify''), (''action_type'', JStr ''send_email''),
                             (''order'', JReal (27 / 10))],
                       JObj [(''name'', JStr ''Task''), (''action_type'', JStr ''create_task''),
                             (''order'', JNum 1)]])]\<rparr>"

definition template_state :: state where
  "template_state = example_state\<lparr>automation_templates := [example_template]\<rparr>"

section \<open>The AI service (ai\_services/services.py)\<close>

text \<open>Writing an instance to its row converts its decimal fields to the column's type.\<close>

definition to_decimal :: "env \<Rightarrow> nat \<Rightarrow> pynum \<Rightarrow> pynum" where
  "to_decimal env places x = PyDecimal (env_quantize env places (pyval x))"

definition quota_to_db :: "env \<Rightarrow> ai_usage_quota \<Rightarrow> ai_usage_quota" where
  "quota_to_db env q =
     q\<lparr>max_cost_usd := to_decimal env 4 (max_cost_usd q),
       current_cost_usd := to_decimal env 4 (current_cost_usd q)\<rparr>"

definition request_to_db :: "env \<Rightarrow> ai_request \<Rightarrow> ai_request" where
  "request_to_db env r =
     r\<lparr>req_cost_usd := to_decimal env 6 (req_cost_usd r),
       req_cost_php := to_decimal env 4 (req_cost_php r)\<rparr>"

text \<open>\<open>AIUsageQuota.update_usage\<close>: the instance after the call and the database.\<close>

definition update_usage ::
  "env \<Rightarrow> ai_usage_quota \<Rightarrow> int \<Rightarrow> int \<Rightarrow> pynum \<Rightarrow> state \<Rightarrow> (exn + ai_usage_quota) \<times> state" where
  "update_usage env self requests tokens cost_usd s =
     (let self1 = self\<lparr>current_requests := current_requests self + requests\<rparr>;
          self2 = self1\<lparr>current_tokens := current_tokens self1 + tokens\<rparr>
      in case py_add (env_fl env) (current_cost_usd self2) cost_usd of
           Inl e \<Rightarrow> (Inl e, s)
         | Inr c \<Rightarrow>
             (let self3 = self2\<lparr>current_cost_usd := c\<rparr>;
                  self4 = self3\<lparr>is_exceeded :=
                            (current_requests self3 \<ge> max_requests self3
                             \<or> current_tokens self3 \<ge> max_tokens self3
                             \<or> py_ge (current_cost_usd self3) (max_cost_usd self3))\<rparr>
              in (Inr self4,
                  s\<lparr>ai_quotas := save_row q_id (quota_to_db env self4) (ai_quotas s)\<rparr>)))"

text \<open>\<open>OpenRouterService.get_available_model\<close>.\<close>

definition model_priorities :: "string \<Rightarrow> string list" where
  "model_priorities tier =
     (case map_of
        [(''starter'', [''deepseek/deepseek-r1'', ''meta-llama/llama-3.2-3b-instruct:free'']),
         (''business'', [''openai/gpt-4o-mini'', ''anthropic/claude-3.5-haiku'']),
         (''pro'', [''anthropic/claude-3.5-sonnet'', ''openai/gpt-4o'', ''deepseek/deepseek-r1''])]
        tier of
        None \<Rightarrow> [''deepseek/deepseek-r1'', ''meta-llama/llama-3.2-3b-instruct:free'']
      | Some l \<Rightarrow> l)"

text \<open>\<open>AIModel.objects.get(model_id=..., model_type=..., is_active=True)\<close>.\<close>

definition get_ai_model :: "state \<Rightarrow> string \<Rightarrow> string \<Rightarrow> exn + ai_model" where
  "get_ai_model s model_id model_type =
     (case filter (\<lambda>m. mdl_model_id m = model_id \<and> mdl_model_type m = model_type \<and> mdl_is_active m)
             (ai_models s) of
        [] \<Rightarrow> Inl (DoesNotExist ''AIModel matching query does not exist.'')
      | [m] \<Rightarrow> Inr m
      | _ \<Rightarrow> Inl (MultipleObjectsReturned ''get() returned more than one AIModel''))"

fun first_preferred :: "state \<Rightarrow> string \<Rightarrow> string list \<Rightarrow> exn + ai_model option" where
  "first_preferred s model_type [] = Inr None"
| "first_preferred s model_type (model_id # rest) =
     (case get_ai_model s model_id model_type of
        Inr m \<Rightarrow> Inr (Some m)
      | Inl (DoesNotExist msg) \<Rightarrow> first_preferred s model_type rest
      | Inl e \<Rightarrow> Inl e)"

definition get_available_model :: "state \<Rightarrow> string \<Rightarrow> string \<Rightarrow> exn + ai_model option" where
  "get_available_model s user_subscription_tier model_type =
     (case first_preferred s model_type (model_priorities user_subscription_tier) of
        Inl e \<Rightarrow> Inl e
      | Inr (Some m) \<Rightarrow> Inr (Some m)
      | Inr None \<Rightarrow>
          Inr (find (\<lambda>m. mdl_model_type m = model_type \<and> mdl_is_active m
                        \<and> mdl_min_subscription_tier m \<in> set [''starter'', user_subscription_tier])
                 (sort_key mdl_pk (ai_models s))))"

text \<open>
  \<open>AIUsageQuota.objects.get_or_create\<close> for the user's current month, as
  \<open>check_usage_quota\<close> and the view \<open>ai_quota_status\<close> call it (they differ in the
  \<open>max_cost_usd\<close> they pass: a \<open>Decimal\<close> and a float). A row that exists is returned
  as the database holds it. A new instance keeps the values it was built from, the
  float default \<open>0.0\<close> of \<open>current_cost_usd\<close> among them; its row holds decimals.
\<close>

definition get_or_create_quota :: "env \<Rightarrow> user \<Rightarrow> pynum \<Rightarrow> state \<Rightarrow> (ai_usage_quota \<times> bool) \<times> state" where
  "get_or_create_quota env u max_cost s =
     (case find (\<lambda>q. q_user q = user_id u \<and> q_period_type q = ''monthly''
                     \<and> q_period_start q = env_month_start env) (ai_quotas s) of
        Some q \<Rightarrow> ((q, False), s)
      | None \<Rightarrow>
          (let q = \<lparr>q_id = env_auto_id env, q_user = user_id u, q_period_type = ''monthly'',
                    q_period_start = env_month_start env, q_period_end = env_month_end env,
                    max_requests = ai_usage_limit u, max_tokens = ai_usage_limit u * 1000,
                    max_cost_usd = max_cost,
                    current_requests = 0, current_tokens = 0, current_cost_usd = PyFloat 0,
                    is_exceeded = False\<rparr>
           in ((q, True), s\<lparr>ai_quotas := ai_quotas s @ [quota_to_db env q]\<rparr>)))"

record quota_check =
  can_use :: bool
  requests_remaining :: int
  qc_requests_percentage :: pynum
  quota :: ai_usage_quota

text \<open>\<open>OpenRouterService.check_usage_quota\<close>.\<close>

definition check_usage_quota :: "env \<Rightarrow> user \<Rightarrow> state \<Rightarrow> (exn + quota_check) \<times> state" where
  "check_usage_quota env u s =
     (case get_or_create_quota env u
             (if subscription_tier u = ''starter'' then PyDecimal 10 else PyDecimal 50) s of
        ((q, created), s1) \<Rightarrow>
          (case requests_percentage (env_fl env) q of
             Inl e \<Rightarrow> (Inl e, s1)
           | Inr p \<Rightarrow>
               (Inr \<lparr>can_use = (\<not> is_exceeded q \<and> current_requests q < max_requests q),
                     requests_remaining = max 0 (max_requests q - current_requests q),
                     qc_requests_percentage = p,
                     quota = q\<rparr>, s1)))"

text \<open>
  \<open>OpenRouterService._calculate_cost\<close>. The two products and their sum are exact
  (\<open>Decimal\<close> arithmetic keeps 28 significant digits).
\<close>

definition calculate_cost :: "state \<Rightarrow> ai_model \<Rightarrow> int \<Rightarrow> int \<Rightarrow> exn + pynum" where
  "calculate_cost s model input_tokens output_tokens =
     (case find (\<lambda>p. prov_id p = mdl_provider model) (ai_providers s) of
        None \<Rightarrow> Inl (DoesNotExist ''AIModel has no provider.'')
      | Some provider \<Rightarrow>
          (let input_cost = cost_per_input_token provider * of_int input_tokens;
               output_cost = cost_per_output_token provider * of_int output_tokens
           in Inr (PyDecimal (input_cost + output_cost))))"

text \<open>\<open>ai_request.save()\<close>.\<close>

definition save_request :: "env \<Rightarrow> ai_request \<Rightarrow> state \<Rightarrow> state" where
  "save_request env r s = s\<lparr>ai_requests := save_row req_id (request_to_db env r) (ai_requests s)\<rparr>"

text \<open>
  \<open>self.user.monthly_ai_calls += 1\<close> and \<open>self.user.save(update_fields=[...])\<close>:
  the column of the user's row gets the value of the instance.
\<close>

definition bump_monthly_ai_calls :: "user \<Rightarrow> state \<Rightarrow> state" where
  "bump_monthly_ai_calls u s =
     s\<lparr>users := map (\<lambda>x. if user_id x = user_id u
                           then x\<lparr>monthly_ai_calls := monthly_ai_calls u + 1\<rparr> else x) (users s)\<rparr>"

text \<open>
  The body of the \<open>try\<close> statement, the same in \<open>process_email_to_task\<close> and
  \<open>generate_filipino_social_content\<close>. It gives the exception raised or the parsed
  result, the \<open>ai_request\<close> instance as the body leaves it, and the database. The call
  to the provider is logged.
\<close>

definition processed_input :: "string \<Rightarrow> string \<Rightarrow> string" where
  "processed_input system_prompt user_prompt =
     ''System: '' @ system_prompt @ [CHR 10, CHR 10] @ ''User: '' @ user_prompt"

definition try_body ::
  "env \<Rightarrow> user \<Rightarrow> ai_model \<Rightarrow> ai_usage_quota \<Rightarrow> string \<Rightarrow> string \<Rightarrow> ai_request \<Rightarrow> state
     \<Rightarrow> (exn + json) \<times> ai_request \<times> state" where
  "try_body env u model q system_prompt user_prompt ai_request s =
     (let r1 = ai_request\<lparr>req_processed_input := processed_input system_prompt user_prompt\<rparr>;
          s1 = save_request env r1 s;
          s2 = s1\<lparr>provider_calls := provider_calls s1 @ [(mdl_model_id model, system_prompt, user_prompt)]\<rparr>
      in case env_chat_completions_create env (mdl_model_id model) system_prompt user_prompt of
           Inl e \<Rightarrow> (Inl e, r1, s2)
         | Inr response \<Rightarrow>
             (case env_json_loads env (cmp_content response) of
                Inl e \<Rightarrow> (Inl e, r1, s2)
              | Inr result \<Rightarrow>
                  (let r2 = r1\<lparr>req_status := ''completed'',
                               req_output_data := result,
                               req_input_tokens := cmp_prompt_tokens response,
                               req_output_tokens := cmp_completion_tokens response,
                               req_total_tokens := cmp_total_tokens response,
                               req_response_time_ms := Some (env_response_time_ms env),
                               req_completed_at := Some (env_now env)\<rparr>
                   in case calculate_cost s2 model (cmp_prompt_tokens response)
                             (cmp_completion_tokens response) of
                        Inl e \<Rightarrow> (Inl e, r2, s2)
                      | Inr cost_usd \<Rightarrow>
                          (let r3 = r2\<lparr>req_cost_usd := cost_usd,
                                       req_cost_php := PyDecimal (pyval cost_usd * 56)\<rparr>;
                               s3 = save_request env r3 s2;
                               s4 = bump_monthly_ai_calls u s3
                           in case update_usage env q 1 (cmp_total_tokens response)
                                     (PyFloat (py_float (env_fl env) cost_usd)) s4 of
                                (Inl e, s5) \<Rightarrow> (Inl e, r3, s5)
                              | (Inr q', s5) \<Rightarrow> (Inr result, r3, s5)))))"

text \<open>The dict that the service returns.\<close>

record service_result =
  success :: bool
  res_key :: string
  res_payload :: "json option"
  res_error :: "string option"
  res_request_id :: nat
  res_cost_php :: "pynum option"
  res_tokens_used :: "int option"

text \<open>
  What differs between the two methods: the request type, the message when no model is
  available, the input data stored, the two prompts and the key of the result.
\<close>

record ai_task =
  task_request_type :: string
  task_no_model_message :: string
  task_input_data :: json
  task_system_prompt :: string
  task_user_prompt :: string
  task_result_key :: string

text \<open>
  The two methods, from the user check to the \<open>except\<close> clause. \<open>Inl\<close> is an
  exception that leaves the method: one raised before the \<open>try\<close> statement.
\<close>

definition run_ai_task :: "env \<Rightarrow> user option \<Rightarrow> (user \<Rightarrow> ai_task) \<Rightarrow> state \<Rightarrow> (exn + service_result) \<times> state" where
  "run_ai_task env self_user task_of s =
     (case self_user of
        None \<Rightarrow> (Inl (ValueError ''User required for AI processing''), s)
      | Some u \<Rightarrow>
          (case check_usage_quota env u s of
             (Inl e, s1) \<Rightarrow> (Inl e, s1)
           | (Inr quota_check, s1) \<Rightarrow>
               if \<not> can_use quota_check then (Inl (Exception ''AI usage quota exceeded''), s1)
               else
                 (case get_available_model s1 (subscription_tier u) ''chat'' of
                    Inl e \<Rightarrow> (Inl e, s1)
                  | Inr None \<Rightarrow> (Inl (Exception (task_no_model_message (task_of u))), s1)
                  | Inr (Some model) \<Rightarrow>
                      (let task = task_of u;
                           ai_request =
                             \<lparr>req_id = env_uuid env, req_user = user_id u,
                              req_model = Some (mdl_pk model),
                              req_request_type = task_request_type task,
                              req_status = ''processing'',
                              req_input_data = task_input_data task,
                              req_processed_input = '''',
                              req_output_data = JObj [],
                              req_input_tokens = 0, req_output_tokens = 0, req_total_tokens = 0,
                              req_cost_usd = PyFloat 0, req_cost_php = PyFloat 0,
                              req_response_time_ms = None,
                              req_error_message = '''', req_error_code = '''',
                              req_retry_count = 0,
                              req_created_at = env_now env, req_completed_at = None\<rparr>;
                           s2 = s1\<lparr>ai_requests := ai_requests s1 @ [request_to_db env ai_request]\<rparr>
                       in case try_body env u model (quota quota_check)
                                 (task_system_prompt task) (task_user_prompt task) ai_request s2 of
                            (Inr result, r, s3) \<Rightarrow>
                              (Inr \<lparr>success = True, res_key = task_result_key task,
                                    res_payload = Some result, res_error = None,
                                    res_request_id = req_id r,
                                    res_cost_php = Some (req_cost_php r),
                                    res_tokens_used = Some (req_total_tokens r)\<rparr>, s3)
                          | (Inl e, r, s3) \<Rightarrow>
                              (let r' = r\<lparr>req_status := ''failed'',
                                          req_error_message := str_exn e,
                                          req_completed_at := Some (env_now env)\<rparr>
                               in (Inr \<lparr>success = False, res_key = task_result_key task,
                                        res_payload = None, res_error = Some (str_exn e),
                                        res_request_id = req_id r',
                                        res_cost_php = None, res_tokens_used = None\<rparr>,
                                   save_request env r' s3))))))"

text \<open>
  \<open>_get_business_context\<close>. A dict is given by its items, and the first item with a
  key is the one a lookup finds: the items of \<open>user_context\<close>, which
  \<open>context.update(user_context)\<close> lets override the others, come first. The items
  that a \<open>business_profile\<close> would add are left out (profiles are not modelled).
\<close>

definition get_business_context :: "user \<Rightarrow> (string \<times> json) list \<Rightarrow> (string \<times> json) list" where
  "get_business_context u user_context =
     user_context @
     [(''company_name'', JStr (company_name u)),
      (''business_type'', JStr (business_type u)),
      (''preferred_language'', JStr (preferred_language u)),
      (''subscription_tier'', JStr (subscription_tier u)),
      (''timezone'', JStr ''Asia/Manila'')]"

text \<open>
  The prompts. Their fixed text is long and is shortened here to its first words; the
  values formatted into them are the source's.
\<close>

definition base_context :: string where
  "base_context = ''You are an AI assistant specifically designed for Filipino small and medium businesses (SMBs). [...]''"

definition get_filipino_system_prompt :: "string \<Rightarrow> string" where
  "get_filipino_system_prompt task_type =
     (case map_of
        [(''email_to_task'', base_context @ ''Your task is to convert emails into clear, actionable tasks for Filipino business owners. [...]''),
         (''content_generation'', base_context @ ''Create social media content that resonates with Filipino audiences. [...]'')]
        task_type of
        None \<Rightarrow> base_context
      | Some p \<Rightarrow> p)"

definition build_email_to_task_prompt :: "env \<Rightarrow> string \<Rightarrow> (string \<times> json) list \<Rightarrow> string" where
  "build_email_to_task_prompt env email_content business_context =
     ''Please convert this email into an actionable task for my Filipino business. Business Context: - Company: ''
       @ env_str env (dict_get business_context ''company_name'' (JStr ''N/A''))
       @ '' - Industry: '' @ env_str env (dict_get business_context ''business_type'' (JStr ''N/A''))
       @ '' - Location: '' @ env_str env (dict_get business_context ''city'' (JStr ''Philippines''))
       @ '' Email Content: '' @ email_content
       @ '' Consider: [...] Return a JSON object with the task details.''"

definition platform_style :: "string \<Rightarrow> string" where
  "platform_style platform =
     (case map_of
        [(''facebook'', ''Casual, engaging, family-oriented, mix English and Tagalog naturally. Include emojis and hashtags.''),
         (''instagram'', ''Visual-focused, aspirational, trending hashtags, younger Filipino audience.''),
         (''tiktok'', ''Fun, trendy, viral potential, Gen Z Filipino slang, catchy and energetic.'')]
        platform of
        None \<Rightarrow> ''General Filipino business style''
      | Some p \<Rightarrow> p)"

definition social_system_prompt :: "string \<Rightarrow> string" where
  "social_system_prompt platform =
     ''You are a Filipino social media content creator for SMBs. Create '' @ platform
       @ '' posts that resonate with Filipino culture and business practices. Style for ''
       @ platform @ '': '' @ platform_style platform @ '' Guidelines: [...]''"

definition social_user_prompt :: "env \<Rightarrow> string \<Rightarrow> string \<Rightarrow> (string \<times> json) list \<Rightarrow> string" where
  "social_user_prompt env business_update platform business_context =
     ''Business: '' @ env_str env (dict_get business_context ''company_name'' (JStr ''Filipino Business''))
       @ '' Industry: '' @ env_str env (dict_get business_context ''business_type'' (JStr ''General''))
       @ '' Business Update: '' @ business_update
       @ '' Create an engaging '' @ platform @ '' post for this update.''"

text \<open>\<open>user_context or {}\<close>, and the value stored for a \<open>user_context\<close> of \<open>None\<close>.\<close>

definition or_empty :: "(string \<times> json) list option \<Rightarrow> (string \<times> json) list" where
  "or_empty user_context = (case user_context of None \<Rightarrow> [] | Some c \<Rightarrow> c)"

definition dict_or_null :: "(string \<times> json) list option \<Rightarrow> json" where
  "dict_or_null user_context = (case user_context of None \<Rightarrow> JNull | Some c \<Rightarrow> JObj c)"

text \<open>\<open>OpenRouterService.process_email_to_task\<close>.\<close>

definition process_email_to_task ::
  "env \<Rightarrow> user option \<Rightarrow> string \<Rightarrow> (string \<times> json) list option \<Rightarrow> state
     \<Rightarrow> (exn + service_result) \<times> state" where
  "process_email_to_task env self_user email_content user_context s =
     run_ai_task env self_user
       (\<lambda>u. let business_context = get_business_context u (or_empty user_context)
             in \<lparr>task_request_type = ''email_to_task'',
                 task_no_model_message = ''No AI model available for your subscription'',
                 task_input_data =
                   JObj [(''email_content'', JStr email_content),
                         (''user_context'', dict_or_null user_context),
                         (''business_context'', JObj business_context)],
                 task_system_prompt = get_filipino_system_prompt ''email_to_task'',
                 task_user_prompt = build_email_to_task_prompt env email_content business_context,
                 task_result_key = ''task''\<rparr>) s"

text \<open>\<open>OpenRouterService.generate_filipino_social_content\<close>.\<close>

definition generate_filipino_social_content ::
  "env \<Rightarrow> user option \<Rightarrow> string \<Rightarrow> string \<Rightarrow> (string \<times> json) list option \<Rightarrow> state
     \<Rightarrow> (exn + service_result) \<times> state" where
  "generate_filipino_social_content env self_user business_update platform user_context s =
     run_ai_task env self_user
       (\<lambda>u. let business_context = get_business_context u (or_empty user_context)
             in \<lparr>task_request_type = ''content_generation'',
                 task_no_model_message = ''No AI model available'',
                 task_input_data =
                   JObj [(''business_update'', JStr business_update),
                         (''platform'', JStr platform),
                         (''user_context'', dict_or_null user_context),
                         (''business_context'', JObj business_context)],
                 task_system_prompt = social_system_prompt platform,
                 task_user_prompt = social_user_prompt env business_update platform business_context,
                 task_result_key = ''content''\<rparr>) s"

section \<open>AI views (ai\_services/views.py)\<close>

text \<open>
  The response of the two views that call the service: the dict of the service with
  status 200, or an error message with its status.
\<close>

record ai_response =
  ar_status :: nat
  ar_result :: "service_result option"
  ar_error :: "string option"

definition quota_402 :: ai_response where
  "quota_402 =
     \<lparr>ar_status = 402, ar_result = None,
      ar_error = Some ''AI usage limit exceeded for your subscription''\<rparr>"

definition opt_str :: "string option \<Rightarrow> json" where
  "opt_str x = (case x of None \<Rightarrow> JNull | Some v \<Rightarrow> JStr v)"

text \<open>The data of \<open>EmailToTaskSerializer\<close>, validated.\<close>

record email_to_task_data =
  ed_email_content :: string
  ed_sender_email :: "string option"
  ed_sender_name :: "string option"
  ed_subject :: "string option"
  ed_additional_context :: json

text \<open>
  \<open>email_to_task(request)\<close>. \<open>**additional_context\<close> raises \<open>TypeError\<close> inside the
  \<open>try\<close> statement when the JSON value is not an object.
\<close>

definition email_to_task :: "env \<Rightarrow> user \<Rightarrow> email_to_task_data \<Rightarrow> state \<Rightarrow> ai_response \<times> state" where
  "email_to_task env u d s =
     (if \<not> can_use_ai u then (quota_402, s)
      else
        (case ed_additional_context d of
           JObj additional \<Rightarrow>
             (case process_email_to_task env (Some u) (ed_email_content d)
                     (Some (additional @
                            [(''sender_email'', opt_str (ed_sender_email d)),
                             (''sender_name'', opt_str (ed_sender_name d)),
                             (''subject'', opt_str (ed_subject d))])) s of
                (Inr result, s') \<Rightarrow> (\<lparr>ar_status = 200, ar_result = Some result, ar_error = None\<rparr>, s')
              | (Inl e, s') \<Rightarrow> (\<lparr>ar_status = 400, ar_result = None, ar_error = Some (str_exn e)\<rparr>, s'))
         | _ \<Rightarrow>
             (\<lparr>ar_status = 400, ar_result = None,
               ar_error = Some (str_exn (TypeError ''argument after ** must be a mapping''))\<rparr>, s)))"

text \<open>The data of \<open>SocialContentGenerationSerializer\<close>, validated.\<close>

record social_data =
  sd_business_update :: string
  sd_platform :: string
  sd_tone :: string
  sd_include_hashtags :: bool
  sd_include_call_to_action :: bool
  sd_target_audience :: "string option"

definition generate_social_content :: "env \<Rightarrow> user \<Rightarrow> social_data \<Rightarrow> state \<Rightarrow> ai_response \<times> state" where
  "generate_social_content env u d s =
     (if \<not> can_use_ai u then (quota_402, s)
      else
        (case generate_filipino_social_content env (Some u) (sd_business_update d) (sd_platform d)
                (Some [(''platform'', JStr (sd_platform d)),
                       (''tone'', JStr (sd_tone d)),
                       (''include_hashtags'', JBool (sd_include_hashtags d)),
                       (''include_call_to_action'', JBool (sd_include_call_to_action d)),
                       (''target_audience'', JStr (field (sd_target_audience d) ''''))]) s of
           (Inr result, s') \<Rightarrow> (\<lparr>ar_status = 200, ar_result = Some result, ar_error = None\<rparr>, s')
         | (Inl e, s') \<Rightarrow> (\<lparr>ar_status = 400, ar_result = None, ar_error = Some (str_exn e)\<rparr>, s')))"

text \<open>\<open>AITemplate.increment_usage\<close>, in float arithmetic for the success rate.\<close>

definition increment_template_usage :: "env \<Rightarrow> ai_template \<Rightarrow> bool \<Rightarrow> state \<Rightarrow> state" where
  "increment_template_usage env t succeeded s =
     (let usage_count = tpl_usage_count t + 1;
          t1 = t\<lparr>tpl_usage_count := usage_count\<rparr>;
          t2 = (if succeeded \<and> usage_count > 0 then
                  (let current_successes =
                         env_fl env (env_fl env (tpl_success_rate t1 * of_int (usage_count - 1)) / 100);
                       new_successes = env_fl env (current_successes + 1)
                   in t1\<lparr>tpl_success_rate :=
                           env_fl env (env_fl env (new_successes / of_int usage_count) * 100)\<rparr>)
                else t1)
      in s\<lparr>ai_templates := save_row tpl_id t2 (ai_templates s)\<rparr>)"

text \<open>The data of \<open>CustomAIRequestSerializer\<close>.\<close>

record custom_data =
  cd_template_id :: nat
  cd_input_variables :: "(string \<times> json) list"
  cd_custom_instructions :: "string option"

definition bad_request :: "string \<Rightarrow> response" where
  "bad_request msg = \<lparr>status_code = 400, body = JObj [(''error'', JStr msg)]\<rparr>"

definition payment_required :: response where
  "payment_required =
     \<lparr>status_code = 402,
      body = JObj [(''error'', JStr ''AI usage limit exceeded for your subscription'')]\<rparr>"

text \<open>
  \<open>custom_ai_request(request)\<close>. The serializer's \<open>validate_template_id\<close> answers
  400 when no active template has the id, or the template is premium and the user on
  the starter tier. The view records a request with status \<open>processing\<close> and answers
  with a fixed text: it makes no call to the provider. Creating the request with no
  model available violates the column's \<open>NOT NULL\<close>.
\<close>

definition custom_ai_request :: "env \<Rightarrow> user \<Rightarrow> custom_data \<Rightarrow> state \<Rightarrow> response \<times> state" where
  "custom_ai_request env u d s =
     (case find (\<lambda>t. tpl_id t = cd_template_id d \<and> tpl_is_active t) (ai_templates s) of
        None \<Rightarrow> (bad_request ''Template not found or inactive'', s)
      | Some checked \<Rightarrow>
          if tpl_is_premium checked \<and> subscription_tier u = ''starter''
          then (bad_request ''Premium templates require Business or Pro subscription'', s)
          else if \<not> can_use_ai u then (payment_required, s)
          else
            (case find (\<lambda>t. tpl_id t = cd_template_id d) (ai_templates s) of
               None \<Rightarrow> (bad_request ''AITemplate matching query does not exist.'', s)
             | Some template \<Rightarrow>
                 (case env_format env (tpl_user_prompt_template template) (cd_input_variables d) of
                    Inl e \<Rightarrow> (bad_request (str_exn e), s)
                  | Inr user_prompt \<Rightarrow>
                      (case get_available_model s (subscription_tier u) ''chat'' of
                         Inl e \<Rightarrow> (bad_request (str_exn e), s)
                       | Inr None \<Rightarrow> (bad_request ''null value in column model_id'', s)
                       | Inr (Some model) \<Rightarrow>
                           (let ai_request =
                                  \<lparr>req_id = env_uuid env, req_user = user_id u,
                                   req_model = Some (mdl_pk model),
                                   req_request_type = ''custom'',
                                   req_status = ''processing'',
                                   req_input_data =
                                     JObj [(''template_id'', JNum (int (tpl_id template))),
                                           (''input_variables'', JObj (cd_input_variables d)),
                                           (''custom_instructions'',
                                            JStr (field (cd_custom_instructions d) ''''))],
                                   req_processed_input = '''',
                                   req_output_data = JObj [],
                                   req_input_tokens = 0, req_output_tokens = 0, req_total_tokens = 0,
                                   req_cost_usd = PyFloat 0, req_cost_php = PyFloat 0,
                                   req_response_time_ms = None,
                                   req_error_message = '''', req_error_code = '''',
                                   req_retry_count = 0,
                                   req_created_at = env_now env, req_completed_at = None\<rparr>;
                                s1 = s\<lparr>ai_requests := ai_requests s @ [request_to_db env ai_request]\<rparr>
                            in (\<lparr>status_code = 200,
                                 body = JObj [(''success'', JBool True),
                                              (''response'', JStr (''Processed using template: '' @ tpl_name template)),
                                              (''request_id'', JNum (int (req_id ai_request)))]\<rparr>,
                                increment_template_usage env template True s1))))))"

text \<open>The data of \<open>TextAnalysisSerializer\<close>.\<close>

record text_data =
  td_text :: string
  td_analysis_type :: string

text \<open>\<open>analyze_text(request)\<close>: a fixed answer, and neither the database nor the provider.\<close>

definition analyze_text :: "user \<Rightarrow> text_data \<Rightarrow> state \<Rightarrow> response \<times> state" where
  "analyze_text u d s =
     (if \<not> can_use_ai u then (payment_required, s)
      else
        (let analysis_type = td_analysis_type d; text = td_text d
         in (\<lparr>status_code = 200,
              body = JObj
                [(''success'', JBool True),
                 (''analysis_type'', JStr analysis_type),
                 (''result'', JObj
                    [(''sentiment'', if analysis_type = ''sentiment'' then JStr ''positive'' else JNull),
                     (''summary'', if analysis_type = ''summary''
                                   then JStr (''Summary of: '' @ take 50 text @ ''...'') else JNull),
                     (''keywords'', if analysis_type = ''keywords''
                                    then JArr [JStr ''business'', JStr ''filipino'', JStr ''automation'']
                                    else JNull)]),
                 (''confidence'', JReal (85 / 100))]\<rparr>, s)))"

text \<open>\<open>AIRequestListView\<close> and \<open>AIRequestDetailView\<close>.\<close>

definition ai_request_queryset :: "user \<Rightarrow> state \<Rightarrow> ai_request list" where
  "ai_request_queryset u s = filter (\<lambda>r. req_user r = user_id u) (ai_requests s)"

definition ai_request_list :: "nat \<Rightarrow> user \<Rightarrow> state \<Rightarrow> (nat \<times> ai_request list) \<times> state" where
  "ai_request_list page u s = list_view page (ai_request_queryset u s) s"

definition ai_request_retrieve :: "user \<Rightarrow> nat \<Rightarrow> state \<Rightarrow> (nat \<times> ai_request list) \<times> state" where
  "ai_request_retrieve u k s = retrieve_view req_id (ai_request_queryset u s) k s"

text \<open>\<open>ai_quota_status(request)\<close>: it creates the month's quota when there is none.\<close>

definition ai_quota_status :: "env \<Rightarrow> user \<Rightarrow> state \<Rightarrow> (nat \<times> ai_usage_quota list) \<times> state" where
  "ai_quota_status env u s =
     (case get_or_create_quota env u
             (if subscription_tier u = ''starter'' then PyFloat 10 else PyFloat 50) s of
        ((q, created), s') \<Rightarrow> ((200, [q]), s'))"

definition example_completion :: completion where
  "example_completion =
     \<lparr>cmp_content = ''{}'', cmp_prompt_tokens = 100, cmp_completion_tokens = 50,
      cmp_total_tokens = 150\<rparr>"

text \<open>
  \<open>int\<close> of a string, for the strings of decimal digits with an optional minus sign.
\<close>

fun decimal_value :: "string \<Rightarrow> int \<Rightarrow> int option" where
  "decimal_value [] acc = Some acc"
| "decimal_value (c # cs) acc =
     (if 48 \<le> (of_char c :: nat) \<and> (of_char c :: nat) \<le> 57
      then decimal_value cs (10 * acc + int (of_char c) - 48)
      else None)"

definition example_int :: "string \<Rightarrow> exn + int" where
  "example_int text =
     (case text of
        [] \<Rightarrow> Inl (ValueError ''invalid literal for int() with base 10'')
      | c # cs \<Rightarrow>
          if c = CHR ''-'' \<and> cs \<noteq> []
          then (case decimal_value cs 0 of
                  None \<Rightarrow> Inl (ValueError ''invalid literal for int() with base 10'')
                | Some i \<Rightarrow> Inr (- i))
          else (case decimal_value text 0 of
                  None \<Rightarrow> Inl (ValueError ''invalid literal for int() with base 10'')
                | Some i \<Rightarrow> Inr i))"

definition example_env :: env where
  "example_env =
     \<lparr>env_fl = (\<lambda>x. x), env_quantize = (\<lambda>places x. x), env_now = 100,
      env_month_start = 0, env_month_end = 1000, env_uuid = 42, env_auto_id = 1,
      env_response_time_ms = 350,
      env_chat_completions_create = (\<lambda>model_id system_prompt user_prompt. Inr example_completion),
      env_json_loads = (\<lambda>content. Inr (JObj [])),
      env_str = (\<lambda>v. case v of JStr x \<Rightarrow> x | _ \<Rightarrow> ''''),
      env_format = (\<lambda>template variables. Inr template),
      env_int = example_int,
      env_int_column = (\<lambda>i. - 2147483648 \<le> i \<and> i \<le> 2147483647),
      env_char_column = (\<lambda>n text. length text \<le> n)\<rparr>"

definition ai_state :: state where
  "ai_state =
     empty_state
       \<lparr>users := [example_user],
        ai_providers :=
          [\<lparr>prov_id = 1, prov_name = ''OpenRouter'', prov_is_active = True,
            cost_per_input_token = 1 / 1000000, cost_per_output_token = 2 / 1000000\<rparr>],
        ai_models :=
          [\<lparr>mdl_pk = 1, mdl_provider = 1, mdl_name = ''DeepSeek R1'',
            mdl_model_id = ''deepseek/deepseek-r1'', mdl_model_type = ''chat'',
            mdl_min_subscription_tier = ''starter'', mdl_is_active = True\<rparr>]\<rparr>"

text \<open>
  A database in which the user's quota of the month exists: its row, as read, holds
  decimals.
\<close>

definition quota_state :: state where
  "quota_state = ai_state\<lparr>ai_quotas := [example_quota]\<rparr>"

text \<open>The database with another table of actions, to say what a function does not read.\<close>

definition with_actions :: "automation_action list \<Rightarrow> state \<Rightarrow> state" where
  "with_actions a s = s\<lparr>actions := a\<rparr>"

text \<open>A provider that refuses the call.\<close>

definition failing_env :: env where
  "failing_env =
     example_env\<lparr>env_chat_completions_create :=
                    (\<lambda>model_id system_prompt user_prompt. Inl (APIError ''Rate limit exceeded''))\<rparr>"

section \<open>Integration views (integrations/views.py)\<close>

text \<open>The validated data of the integration serializers; the three secrets are create-only.\<close>

record integration_data =
  d_int_name :: "string option"
  d_int_integration_type :: "string option"
  d_int_service_name :: "string option"
  d_int_service_url :: "string option"
  d_int_config_data :: "json option"
  d_int_is_active :: "bool option"
  d_int_api_key :: "string option"
  d_int_api_secret :: "string option"
  d_int_webhook_secret :: "string option"

definition integration_queryset :: "user \<Rightarrow> state \<Rightarrow> integration list" where
  "integration_queryset u s = filter (\<lambda>i. int_user i = user_id u) (integrations s)"

definition integration_list :: "nat \<Rightarrow> user \<Rightarrow> state \<Rightarrow> (nat \<times> integration list) \<times> state" where
  "integration_list page u s = list_view page (integration_queryset u s) s"

text \<open>
  \<open>unique_together = ['user', 'service_name', 'name']\<close>: the database refuses a
  second row with the three values of another one, and the view ends with an error
  (status 500) and no write.
\<close>

definition integration_conflict :: "integration \<Rightarrow> state \<Rightarrow> bool" where
  "integration_conflict i s =
     (\<exists>x \<in> set (integrations s). int_id x \<noteq> int_id i \<and> int_user x = int_user i
         \<and> int_service_name x = int_service_name i \<and> int_name x = int_name i)"

definition integration_create ::
  "int \<Rightarrow> nat \<Rightarrow> user \<Rightarrow> integration_data \<Rightarrow> state \<Rightarrow> (nat \<times> integration list) \<times> state" where
  "integration_create now new_id u d s =
     (let i = \<lparr>int_id = new_id, int_user = user_id u,
                int_name = field (d_int_name d) '''',
                int_integration_type = field (d_int_integration_type d) '''',
                int_service_name = field (d_int_service_name d) '''',
                int_service_url = field (d_int_service_url d) '''',
                int_config_data = field (d_int_config_data d) (JObj []),
                int_is_active = True,
                int_refresh_token = '''',
                int_api_key = field (d_int_api_key d) '''',
                int_api_secret = field (d_int_api_secret d) '''',
                int_webhook_secret = field (d_int_webhook_secret d) '''',
                int_health_status = ''healthy'',
                int_total_requests = 0, int_successful_requests = 0, int_failed_requests = 0,
                int_created_at = now, int_updated_at = now\<rparr>
      in if integration_conflict i s then ((500, []), s)
         else ((201, [i]), s\<lparr>integrations := integrations s @ [i]\<rparr>))"

definition integration_retrieve :: "user \<Rightarrow> nat \<Rightarrow> state \<Rightarrow> (nat \<times> integration list) \<times> state" where
  "integration_retrieve u k s = retrieve_view int_id (integration_queryset u s) k s"

definition update_integration :: "int \<Rightarrow> integration_data \<Rightarrow> integration \<Rightarrow> integration" where
  "update_integration now d i =
     i\<lparr>int_name := field (d_int_name d) (int_name i),
       int_integration_type := field (d_int_integration_type d) (int_integration_type i),
       int_service_name := field (d_int_service_name d) (int_service_name i),
       int_service_url := field (d_int_service_url d) (int_service_url i),
       int_config_data := field (d_int_config_data d) (int_config_data i),
       int_is_active := field (d_int_is_active d) (int_is_active i),
       int_updated_at := now\<rparr>"

definition integration_update ::
  "int \<Rightarrow> user \<Rightarrow> nat \<Rightarrow> integration_data \<Rightarrow> state \<Rightarrow> (nat \<times> integration list) \<times> state" where
  "integration_update now u k d s =
     (case get_object int_id (integration_queryset u s) k of
        None \<Rightarrow> ((404, []), s)
      | Some i \<Rightarrow>
          if integration_conflict (update_integration now d i) s then ((500, []), s)
          else update_view int_id (integration_queryset u s) k (update_integration now d)
                 (\<lambda>i s. s\<lparr>integrations := save_row int_id i (integrations s)\<rparr>) s)"

text \<open>Deleting an integration deletes its logs and its webhook endpoints with it.\<close>

definition delete_integration :: "integration \<Rightarrow> state \<Rightarrow> state" where
  "delete_integration i s =
     s\<lparr>integrations := filter (\<lambda>x. int_id x \<noteq> int_id i) (integrations s),
       integration_logs := filter (\<lambda>l. log_integration l \<noteq> int_id i) (integration_logs s),
       webhooks := filter (\<lambda>w. wh_integration w \<noteq> int_id i) (webhooks s)\<rparr>"

definition integration_destroy :: "user \<Rightarrow> nat \<Rightarrow> state \<Rightarrow> (nat \<times> integration list) \<times> state" where
  "integration_destroy u k s = destroy_view int_id (integration_queryset u s) k delete_integration s"

definition get_integration_or_404 :: "state \<Rightarrow> nat \<Rightarrow> user \<Rightarrow> integration option" where
  "get_integration_or_404 s integration_id u =
     find (\<lambda>i. int_id i = integration_id \<and> int_user i = user_id u) (integrations s)"

text \<open>
  \<open>test_integration(request, integration_id)\<close>: a fixed answer, logged. \<open>test_type\<close>
  and \<open>test_data\<close> are the validated data.
\<close>

definition test_integration ::
  "int \<Rightarrow> nat \<Rightarrow> user \<Rightarrow> nat \<Rightarrow> string \<Rightarrow> json \<Rightarrow> state \<Rightarrow> response \<times> state" where
  "test_integration now new_id u integration_id test_type test_data s =
     (case get_integration_or_404 s integration_id u of
        None \<Rightarrow> (not_found, s)
      | Some integration \<Rightarrow>
          (let result =
                 JObj [(''success'', JBool True),
                       (''message'', JStr (test_type @ '' completed successfully'')),
                       (''test_type'', JStr test_type),
                       (''response_time'', JNum 150),
                       (''details'', JObj [(''integration'', JStr (int_name integration)),
                                           (''service'', JStr (int_service_name integration)),
                                           (''health_status'', JStr ''healthy'')])];
               entry =
                 \<lparr>log_id = new_id, log_integration = int_id integration,
                  log_log_type = ''health_check'', log_method = ''POST'',
                  log_endpoint = ''/test/'' @ test_type,
                  log_request_data = test_data, log_response_data = result,
                  log_status_code = Some 200, log_response_time_ms = Some 150,
                  log_created_at = now\<rparr>
           in (\<lparr>status_code = 200, body = result\<rparr>,
               s\<lparr>integration_logs := integration_logs s @ [entry]\<rparr>)))"

text \<open>\<open>refresh_integration_auth(request, integration_id)\<close>: it refreshes nothing.\<close>

definition refresh_integration_auth :: "user \<Rightarrow> nat \<Rightarrow> state \<Rightarrow> response \<times> state" where
  "refresh_integration_auth u integration_id s =
     (case get_integration_or_404 s integration_id u of
        None \<Rightarrow> (not_found, s)
      | Some integration \<Rightarrow>
          if int_refresh_token integration = ''''
          then (bad_request ''No refresh token available'', s)
          else (\<lparr>status_code = 200,
                 body = JObj [(''message'', JStr ''Authentication refreshed successfully''),
                              (''expires_at'', JNull)]\<rparr>, s))"

text \<open>\<open>IntegrationLogListView\<close>.\<close>

definition integration_log_queryset :: "user \<Rightarrow> state \<Rightarrow> integration_log list" where
  "integration_log_queryset u s =
     filter (\<lambda>l. \<exists>i \<in> set (integrations s). int_id i = log_integration l \<and> int_user i = user_id u)
       (integration_logs s)"

definition integration_log_list :: "nat \<Rightarrow> user \<Rightarrow> state \<Rightarrow> (nat \<times> integration_log list) \<times> state" where
  "integration_log_list page u s = list_view page (integration_log_queryset u s) s"

text \<open>
  \<open>WebhookEndpointListView\<close> and \<open>WebhookEndpointDetailView\<close>. The serializer's
  \<open>integration\<close> field is writable, and any integration of the database is a valid
  value of it; \<open>url_path\<close> is unique. Invalid data is a 400.
\<close>

record webhook_data =
  d_wh_integration :: "nat option"
  d_wh_name :: "string option"
  d_wh_url_path :: "string option"
  d_wh_secret_key :: "string option"
  d_wh_allowed_ips :: "json option"
  d_wh_require_signature :: "bool option"
  d_wh_signature_header :: "string option"
  d_wh_status :: "string option"
  d_wh_auto_trigger_workflows :: "bool option"

definition webhook_queryset :: "user \<Rightarrow> state \<Rightarrow> webhook_endpoint list" where
  "webhook_queryset u s =
     filter (\<lambda>w. \<exists>i \<in> set (integrations s). int_id i = wh_integration w \<and> int_user i = user_id u)
       (webhooks s)"

definition webhook_list :: "nat \<Rightarrow> user \<Rightarrow> state \<Rightarrow> (nat \<times> webhook_endpoint list) \<times> state" where
  "webhook_list page u s = list_view page (webhook_queryset u s) s"

definition webhook_data_valid :: "nat option \<Rightarrow> webhook_data \<Rightarrow> state \<Rightarrow> bool" where
  "webhook_data_valid self_id d s =
     ((case d_wh_integration d of
         None \<Rightarrow> True
       | Some i \<Rightarrow> \<exists>x \<in> set (integrations s). int_id x = i)
      \<and> (case d_wh_url_path d of
            None \<Rightarrow> True
          | Some p \<Rightarrow> p \<noteq> '''' \<and> \<not> (\<exists>w \<in> set (webhooks s). wh_url_path w = p \<and> Some (wh_id w) \<noteq> self_id)))"

definition webhook_create ::
  "int \<Rightarrow> nat \<Rightarrow> user \<Rightarrow> webhook_data \<Rightarrow> state \<Rightarrow> (nat \<times> webhook_endpoint list) \<times> state" where
  "webhook_create now new_id u d s =
     (case (d_wh_integration d, d_wh_name d, d_wh_url_path d, d_wh_secret_key d) of
        (Some integration, Some name, Some url_path, Some secret_key) \<Rightarrow>
          if \<not> webhook_data_valid None d s then ((400, []), s)
          else
            (let w = \<lparr>wh_id = new_id, wh_integration = integration, wh_name = name,
                      wh_url_path = url_path, wh_secret_key = secret_key,
                      wh_allowed_ips = field (d_wh_allowed_ips d) (JArr []),
                      wh_require_signature = field (d_wh_require_signature d) True,
                      wh_signature_header = field (d_wh_signature_header d) ''X-Signature'',
                      wh_status = field (d_wh_status d) ''active'',
                      wh_auto_trigger_workflows = field (d_wh_auto_trigger_workflows d) True,
                      wh_total_requests = 0, wh_successful_requests = 0, wh_failed_requests = 0,
                      wh_created_at = now, wh_updated_at = now\<rparr>
             in ((201, [w]), s\<lparr>webhooks := webhooks s @ [w]\<rparr>))
      | _ \<Rightarrow> ((400, []), s))"

definition webhook_retrieve :: "user \<Rightarrow> nat \<Rightarrow> state \<Rightarrow> (nat \<times> webhook_endpoint list) \<times> state" where
  "webhook_retrieve u k s = retrieve_view wh_id (webhook_queryset u s) k s"

definition update_webhook :: "int \<Rightarrow> webhook_data \<Rightarrow> webhook_endpoint \<Rightarrow> webhook_endpoint" where
  "update_webhook now d w =
     w\<lparr>wh_integration := field (d_wh_integration d) (wh_integration w),
       wh_name := field (d_wh_name d) (wh_name w),
       wh_url_path := field (d_wh_url_path d) (wh_url_path w),
       wh_secret_key := field (d_wh_secret_key d) (wh_secret_key w),
       wh_allowed_ips := field (d_wh_allowed_ips d) (wh_allowed_ips w),
       wh_require_signature := field (d_wh_require_signature d) (wh_require_signature w),
       wh_signature_header := field (d_wh_signature_header d) (wh_signature_header w),
       wh_status := field (d_wh_status d) (wh_status w),
       wh_auto_trigger_workflows := field (d_wh_auto_trigger_workflows d) (wh_auto_trigger_workflows w),
       wh_updated_at := now\<rparr>"

definition webhook_update ::
  "int \<Rightarrow> user \<Rightarrow> nat \<Rightarrow> webhook_data \<Rightarrow> state \<Rightarrow> (nat \<times> webhook_endpoint list) \<times> state" where
  "webhook_update now u k d s =
     (case get_object wh_id (webhook_queryset u s) k of
        None \<Rightarrow> ((404, []), s)
      | Some w \<Rightarrow>
          if \<not> webhook_data_valid (Some (wh_id w)) d s then ((400, []), s)
          else update_view wh_id (webhook_queryset u s) k (update_webhook now d)
                 (\<lambda>w s. s\<lparr>webhooks := save_row wh_id w (webhooks s)\<rparr>) s)"

definition webhook_destroy :: "user \<Rightarrow> nat \<Rightarrow> state \<Rightarrow> (nat \<times> webhook_endpoint list) \<times> state" where
  "webhook_destroy u k s =
     destroy_view wh_id (webhook_queryset u s) k
       (\<lambda>w s. s\<lparr>webhooks := filter (\<lambda>x. wh_id x \<noteq> wh_id w) (webhooks s)\<rparr>) s"

section \<open>The routes of the API (urls.py of the three applications)\<close>

text \<open>
  A row of a table that belongs to a user's data, tagged with its table.
\<close>

datatype resource =
    RWorkflow automation_workflow
  | RAction automation_action
  | RExecution workflow_execution
  | RTemplate automation_template
  | RAIRequest ai_request
  | RQuota ai_usage_quota
  | RIntegration integration
  | RLog integration_log
  | RWebhook webhook_endpoint

text \<open>
  A request to a route, with the parameters of its URL and its validated data. The
  routes left out only read and return aggregates or fixed lists (\<open>dashboard/\<close>,
  \<open>usage-stats/\<close>, \<open>health-check/\<close>, \<open>request-types/\<close>, \<open>available/\<close>, \<open>stats/\<close>,
  \<open>models/\<close>, and the AI templates).
\<close>

datatype api_call =
    WorkflowList nat
  | WorkflowCreate workflow_data
  | WorkflowRetrieve nat
  | WorkflowUpdate nat workflow_data
  | WorkflowDestroy nat
  | WorkflowToggle nat
  | WorkflowExecute nat json
  | ActionList nat nat
  | ActionCreate nat action_data
  | ActionRetrieve nat nat
  | ActionUpdate nat nat action_data
  | ActionDestroy nat nat
  | ExecutionList nat
  | ExecutionRetrieve nat
  | TemplateList nat
  | TemplateRetrieve nat
  | CreateWorkflowFromTemplate nat string
  | AIRequestList nat
  | AIRequestRetrieve nat
  | EmailToTask email_to_task_data
  | GenerateSocialContent social_data
  | AnalyzeText text_data
  | CustomAIRequest custom_data
  | QuotaStatus
  | IntegrationList nat
  | IntegrationCreate integration_data
  | IntegrationRetrieve nat
  | IntegrationUpdate nat integration_data
  | IntegrationDestroy nat
  | TestIntegration nat string json
  | RefreshIntegrationAuth nat
  | IntegrationLogList nat
  | WebhookList nat
  | WebhookCreate webhook_data
  | WebhookRetrieve nat
  | WebhookUpdate nat webhook_data
  | WebhookDestroy nat

text \<open>The status and the rows of a response, and the database after it.\<close>

definition tagged :: "('a \<Rightarrow> resource) \<Rightarrow> (nat \<times> 'a list) \<times> state \<Rightarrow> (nat \<times> resource list) \<times> state" where
  "tagged tag r = ((fst (fst r), map tag (snd (fst r))), snd r)"

definition status_only :: "response \<times> state \<Rightarrow> (nat \<times> resource list) \<times> state" where
  "status_only r = ((status_code (fst r), []), snd r)"

definition ai_status_only :: "ai_response \<times> state \<Rightarrow> (nat \<times> resource list) \<times> state" where
  "ai_status_only r = ((ar_status (fst r), []), snd r)"

text \<open>
  The request of an authenticated user \<open>u\<close>, routed to its view. An exception that
  leaves a view is a 500.
\<close>

fun api_step :: "env \<Rightarrow> user \<Rightarrow> api_call \<Rightarrow> state \<Rightarrow> (nat \<times> resource list) \<times> state" where
  "api_step env u (WorkflowList page) s = tagged RWorkflow (workflow_list page u s)"
| "api_step env u (WorkflowCreate d) s = tagged RWorkflow (workflow_create (env_now env) (env_uuid env) u d s)"
| "api_step env u (WorkflowRetrieve k) s = tagged RWorkflow (workflow_retrieve u k s)"
| "api_step env u (WorkflowUpdate k d) s = tagged RWorkflow (workflow_update (env_now env) u k d s)"
| "api_step env u (WorkflowDestroy k) s = tagged RWorkflow (workflow_destroy u k s)"
| "api_step env u (WorkflowToggle k) s = status_only (toggle_workflow_status (env_now env) u k s)"
| "api_step env u (WorkflowExecute k d) s =
     (case execute_workflow_manually (env_now env) (env_uuid env) u d k s of
        (Inl e, s') \<Rightarrow> ((500, []), s')
      | (Inr r, s') \<Rightarrow> ((status_code r, []), s'))"
| "api_step env u (ActionList page w) s = tagged RAction (action_list page u w s)"
| "api_step env u (ActionCreate w d) s = tagged RAction (action_create (env_now env) (env_auto_id env) u w d s)"
| "api_step env u (ActionRetrieve w k) s = tagged RAction (action_retrieve u w k s)"
| "api_step env u (ActionUpdate w k d) s = tagged RAction (action_update (env_now env) u w k d s)"
| "api_step env u (ActionDestroy w k) s = tagged RAction (action_destroy u w k s)"
| "api_step env u (ExecutionList page) s = tagged RExecution (execution_list page u s)"
| "api_step env u (ExecutionRetrieve k) s = tagged RExecution (execution_retrieve u k s)"
| "api_step env u (TemplateList page) s = tagged RTemplate (template_list page u s)"
| "api_step env u (TemplateRetrieve k) s = tagged RTemplate (template_retrieve u k s)"
| "api_step env u (CreateWorkflowFromTemplate t name) s =
     (case create_workflow_from_template env u t name s of
        (Inl e, s') \<Rightarrow> ((500, []), s')
      | (Inr (code, ws, acts), s') \<Rightarrow> ((code, map RWorkflow ws @ map RAction acts), s'))"
| "api_step env u (AIRequestList page) s = tagged RAIRequest (ai_request_list page u s)"
| "api_step env u (AIRequestRetrieve k) s = tagged RAIRequest (ai_request_retrieve u k s)"
| "api_step env u (EmailToTask d) s = ai_status_only (email_to_task env u d s)"
| "api_step env u (GenerateSocialContent d) s = ai_status_only (generate_social_content env u d s)"
| "api_step env u (AnalyzeText d) s = status_only (analyze_text u d s)"
| "api_step env u (CustomAIRequest d) s = status_only (custom_ai_request env u d s)"
| "api_step env u QuotaStatus s = tagged RQuota (ai_quota_status env u s)"
| "api_step env u (IntegrationList page) s = tagged RIntegration (integration_list page u s)"
| "api_step env u (IntegrationCreate d) s =
     tagged RIntegration (integration_create (env_now env) (env_uuid env) u d s)"
| "api_step env u (IntegrationRetrieve k) s = tagged RIntegration (integration_retrieve u k s)"
| "api_step env u (IntegrationUpdate k d) s = tagged RIntegration (integration_update (env_now env) u k d s)"
| "api_step env u (IntegrationDestroy k) s = tagged RIntegration (integration_destroy u k s)"
| "api_step env u (TestIntegration k test_type test_data) s =
     status_only (test_integration (env_now env) (env_auto_id env) u k test_type test_data s)"
| "api_step env u (RefreshIntegrationAuth k) s = status_only (refresh_integration_auth u k s)"
| "api_step env u (IntegrationLogList page) s = tagged RLog (integration_log_list page u s)"
| "api_step env u (WebhookList page) s = tagged RWebhook (webhook_list page u s)"
| "api_step env u (WebhookCreate d) s = tagged RWebhook (webhook_create (env_now env) (env_auto_id env) u d s)"
| "api_step env u (WebhookRetrieve k) s = tagged RWebhook (webhook_retrieve u k s)"
| "api_step env u (WebhookUpdate k d) s = tagged RWebhook (webhook_update (env_now env) u k d s)"
| "api_step env u (WebhookDestroy k) s = tagged RWebhook (webhook_destroy u k s)"

text \<open>
  A history of the API: requests of any users, one after the other, each with what it
  takes from outside.
\<close>

fun api_run :: "(env \<times> user \<times> api_call) list \<Rightarrow> state \<Rightarrow> state" where
  "api_run [] s = s"
| "api_run ((env, u, c) # rest) s = api_run rest (snd (api_step env u c s))"

text \<open>A user at the monthly limit of the starter tier, and a workflow that uses AI processing.\<close>

definition limited_user :: user where
  "limited_user = example_user\<lparr>monthly_ai_calls := 1000\<rparr>"

definition ai_workflow :: automation_workflow where
  "ai_workflow = example_workflow\<lparr>wf_use_ai_processing := True\<rparr>"

definition limited_state :: state where
  "limited_state = empty_state\<lparr>users := [limited_user], workflows := [ai_workflow]\<rparr>"



section \<open>Requests served at the same time\<close>

text \<open>
  The repository opens no transaction and takes no lock: there is no
  \<open>transaction.atomic\<close>, no \<open>select_for_update\<close> and no \<open>F()\<close> expression in its
  source, and the settings do not set \<open>ATOMIC_REQUESTS\<close>. Each call of the ORM is
  therefore a statement committed on its own, and the statements of two requests that
  are served at the same time interleave. For the quota, a request served by
  \<open>process_email_to_task\<close> or \<open>generate_filipino_social_content\<close> is at one of
  these points: before \<open>check_usage_quota\<close>; admitted, holding the quota instance that
  the check returned, while the provider is called; refused, with the exception raised;
  or past \<open>update_usage\<close>, which returned or raised.
\<close>

datatype quota_thread =
  Checking
  | Admitted ai_usage_quota
  | Refused exn
  | Updated "exn + ai_usage_quota"

text \<open>
  A request: its environment, its user, and what the provider's answer gives
  \<open>update_usage\<close>, the total of tokens and \<open>float(cost_usd)\<close>.
\<close>

record ai_call =
  call_env :: env
  call_user :: user
  call_tokens :: int
  call_cost :: rat

text \<open>One step of a request: the check with its test of \<open>can_use\<close>, or the update.\<close>

definition thread_step :: "ai_call \<Rightarrow> quota_thread \<Rightarrow> state \<Rightarrow> quota_thread \<times> state" where
  "thread_step c t s =
     (case t of
        Checking \<Rightarrow>
          (case check_usage_quota (call_env c) (call_user c) s of
             (Inl e, s1) \<Rightarrow> (Refused e, s1)
           | (Inr quota_check, s1) \<Rightarrow>
               if \<not> can_use quota_check then (Refused (Exception ''AI usage quota exceeded''), s1)
               else (Admitted (quota quota_check), s1))
      | Admitted q \<Rightarrow>
          (case update_usage (call_env c) q 1 (call_tokens c) (PyFloat (call_cost c)) s of
             (r, s1) \<Rightarrow> (Updated r, s1))
      | Refused e \<Rightarrow> (t, s)
      | Updated r \<Rightarrow> (t, s))"

text \<open>
  A schedule names, step by step, the request that moves. The requests share the
  database; each has its own point and its own instance.
\<close>

fun run_schedule :: "ai_call list \<Rightarrow> nat list \<Rightarrow> quota_thread list \<times> state \<Rightarrow> quota_thread list \<times> state" where
  "run_schedule cs [] cfg = cfg"
| "run_schedule cs (i # sched) (ts, s) =
     (if i < length ts \<and> i < length cs
      then case thread_step (cs ! i) (ts ! i) s of
             (t, s1) \<Rightarrow> run_schedule cs sched (ts[i := t], s1)
      else run_schedule cs sched (ts, s))"

text \<open>Two requests of the example user in the same month, with their own keys.\<close>

definition first_call :: ai_call where
  "first_call = \<lparr>call_env = example_env, call_user = example_user, call_tokens = 150,
                 call_cost = 1 / 5000\<rparr>"

definition second_call :: ai_call where
  "second_call = \<lparr>call_env = example_env\<lparr>env_uuid := 43, env_auto_id := 2, env_now := 101\<rparr>,
                  call_user = example_user, call_tokens = 150, call_cost = 1 / 5000\<rparr>"

section \<open>Two users\<close>

text \<open>
  A second user, an integration of each of the two users, and a webhook endpoint of the
  first user's integration.
\<close>

definition other_user :: user where
  "other_user =
     \<lparr>user_id = 2, email = ''ben@example.ph'', company_name = ''Ben Foods'',
      subscription_tier = ''business'', monthly_ai_calls = 0, business_type = ''restaurant'',
      preferred_language = ''tl''\<rparr>"

definition example_integration :: integration where
  "example_integration =
     \<lparr>int_id = 10, int_user = 1, int_name = ''Store payments'', int_integration_type = ''payment'',
      int_service_name = ''gcash'', int_service_url = '''', int_config_data = JObj [],
      int_is_active = True, int_refresh_token = '''', int_api_key = '''', int_api_secret = '''',
      int_webhook_secret = '''', int_health_status = ''healthy'', int_total_requests = 0,
      int_successful_requests = 0, int_failed_requests = 0, int_created_at = 10,
      int_updated_at = 10\<rparr>"

definition other_integration :: integration where
  "other_integration = example_integration\<lparr>int_id := 20, int_user := 2, int_name := ''Orders''\<rparr>"

definition example_webhook :: webhook_endpoint where
  "example_webhook =
     \<lparr>wh_id = 5, wh_integration = 10, wh_name = ''Payments hook'', wh_url_path = ''pay-1'',
      wh_secret_key = ''k'', wh_allowed_ips = JArr [], wh_require_signature = True,
      wh_signature_header = ''X-Signature'', wh_status = ''active'',
      wh_auto_trigger_workflows = True, wh_total_requests = 0, wh_successful_requests = 0,
      wh_failed_requests = 0, wh_created_at = 20, wh_updated_at = 20\<rparr>"

definition webhook_state :: state where
  "webhook_state =
     empty_state\<lparr>users := [example_user, other_user],
                  integrations := [example_integration, other_integration],
                  webhooks := [example_webhook]\<rparr>"

text \<open>The validated data of \<open>PATCH\<close> with the body \<open>{"integration": 20}\<close>.\<close>

definition move_webhook :: webhook_data where
  "move_webhook =
     \<lparr>d_wh_integration = Some 20, d_wh_name = None, d_wh_url_path = None,
      d_wh_secret_key = None, d_wh_allowed_ips = None, d_wh_require_signature = None,
      d_wh_signature_header = None, d_wh_status = None, d_wh_auto_trigger_workflows = None\<rparr>"

section \<open>The admin of workflow executions (automations/admin.py)\<close>

text \<open>
  \<open>WorkflowExecutionAdmin\<close> registers the model with the Django admin. The change
  form of an execution, open to a staff user with the permission to change executions,
  has an input for every field of the fieldsets that is not in \<open>readonly_fields\<close>:
  \<open>workflow\<close>, \<open>status\<close>, \<open>trigger_data\<close>, \<open>output_data\<close>, \<open>error_message\<close>,
  \<open>error_details\<close>, the three fields of AI usage, the two counters of actions and
  \<open>execution_log\<close>. The record holds the values of the inputs, each of the type of its
  field; a JSON input left empty is \<open>JNull\<close>.
\<close>

record execution_form =
  f_workflow :: nat
  f_status :: string
  f_trigger_data :: json
  f_output_data :: json
  f_error_message :: string
  f_error_details :: json
  f_ai_calls_made :: int
  f_ai_tokens_used :: int
  f_ai_cost_estimate :: rat
  f_actions_completed :: int
  f_actions_failed :: int
  f_execution_log :: json

text \<open>
  The validation of the form, from the fields of the model. The workflow is a row; the
  status is one of \<open>STATUS_CHOICES\<close>; a JSON field without \<open>blank=True\<close> is required,
  and a form field takes \<open>None\<close>, the empty string, the empty list and the empty object
  for no value; an integer is in the range of its column; the decimal
  (\<open>max_digits=10, decimal_places=4\<close>) has at most four decimal places and six digits
  before them.
\<close>

definition execution_status_choices :: "string list" where
  "execution_status_choices =
     [''pending'', ''running'', ''completed'', ''failed'', ''cancelled'', ''timeout'']"

definition empty_value :: "json \<Rightarrow> bool" where
  "empty_value v = (v = JNull \<or> v = JStr [] \<or> v = JArr [] \<or> v = JObj [])"

definition decimal_column :: "nat \<Rightarrow> nat \<Rightarrow> rat \<Rightarrow> bool" where
  "decimal_column max_digits places x =
     (x * 10 ^ places = of_int \<lfloor>x * 10 ^ places\<rfloor> \<and> \<bar>x\<bar> < 10 ^ (max_digits - places))"

definition execution_form_valid :: "env \<Rightarrow> execution_form \<Rightarrow> state \<Rightarrow> bool" where
  "execution_form_valid env f s =
     ((\<exists>w \<in> set (workflows s). wf_id w = f_workflow f)
      \<and> f_status f \<in> set execution_status_choices
      \<and> \<not> empty_value (f_trigger_data f)
      \<and> \<not> empty_value (f_output_data f)
      \<and> \<not> empty_value (f_execution_log f)
      \<and> env_int_column env (f_ai_calls_made f)
      \<and> env_int_column env (f_ai_tokens_used f)
      \<and> decimal_column 10 4 (f_ai_cost_estimate f)
      \<and> env_int_column env (f_actions_completed f)
      \<and> env_int_column env (f_actions_failed f))"

text \<open>
  The change view for the execution with the primary key \<open>k\<close>: with no such row it
  redirects and writes nothing; an invalid form is shown again with its errors; a valid
  form is saved to the row (\<open>error_details\<close> has \<open>blank=True\<close>, so the form accepts it
  empty, and saving the \<open>None\<close> it then holds violates the column's \<open>NOT NULL\<close>). The
  read-only fields keep their values.
\<close>

datatype admin_result = Saved | FormErrors | NoSuchObject

definition admin_execution_change ::
  "env \<Rightarrow> execution_form \<Rightarrow> nat \<Rightarrow> state \<Rightarrow> (exn + admin_result) \<times> state" where
  "admin_execution_change env f k s =
     (case find (\<lambda>e. ex_id e = k) (executions s) of
        None \<Rightarrow> (Inr NoSuchObject, s)
      | Some e \<Rightarrow>
          if \<not> execution_form_valid env f s then (Inr FormErrors, s)
          else if f_error_details f = JNull
          then (Inl (IntegrityError ''null value in column error_details''), s)
          else
            (Inr Saved,
             s\<lparr>executions :=
                 save_row ex_id
                   (e\<lparr>ex_workflow := f_workflow f,
                      ex_status := f_status f,
                      ex_trigger_data := f_trigger_data f,
                      ex_output_data := f_output_data f,
                      ex_error_message := f_error_message f,
                      ex_error_details := f_error_details f,
                      ex_ai_calls_made := f_ai_calls_made f,
                      ex_ai_tokens_used := f_ai_tokens_used f,
                      ex_ai_cost_estimate := PyDecimal (f_ai_cost_estimate f),
                      ex_actions_completed := f_actions_completed f,
                      ex_actions_failed := f_actions_failed f,
                      ex_execution_log := f_execution_log f\<rparr>)
                   (executions s)\<rparr>))"

text \<open>
  The form with which a staff user marks the execution 9 of the workflow 7 completed.
\<close>

definition complete_form :: execution_form where
  "complete_form =
     \<lparr>f_workflow = 7, f_status = ''completed'',
      f_trigger_data = JObj [(''source'', JStr ''manual'')],
      f_output_data = JObj [(''done'', JBool True)],
      f_error_message = [], f_error_details = JObj [],
      f_ai_calls_made = 0, f_ai_tokens_used = 0, f_ai_cost_estimate = 0,
      f_actions_completed = 0, f_actions_failed = 0,
      f_execution_log = JArr [JStr ''marked completed by hand'']\<rparr>"

text \<open>\<open>action_config.get('order', 0)\<close> of an item of the template's actions.\<close>

definition configured_order :: "json \<Rightarrow> json" where
  "configured_order item =
     (case item of JObj action_config \<Rightarrow> dict_get action_config ''order'' (JNum 0) | _ \<Rightarrow> JNull)"

definition fractional_state :: state where
  "fractional_state = example_state\<lparr>automation_templates := [fractional_template]\<rparr>"

text \<open>Two actions of the example workflow, stored in the order of their creation.\<close>

definition example_action :: automation_action where
  "example_action =
     \<lparr>act_id = 1, act_workflow = 7, act_name = ''Notify'', act_action_type = ''send_email'',
      act_action_config = JObj [], act_order = 2, act_conditions = JObj [],
      act_is_conditional = False, act_ai_enhanced = False, act_ai_prompt_template = [],
      act_retry_on_failure = True, act_max_retries = 3, act_delay_seconds = 0,
      act_created_at = 30, act_updated_at = 30\<rparr>"

definition action_state :: state where
  "action_state =
     example_state
       \<lparr>actions := [example_action,
                    example_action\<lparr>act_id := 2, act_name := ''Task'', act_order := 1\<rparr>,
                    example_action\<lparr>act_id := 3, act_workflow := 70, act_order := 0\<rparr>]\<rparr>"

section \<open>Rounding to the places of a decimal column\<close>

text \<open>
  A value written to a \<open>DecimalField\<close> is quantized to the decimal places of the field,
  halves to the even digit (the rounding of a new \<open>decimal.Context\<close>).
\<close>

definition round_places :: "nat \<Rightarrow> rat \<Rightarrow> rat" where
  "round_places places x =
     (let y = x * 10 ^ places; n = \<lfloor>y\<rfloor>
      in of_int (if y - of_int n < 1 / 2 then n
                 else if 1 / 2 < y - of_int n then n + 1
                 else if even n then n else n + 1) / 10 ^ places)"

text \<open>
  The example environment with this rounding, and with a provider whose answer uses 10
  and 5 tokens: at the example prices, a cost of 0.00002 dollars.
\<close>

definition small_completion :: completion where
  "small_completion =
     \<lparr>cmp_content = ''{}'', cmp_prompt_tokens = 10, cmp_completion_tokens = 5,
      cmp_total_tokens = 15\<rparr>"

definition rounding_env :: env where
  "rounding_env = example_env\<lparr>env_quantize := round_places\<rparr>"

definition small_env :: env where
  "small_env =
     rounding_env\<lparr>env_chat_completions_create :=
                     (\<lambda>model_id system_prompt user_prompt. Inr small_completion)\<rparr>"

section \<open>Verified properties\<close>

subsection \<open>Derived percentages\<close>

lemma min_100_le: "pyval (min_100 x) \<le> 100"
  by (simp add: min_100_def)

lemma requests_percentage_cases:
  "requests_percentage fl q =
     Inr (if max_requests q = 0 then PyInt 0
          else min_100 (fl (fl (of_int (current_requests q) / of_int (max_requests q)) * 100)))"
  by (simp add: requests_percentage_def int_truediv_def)

lemma tokens_percentage_cases:
  "tokens_percentage fl q =
     Inr (if max_tokens q = 0 then PyInt 0
          else min_100 (fl (fl (of_int (current_tokens q) / of_int (max_tokens q)) * 100)))"
  by (simp add: tokens_percentage_def int_truediv_def)

lemma cost_percentage_cases:
  assumes "pyval (max_cost_usd q) \<noteq> 0 \<longrightarrow> py_float fl (max_cost_usd q) \<noteq> 0"
  shows "cost_percentage fl q =
     Inr (if pyval (max_cost_usd q) = 0 then PyInt 0
          else min_100 (fl (fl (py_float fl (current_cost_usd q) / py_float fl (max_cost_usd q)) * 100)))"
  using assms by (simp add: cost_percentage_def float_truediv_def py_is_zero_def)

text \<open>
  C10. The three quota percentages, \<open>success_rate\<close> and \<open>success_percentage\<close> never
  raise: each returns a value. The quota percentages return 0 when their maximum is 0
  and a value of at most 100 otherwise; \<open>success_rate\<close> returns 0 when
  \<open>total_executions\<close> is 0 and \<open>success_percentage\<close> returns 0 when
  \<open>actions_completed + actions_failed\<close> is 0. For \<open>cost_percentage\<close> the divisor
  is \<open>float(max_cost_usd)\<close> while the guard tests \<open>max_cost_usd\<close> itself, so the
  statement needs that a nonzero maximum does not become 0.0 as a float (true of every
  nonzero value of a \<open>DecimalField\<close> with four decimal places).
\<close>

theorem percentages_total_and_guarded:
  assumes "pyval (max_cost_usd q) \<noteq> 0 \<longrightarrow> py_float fl (max_cost_usd q) \<noteq> 0"
  shows "(\<exists>v. requests_percentage fl q = Inr v \<and> pyval v \<le> 100
              \<and> (max_requests q = 0 \<longrightarrow> v = PyInt 0))
       \<and> (\<exists>v. tokens_percentage fl q = Inr v \<and> pyval v \<le> 100
              \<and> (max_tokens q = 0 \<longrightarrow> v = PyInt 0))
       \<and> (\<exists>v. cost_percentage fl q = Inr v \<and> pyval v \<le> 100
              \<and> (pyval (max_cost_usd q) = 0 \<longrightarrow> v = PyInt 0))
       \<and> (\<exists>v. success_rate fl round2 w = Inr v
              \<and> (wf_total_executions w = 0 \<longrightarrow> v = PyInt 0))
       \<and> (\<exists>v. success_percentage fl round2 e = Inr v
              \<and> (ex_actions_completed e + ex_actions_failed e = 0 \<longrightarrow> v = PyInt 0))"
proof -
  have r: "\<exists>v. requests_percentage fl q = Inr v \<and> pyval v \<le> 100
              \<and> (max_requests q = 0 \<longrightarrow> v = PyInt 0)"
    by (simp add: requests_percentage_cases min_100_le)
  have t: "\<exists>v. tokens_percentage fl q = Inr v \<and> pyval v \<le> 100
              \<and> (max_tokens q = 0 \<longrightarrow> v = PyInt 0)"
    by (simp add: tokens_percentage_cases min_100_le)
  have c: "\<exists>v. cost_percentage fl q = Inr v \<and> pyval v \<le> 100
              \<and> (pyval (max_cost_usd q) = 0 \<longrightarrow> v = PyInt 0)"
    by (simp add: cost_percentage_cases [OF assms] min_100_le)
  have s: "\<exists>v. success_rate fl round2 w = Inr v
              \<and> (wf_total_executions w = 0 \<longrightarrow> v = PyInt 0)"
    by (simp add: success_rate_def int_truediv_def)
  have p: "\<exists>v. success_percentage fl round2 e = Inr v
              \<and> (ex_actions_completed e + ex_actions_failed e = 0 \<longrightarrow> v = PyInt 0)"
    by (simp add: success_percentage_def int_truediv_def Let_def)
  from r t c s p show ?thesis by blast
qed

theorem percentages_total_and_guarded_witness:
  "py_float (\<lambda>x. x) (max_cost_usd example_quota) \<noteq> 0
   \<and> requests_percentage (\<lambda>x. x) example_quota = Inr (PyFloat 50)
   \<and> tokens_percentage (\<lambda>x. x) example_quota = Inr (PyFloat 25)
   \<and> cost_percentage (\<lambda>x. x) example_quota = Inr (PyFloat 5)
   \<and> cost_percentage (\<lambda>x. x) (example_quota\<lparr>max_cost_usd := PyDecimal 0\<rparr>) = Inr (PyInt 0)
   \<and> success_rate (\<lambda>x. x) (\<lambda>x. x) example_workflow = Inr (PyInt 0)
   \<and> success_percentage (\<lambda>x. x) (\<lambda>x. x) example_execution = Inr (PyInt 0)"
proof -
  have h: "pyval (max_cost_usd example_quota) \<noteq> 0
      \<longrightarrow> py_float (\<lambda>x. x) (max_cost_usd example_quota) \<noteq> 0"
    by (simp add: example_quota_def)
  have h0: "pyval (max_cost_usd (example_quota\<lparr>max_cost_usd := PyDecimal 0\<rparr>)) \<noteq> 0
      \<longrightarrow> py_float (\<lambda>x. x) (max_cost_usd (example_quota\<lparr>max_cost_usd := PyDecimal 0\<rparr>)) \<noteq> 0"
    by simp
  from percentages_total_and_guarded [OF h, of "\<lambda>x. x" example_workflow example_execution]
       percentages_total_and_guarded [OF h0, of "\<lambda>x. x" example_workflow example_execution]
  show ?thesis
    by (simp add: example_quota_def example_workflow_def example_execution_def
          requests_percentage_def tokens_percentage_def cost_percentage_def
          success_rate_def success_percentage_def int_truediv_def float_truediv_def
          py_is_zero_def min_100_def)
qed

subsection \<open>Saving a row\<close>

lemma find_save_row:
  "find (\<lambda>x. pk x = k \<and> Q x) rows = Some w \<Longrightarrow> pk r = k \<Longrightarrow> Q r
   \<Longrightarrow> find (\<lambda>x. pk x = k \<and> Q x) (save_row pk r rows) = Some r"
  by (induction rows) (auto simp: save_row_def split: if_splits)

lemma save_row_twice:
  "pk r' = pk r \<Longrightarrow> save_row pk r' (save_row pk r rows) = save_row pk r' rows"
  by (induction rows) (auto simp: save_row_def)

lemma find_Some_mem: "find P xs = Some x \<Longrightarrow> x \<in> set xs \<and> P x"
  by (induction xs) (auto split: if_splits)

lemma distinct_pk_eq:
  "distinct (map pk rows) \<Longrightarrow> x \<in> set rows \<Longrightarrow> y \<in> set rows \<Longrightarrow> pk x = pk y \<Longrightarrow> x = y"
  by (metis distinct_map inj_onD)

lemma map_save_row_same:
  assumes "distinct (map pk rows)" and "w \<in> set rows" and "pk r = pk w" and "f r = f w"
  shows "map f (save_row pk r rows) = map f rows"
proof -
  have "\<And>x. x \<in> set rows \<Longrightarrow> f (if pk x = pk r then r else x) = f x"
    using assms distinct_pk_eq [of pk rows] by fastforce
  then show ?thesis by (simp add: save_row_def)
qed

subsection \<open>Toggling a workflow\<close>

lemma toggle_active:
  assumes "get_workflow_or_404 s wid u = Some w" and "wf_status w = ''active''"
  shows "toggle_workflow_status now u wid s =
           (\<lparr>status_code = 200,
             body = JObj [(''message'', JStr ''Workflow paused successfully''),
                          (''status'', JStr ''paused'')]\<rparr>,
            s\<lparr>workflows := save_row wf_id (w\<lparr>wf_status := ''paused'', wf_updated_at := now\<rparr>)
                               (workflows s)\<rparr>)"
  using assms by (simp add: toggle_workflow_status_def Let_def)

lemma toggle_paused:
  assumes "get_workflow_or_404 s wid u = Some w" and "wf_status w = ''paused''"
  shows "toggle_workflow_status now u wid s =
           (\<lparr>status_code = 200,
             body = JObj [(''message'', JStr ''Workflow activated successfully''),
                          (''status'', JStr ''active'')]\<rparr>,
            s\<lparr>workflows := save_row wf_id (w\<lparr>wf_status := ''active'', wf_updated_at := now\<rparr>)
                               (workflows s)\<rparr>)"
  using assms by (simp add: toggle_workflow_status_def Let_def)

lemma toggle_other:
  assumes "get_workflow_or_404 s wid u = Some w"
    and "wf_status w \<noteq> ''active''" and "wf_status w \<noteq> ''paused''"
  shows "toggle_workflow_status now u wid s =
           (\<lparr>status_code = 400,
             body = JObj [(''error'', JStr ''Cannot toggle disabled workflow'')]\<rparr>, s)"
  using assms by (simp add: toggle_workflow_status_def)

lemma get_workflow_after_save:
  assumes "get_workflow_or_404 s wid u = Some w" and "wf_id w' = wf_id w" and "wf_user w' = wf_user w"
  shows "get_workflow_or_404 (s\<lparr>workflows := save_row wf_id w' (workflows s)\<rparr>) wid u = Some w'"
proof -
  from assms(1) have "wf_id w = wid \<and> wf_user w = user_id u"
    unfolding get_workflow_or_404_def by (auto dest: find_Some_mem)
  with assms show ?thesis
    unfolding get_workflow_or_404_def
    by (simp add: find_save_row [where Q = "\<lambda>x. wf_user x = user_id u"])
qed

lemma wf_status_same: "wf_status w = x \<Longrightarrow> w\<lparr>wf_status := x\<rparr> = w"
  by (cases w) auto

lemma toggle_twice:
  assumes "get_workflow_or_404 s wid u = Some w"
    and "wf_status w = ''active'' \<or> wf_status w = ''paused''"
  shows "snd (toggle_workflow_status now' u wid (snd (toggle_workflow_status now u wid s))) =
           s\<lparr>workflows := save_row wf_id (w\<lparr>wf_updated_at := now'\<rparr>) (workflows s)\<rparr>"
proof -
  from assms(2) show ?thesis
  proof
    assume a: "wf_status w = ''active''"
    let ?w1 = "w\<lparr>wf_status := ''paused'', wf_updated_at := now\<rparr>"
    let ?s1 = "s\<lparr>workflows := save_row wf_id ?w1 (workflows s)\<rparr>"
    have s1: "snd (toggle_workflow_status now u wid s) = ?s1"
      by (simp add: toggle_active [OF assms(1) a])
    have g1: "get_workflow_or_404 ?s1 wid u = Some ?w1"
      by (rule get_workflow_after_save [OF assms(1)]) simp_all
    have "snd (toggle_workflow_status now' u wid ?s1) =
            ?s1\<lparr>workflows := save_row wf_id (?w1\<lparr>wf_status := ''active'', wf_updated_at := now'\<rparr>)
                                 (workflows ?s1)\<rparr>"
      by (subst toggle_paused [OF g1]) simp_all
    also have "\<dots> = s\<lparr>workflows := save_row wf_id (w\<lparr>wf_updated_at := now'\<rparr>) (workflows s)\<rparr>"
      using wf_status_same [OF a] by (simp add: save_row_twice)
    finally show ?thesis by (simp add: s1)
  next
    assume p: "wf_status w = ''paused''"
    let ?w1 = "w\<lparr>wf_status := ''active'', wf_updated_at := now\<rparr>"
    let ?s1 = "s\<lparr>workflows := save_row wf_id ?w1 (workflows s)\<rparr>"
    have s1: "snd (toggle_workflow_status now u wid s) = ?s1"
      by (simp add: toggle_paused [OF assms(1) p])
    have g1: "get_workflow_or_404 ?s1 wid u = Some ?w1"
      by (rule get_workflow_after_save [OF assms(1)]) simp_all
    have "snd (toggle_workflow_status now' u wid ?s1) =
            ?s1\<lparr>workflows := save_row wf_id (?w1\<lparr>wf_status := ''paused'', wf_updated_at := now'\<rparr>)
                                 (workflows ?s1)\<rparr>"
      by (subst toggle_active [OF g1]) simp_all
    also have "\<dots> = s\<lparr>workflows := save_row wf_id (w\<lparr>wf_updated_at := now'\<rparr>) (workflows s)\<rparr>"
      using wf_status_same [OF p] by (simp add: save_row_twice)
    finally show ?thesis by (simp add: s1)
  qed
qed

lemma toggle_state_shape:
  "\<exists>w'. snd (toggle_workflow_status now u wid s) = s
        \<or> (get_workflow_or_404 s wid u \<noteq> None
            \<and> wf_other_fields w' = wf_other_fields (the (get_workflow_or_404 s wid u))
            \<and> wf_id w' = wf_id (the (get_workflow_or_404 s wid u))
            \<and> snd (toggle_workflow_status now u wid s) =
                s\<lparr>workflows := save_row wf_id w' (workflows s)\<rparr>)"
proof (cases "get_workflow_or_404 s wid u")
  case None
  then show ?thesis by (simp add: toggle_workflow_status_def)
next
  case (Some w)
  consider "wf_status w = ''active''" | "wf_status w = ''paused''"
    | "wf_status w \<noteq> ''active''" "wf_status w \<noteq> ''paused''" by blast
  then show ?thesis
  proof cases
    case 1
    show ?thesis
      by (rule exI [of _ "w\<lparr>wf_status := ''paused'', wf_updated_at := now\<rparr>"])
         (simp add: toggle_active [OF Some 1] Some wf_other_fields_def)
  next
    case 2
    show ?thesis
      by (rule exI [of _ "w\<lparr>wf_status := ''active'', wf_updated_at := now\<rparr>"])
         (simp add: toggle_paused [OF Some 2] Some wf_other_fields_def)
  next
    case 3
    then show ?thesis by (simp add: toggle_other [OF Some])
  qed
qed

lemma toggle_other_fields:
  assumes "distinct (map wf_id (workflows s))"
  shows "map wf_other_fields (workflows (snd (toggle_workflow_status now u wid s))) =
           map wf_other_fields (workflows s)
       \<and> (snd (toggle_workflow_status now u wid s))\<lparr>workflows := workflows s\<rparr> = s"
proof -
  from toggle_state_shape [of now u wid s] obtain w' where
    d: "snd (toggle_workflow_status now u wid s) = s
        \<or> (get_workflow_or_404 s wid u \<noteq> None
            \<and> wf_other_fields w' = wf_other_fields (the (get_workflow_or_404 s wid u))
            \<and> wf_id w' = wf_id (the (get_workflow_or_404 s wid u))
            \<and> snd (toggle_workflow_status now u wid s) =
                s\<lparr>workflows := save_row wf_id w' (workflows s)\<rparr>)" by blast
  then show ?thesis
  proof
    assume "snd (toggle_workflow_status now u wid s) = s"
    then show ?thesis by simp
  next
    assume r: "get_workflow_or_404 s wid u \<noteq> None
            \<and> wf_other_fields w' = wf_other_fields (the (get_workflow_or_404 s wid u))
            \<and> wf_id w' = wf_id (the (get_workflow_or_404 s wid u))
            \<and> snd (toggle_workflow_status now u wid s) =
                s\<lparr>workflows := save_row wf_id w' (workflows s)\<rparr>"
    then obtain w where w: "get_workflow_or_404 s wid u = Some w" by auto
    then have mem: "w \<in> set (workflows s)"
      unfolding get_workflow_or_404_def by (auto dest: find_Some_mem)
    from r w have "map wf_other_fields (save_row wf_id w' (workflows s)) =
                     map wf_other_fields (workflows s)"
      by (intro map_save_row_same [OF assms mem]) simp_all
    with r show ?thesis by simp
  qed
qed

text \<open>
  C9. For a workflow \<open>w\<close> that the requesting user owns (with primary keys unique, as
  the database keeps them): an active workflow is saved as paused and a paused one as
  active, with HTTP 200; toggling twice gives back the first state but for the time in
  \<open>updated_at\<close>; a disabled workflow gives HTTP 400 and the same state. Whatever the
  request, the stored workflows keep every field other than \<open>status\<close> and
  \<open>updated_at\<close>, and no other table changes.
\<close>

theorem toggle_workflow_status_correct:
  assumes "distinct (map wf_id (workflows s))" and "get_workflow_or_404 s wid u = Some w"
  shows "(wf_status w = ''active'' \<longrightarrow>
            status_code (fst (toggle_workflow_status now u wid s)) = 200
            \<and> get_workflow_or_404 (snd (toggle_workflow_status now u wid s)) wid u =
                Some (w\<lparr>wf_status := ''paused'', wf_updated_at := now\<rparr>))
       \<and> (wf_status w = ''paused'' \<longrightarrow>
            status_code (fst (toggle_workflow_status now u wid s)) = 200
            \<and> get_workflow_or_404 (snd (toggle_workflow_status now u wid s)) wid u =
                Some (w\<lparr>wf_status := ''active'', wf_updated_at := now\<rparr>))
       \<and> (wf_status w = ''active'' \<or> wf_status w = ''paused'' \<longrightarrow>
            snd (toggle_workflow_status now' u wid (snd (toggle_workflow_status now u wid s))) =
              s\<lparr>workflows := save_row wf_id (w\<lparr>wf_updated_at := now'\<rparr>) (workflows s)\<rparr>
            \<and> get_workflow_or_404
                 (snd (toggle_workflow_status now' u wid (snd (toggle_workflow_status now u wid s))))
                 wid u = Some (w\<lparr>wf_updated_at := now'\<rparr>))
       \<and> (wf_status w = ''disabled'' \<longrightarrow>
            status_code (fst (toggle_workflow_status now u wid s)) = 400
            \<and> snd (toggle_workflow_status now u wid s) = s)
       \<and> map wf_other_fields (workflows (snd (toggle_workflow_status now u wid s))) =
           map wf_other_fields (workflows s)
       \<and> (snd (toggle_workflow_status now u wid s))\<lparr>workflows := workflows s\<rparr> = s"
proof -
  have a: "wf_status w = ''active'' \<longrightarrow>
            status_code (fst (toggle_workflow_status now u wid s)) = 200
            \<and> get_workflow_or_404 (snd (toggle_workflow_status now u wid s)) wid u =
                Some (w\<lparr>wf_status := ''paused'', wf_updated_at := now\<rparr>)"
    by (simp add: toggle_active [OF assms(2)] get_workflow_after_save [OF assms(2)])
  have p: "wf_status w = ''paused'' \<longrightarrow>
            status_code (fst (toggle_workflow_status now u wid s)) = 200
            \<and> get_workflow_or_404 (snd (toggle_workflow_status now u wid s)) wid u =
                Some (w\<lparr>wf_status := ''active'', wf_updated_at := now\<rparr>)"
    by (simp add: toggle_paused [OF assms(2)] get_workflow_after_save [OF assms(2)])
  have t: "wf_status w = ''active'' \<or> wf_status w = ''paused'' \<longrightarrow>
            snd (toggle_workflow_status now' u wid (snd (toggle_workflow_status now u wid s))) =
              s\<lparr>workflows := save_row wf_id (w\<lparr>wf_updated_at := now'\<rparr>) (workflows s)\<rparr>
            \<and> get_workflow_or_404
                 (snd (toggle_workflow_status now' u wid (snd (toggle_workflow_status now u wid s))))
                 wid u = Some (w\<lparr>wf_updated_at := now'\<rparr>)"
    by (simp add: toggle_twice [OF assms(2)] get_workflow_after_save [OF assms(2)])
  have d: "wf_status w = ''disabled'' \<longrightarrow>
            status_code (fst (toggle_workflow_status now u wid s)) = 400
            \<and> snd (toggle_workflow_status now u wid s) = s"
    by (simp add: toggle_other [OF assms(2)])
  from a p t d toggle_other_fields [OF assms(1), of now u wid] show ?thesis by blast
qed

theorem toggle_workflow_status_correct_witness:
  "distinct (map wf_id (workflows example_state))
   \<and> get_workflow_or_404 example_state 7 example_user = Some example_workflow
   \<and> wf_status example_workflow = ''active''
   \<and> status_code (fst (toggle_workflow_status 30 example_user 7 example_state)) = 200
   \<and> get_workflow_or_404 (snd (toggle_workflow_status 30 example_user 7 example_state)) 7 example_user
       = Some (example_workflow\<lparr>wf_status := ''paused'', wf_updated_at := 30\<rparr>)
   \<and> get_workflow_or_404
        (snd (toggle_workflow_status 40 example_user 7
               (snd (toggle_workflow_status 30 example_user 7 example_state)))) 7 example_user
       = Some (example_workflow\<lparr>wf_updated_at := 40\<rparr>)"
proof -
  have h1: "distinct (map wf_id (workflows example_state))"
    by (simp add: example_state_def empty_state_def)
  have h2: "get_workflow_or_404 example_state 7 example_user = Some example_workflow"
    by (simp add: get_workflow_or_404_def example_state_def empty_state_def
          example_workflow_def example_user_def)
  have h3: "wf_status example_workflow = ''active''"
    by (simp add: example_workflow_def)
  from toggle_workflow_status_correct [OF h1 h2, of 30 40] h3
  have "status_code (fst (toggle_workflow_status 30 example_user 7 example_state)) = 200
   \<and> get_workflow_or_404 (snd (toggle_workflow_status 30 example_user 7 example_state)) 7 example_user
       = Some (example_workflow\<lparr>wf_status := ''paused'', wf_updated_at := 30\<rparr>)
   \<and> get_workflow_or_404
        (snd (toggle_workflow_status 40 example_user 7
               (snd (toggle_workflow_status 30 example_user 7 example_state)))) 7 example_user
       = Some (example_workflow\<lparr>wf_updated_at := 40\<rparr>)"
    by blast
  with h1 h2 h3 show ?thesis by blast
qed

subsection \<open>Ordered actions\<close>

lemma paginate_set: "paginate page qs = Some rows \<Longrightarrow> set rows \<subseteq> set qs"
  by (auto simp: paginate_def split: if_splits dest: in_set_takeD in_set_dropD)

lemma paginate_sorted:
  assumes "paginate page qs = Some rows" and "sorted (map f qs)"
  shows "sorted (map f rows)"
proof -
  have t: "sorted (map f (take 20 qs))"
    using assms(2) by (simp add: take_map [symmetric])
  have d: "sorted (map f (take 20 (drop n qs)))" for n
    using assms(2) by (simp add: take_map [symmetric] drop_map [symmetric])
  from assms(1) t d show ?thesis
    by (auto simp: paginate_def split: if_splits)
qed

lemma workflow_actions_sorted: "sorted (map act_order (workflow_actions w s))"
  by (simp add: workflow_actions_def)

lemma workflow_actions_set:
  "set (workflow_actions w s) = {a \<in> set (actions s). act_workflow a = wf_id w}"
  by (auto simp: workflow_actions_def)

lemma action_list_sorted:
  assumes "action_list page u wid s = ((200, rows), s')"
  shows "sorted (map act_order rows)"
proof (cases "get_workflow_or_404 s wid u")
  case None
  with assms show ?thesis by (simp add: action_list_def action_queryset_def)
next
  case (Some w)
  show ?thesis
  proof (cases "paginate page (workflow_actions w s)")
    case None
    with Some assms show ?thesis
      by (simp add: action_list_def action_queryset_def list_view_def)
  next
    case (Some rows')
    with \<open>get_workflow_or_404 s wid u = Some w\<close> assms have "rows' = rows"
      by (simp add: action_list_def action_queryset_def list_view_def)
    with Some show ?thesis
      using paginate_sorted [OF _ workflow_actions_sorted] by blast
  qed
qed

lemma template_action_row_Inr:
  assumes "template_action_row env next_id w c = Inr a"
  shows "integer_value env (dict_get c ''order'' (JNum 0)) = Inr (Some (act_order a))
         \<and> act_workflow a = wf_id w \<and> act_id a = next_id"
  using assms
  by (auto simp: template_action_row_def split: sum.splits option.splits if_splits)

lemma create_template_actions_appends:
  "create_template_actions env next_id w items s = (r, s')
   \<Longrightarrow> \<exists>new. s' = s\<lparr>actions := actions s @ new\<rparr>
         \<and> (r = None \<longrightarrow>
               map (\<lambda>a. Inr (Some (act_order a))) new
                 = map (\<lambda>item. integer_value env (configured_order item)) items
               \<and> map act_workflow new = map (\<lambda>c. wf_id w) items)"
proof (induction items arbitrary: next_id s)
  case Nil
  then show ?case by simp
next
  case (Cons item items)
  show ?case
  proof (cases item)
    case (JObj c)
    show ?thesis
    proof (cases "template_action_row env next_id w c")
      case (Inl e)
      with Cons.prems JObj show ?thesis by (auto intro: exI [of _ "[]"])
    next
      case (Inr a)
      from Cons.prems JObj Inr
      have "create_template_actions env (Suc next_id) w items (s\<lparr>actions := actions s @ [a]\<rparr>) = (r, s')"
        by simp
      from Cons.IH [OF this] obtain new where
        n: "s' = s\<lparr>actions := actions s @ [a]\<rparr>\<lparr>actions := actions (s\<lparr>actions := actions s @ [a]\<rparr>) @ new\<rparr>"
           "r = None \<longrightarrow> map (\<lambda>a. Inr (Some (act_order a))) new
                 = map (\<lambda>item. integer_value env (configured_order item)) items
               \<and> map act_workflow new = map (\<lambda>c. wf_id w) items"
        by blast
      show ?thesis
        by (rule exI [of _ "a # new"])
           (use n template_action_row_Inr [OF Inr] JObj in \<open>simp add: configured_order_def\<close>)
    qed
  qed (use Cons.prems in \<open>auto intro: exI [of _ "[]"]\<close>)
qed

lemma template_workflow_row_Inr:
  assumes "template_workflow_row env new_id u t name config = Inr w"
  shows "wf_id w = new_id \<and> wf_user w = user_id u"
  using assms
  by (auto simp: template_workflow_row_def split: sum.splits option.splits if_splits)

lemma create_from_template_cases:
  "(snd (create_workflow_from_template env u tid name s) = s
      \<and> (\<forall>ws acts. fst (create_workflow_from_template env u tid name s) \<noteq> Inr (201, ws, acts)))
   \<or> (\<exists>t config w items r s2.
         find (\<lambda>t. atpl_id t = tid) (automation_templates s) = Some t
         \<and> atpl_workflow_config t = JObj config
         \<and> template_workflow_row env (env_uuid env) u t name config = Inr w
         \<and> ((\<exists>e. iterate (dict_get config ''actions'' (JArr [])) = Inl e
                  \<and> create_workflow_from_template env u tid name s
                      = (Inl e, s\<lparr>workflows := workflows s @ [w]\<rparr>))
            \<or> (iterate (dict_get config ''actions'' (JArr [])) = Inr items
                \<and> create_template_actions env (env_auto_id env) w items
                     (s\<lparr>workflows := workflows s @ [w]\<rparr>) = (r, s2)
                \<and> create_workflow_from_template env u tid name s
                     = (case r of
                          Some e \<Rightarrow> (Inl e, s2)
                        | None \<Rightarrow> (Inr (201, [w], workflow_actions w (increment_usage t s2)),
                                    increment_usage t s2)))))"
proof (cases "find (\<lambda>t. atpl_id t = tid) (automation_templates s)")
  case None
  then show ?thesis by (simp add: create_workflow_from_template_def)
next
  case (Some t)
  show ?thesis
  proof (cases "atpl_is_premium t \<and> subscription_tier u = ''starter''")
    case True
    with Some show ?thesis by (simp add: create_workflow_from_template_def)
  next
    case False
    show ?thesis
    proof (cases "atpl_workflow_config t")
      case (JObj config)
      show ?thesis
      proof (cases "template_workflow_row env (env_uuid env) u t name config")
        case (Inl e)
        with Some False JObj show ?thesis by (simp add: create_workflow_from_template_def)
      next
        case (Inr w)
        show ?thesis
        proof (cases "iterate (dict_get config ''actions'' (JArr []))")
          case (Inl e)
          with Some False JObj Inr show ?thesis
            by (simp add: create_workflow_from_template_def)
        next
          case it: (Inr items)
          obtain r s2 where c: "create_template_actions env (env_auto_id env) w items
                     (s\<lparr>workflows := workflows s @ [w]\<rparr>) = (r, s2)"
            by (metis surj_pair)
          have "create_workflow_from_template env u tid name s
                     = (case r of
                          Some e \<Rightarrow> (Inl e, s2)
                        | None \<Rightarrow> (Inr (201, [w], workflow_actions w (increment_usage t s2)),
                                    increment_usage t s2))"
            using Some False JObj Inr it c
            by (cases r) (simp_all add: create_workflow_from_template_def Let_def)
          with Some JObj Inr it c show ?thesis by blast
        qed
      qed
    qed (use Some False in \<open>simp_all add: create_workflow_from_template_def\<close>)
  qed
qed

lemma create_from_template_201:
  assumes "create_workflow_from_template env u tid name s = (Inr (201, ws, acts), s')"
  shows "\<exists>t config items w new.
           find (\<lambda>t. atpl_id t = tid) (automation_templates s) = Some t
           \<and> atpl_workflow_config t = JObj config
           \<and> iterate (dict_get config ''actions'' (JArr [])) = Inr items
           \<and> ws = [w] \<and> wf_id w = env_uuid env \<and> wf_user w = user_id u
           \<and> workflows s' = workflows s @ [w]
           \<and> actions s' = actions s @ new
           \<and> map (\<lambda>a. Inr (Some (act_order a))) new
                = map (\<lambda>item. integer_value env (configured_order item)) items
           \<and> map act_workflow new = map (\<lambda>c. env_uuid env) items
           \<and> acts = workflow_actions w s'"
proof -
  from create_from_template_cases [of env u tid name s] assms
  obtain t config w items r s2 where
    f: "find (\<lambda>t. atpl_id t = tid) (automation_templates s) = Some t"
       "atpl_workflow_config t = JObj config"
       "template_workflow_row env (env_uuid env) u t name config = Inr w"
    and d: "(\<exists>e. iterate (dict_get config ''actions'' (JArr [])) = Inl e
                  \<and> create_workflow_from_template env u tid name s
                      = (Inl e, s\<lparr>workflows := workflows s @ [w]\<rparr>))
            \<or> (iterate (dict_get config ''actions'' (JArr [])) = Inr items
                \<and> create_template_actions env (env_auto_id env) w items
                     (s\<lparr>workflows := workflows s @ [w]\<rparr>) = (r, s2)
                \<and> create_workflow_from_template env u tid name s
                     = (case r of
                          Some e \<Rightarrow> (Inl e, s2)
                        | None \<Rightarrow> (Inr (201, [w], workflow_actions w (increment_usage t s2)),
                                    increment_usage t s2)))"
    by auto
  from d assms have it: "iterate (dict_get config ''actions'' (JArr [])) = Inr items"
    and c: "create_template_actions env (env_auto_id env) w items
                     (s\<lparr>workflows := workflows s @ [w]\<rparr>) = (r, s2)"
    and e: "create_workflow_from_template env u tid name s
                     = (case r of
                          Some e \<Rightarrow> (Inl e, s2)
                        | None \<Rightarrow> (Inr (201, [w], workflow_actions w (increment_usage t s2)),
                                    increment_usage t s2))"
    by auto
  from e assms have r: "r = None" by (cases r) auto
  from e assms r have res: "ws = [w]" "s' = increment_usage t s2" "acts = workflow_actions w s'"
    by auto
  from create_template_actions_appends [OF c] r obtain new where
    n: "s2 = (s\<lparr>workflows := workflows s @ [w]\<rparr>)\<lparr>actions := actions (s\<lparr>workflows := workflows s @ [w]\<rparr>) @ new\<rparr>"
       "map (\<lambda>a. Inr (Some (act_order a))) new
                = map (\<lambda>item. integer_value env (configured_order item)) items"
       "map act_workflow new = map (\<lambda>c. wf_id w) items"
    by blast
  from template_workflow_row_Inr [OF f(3)] have w: "wf_id w = env_uuid env" "wf_user w = user_id u"
    by simp_all
  show ?thesis
    apply (rule exI [of _ t], rule exI [of _ config], rule exI [of _ items],
           rule exI [of _ w], rule exI [of _ new])
    using f it res n w by (simp add: increment_usage_def)
qed

lemma action_list_page:
  assumes "get_workflow_or_404 s wid u = Some w"
  shows "action_list 1 u wid s = ((200, take 20 (workflow_actions w s)), s)"
    and "1 < page \<Longrightarrow> 20 * (page - 1) < length (workflow_actions w s)
         \<Longrightarrow> action_list page u wid s
               = ((200, take 20 (drop (20 * (page - 1)) (workflow_actions w s))), s)"
  using assms
  by (simp_all add: action_list_def action_queryset_def list_view_def paginate_def)

lemma workflow_actions_length:
  "length (workflow_actions w s) = length (filter (\<lambda>a. act_workflow a = wf_id w) (actions s))"
  by (simp add: workflow_actions_def)

lemma integer_value_JNum: "integer_value env (JNum n) = Inr (Some n)"
  by (simp add: integer_value_def)

lemma integral_orders:
  assumes "map (\<lambda>a. Inr (Some (act_order a))) new
             = map (\<lambda>item. integer_value env (configured_order item)) items"
    and "\<forall>item \<in> set items. \<exists>n. configured_order item = JNum n"
  shows "map (\<lambda>a. JNum (act_order a)) new = map configured_order items"
  using assms
proof (induction items arbitrary: new)
  case Nil
  then show ?case by simp
next
  case (Cons item items)
  from Cons.prems(1) obtain a rest where n: "new = a # rest" by (cases new) auto
  from Cons.prems(2) obtain n where c: "configured_order item = JNum n" by auto
  from Cons.prems(1) n c have "act_order a = n" by (simp add: integer_value_JNum)
  moreover from Cons.IH [of rest] Cons.prems n have
    "map (\<lambda>a. JNum (act_order a)) rest = map configured_order items" by simp
  ultimately show ?case using n c by simp
qed


lemma count_list_insort_key: "count_list (insort_key f x xs) a = count_list (x # xs) a"
  by (induction xs) auto

lemma count_list_sort_key: "count_list (sort_key f xs) a = count_list xs a"
  by (induction xs) (simp_all add: count_list_insort_key)

lemma workflow_actions_count:
  "count_list (workflow_actions w s) a
     = count_list (filter (\<lambda>a. act_workflow a = wf_id w) (actions s)) a"
  by (simp add: workflow_actions_def count_list_sort_key)

lemma action_list_404:
  "get_workflow_or_404 s wid u = None \<Longrightarrow> action_list page u wid s = ((404, []), s)"
  by (simp add: action_list_def action_queryset_def)

lemma floor_27_10: "\<lfloor>27 / 10 :: rat\<rfloor> = 2"
  by (rule floor_unique) simp_all

text \<open>
  The claim C7 as it is written fails: the template's document is not validated, and
  the \<open>order\<close> it configures is converted to the integer column. With the order 2.7
  for the first action the view answers 201 and the action is stored with the order 2.
\<close>

theorem template_order_counterexample:
  "atpl_workflow_config fractional_template
     = JObj [(''trigger_type'', JStr ''email''),
             (''use_ai_processing'', JBool False),
             (''actions'',
              JArr [JObj [(''name'', JStr ''Notify''), (''action_type'', JStr ''send_email''),
                          (''order'', JReal (27 / 10))],
                    JObj [(''name'', JStr ''Task''), (''action_type'', JStr ''create_task''),
                          (''order'', JNum 1)]])]
   \<and> configured_order (JObj [(''name'', JStr ''Notify''), (''action_type'', JStr ''send_email''),
                             (''order'', JReal (27 / 10))]) = JReal (27 / 10)
   \<and> fst (fst (api_step example_env example_user (CreateWorkflowFromTemplate 5 ''My leads'')
                  fractional_state)) = 201
   \<and> map act_order
        (actions (snd (api_step example_env example_user (CreateWorkflowFromTemplate 5 ''My leads'')
                         fractional_state))) = [2, 1]"
  by (simp add: fractional_template_def example_template_def configured_order_def dict_get_def
        fractional_state_def example_state_def empty_state_def example_user_def
        create_workflow_from_template_def template_workflow_row_def template_action_row_def
        boolean_value_def char_value_def integer_value_def iterate_def example_env_def
        increment_usage_def save_row_def floor_27_10 Let_def)

text \<open>
  C7, amended. The action list endpoint answers a request for a workflow of the
  requester with the pages of \<open>workflow.actions.all()\<close>, twenty rows a page, and a
  request for any other workflow with 404; \<open>workflow.actions.all()\<close> holds the stored
  actions of the workflow, each as often as it is stored, sorted by ascending \<open>order\<close>,
  and so is every page. When \<open>create_workflow_from_template\<close> answers 201, the template's
  document is an object whose \<open>actions\<close> can be iterated, and the view has appended
  one action per item, in the template's sequence, each attached to the new workflow and
  with the order that the integer column makes of the configured \<open>order\<close> (0 where the
  item configures none): the configured value itself where it is an integer. The actions
  nested in the response are sorted by \<open>order\<close>.
\<close>

theorem workflow_actions_ordered:
  "(get_workflow_or_404 s wid u = Some w
      \<longrightarrow> action_list 1 u wid s = ((200, take 20 (workflow_actions w s)), s)
          \<and> (1 < page \<and> 20 * (page - 1) < length (workflow_actions w s)
               \<longrightarrow> action_list page u wid s
                     = ((200, take 20 (drop (20 * (page - 1)) (workflow_actions w s))), s)))
   \<and> (get_workflow_or_404 s wid u = None \<longrightarrow> action_list page u wid s = ((404, []), s))
   \<and> sorted (map act_order (workflow_actions w s))
   \<and> set (workflow_actions w s) = {a \<in> set (actions s). act_workflow a = wf_id w}
   \<and> (\<forall>a. count_list (workflow_actions w s) a
              = count_list (filter (\<lambda>a. act_workflow a = wf_id w) (actions s)) a)
   \<and> (action_list page u wid s = ((200, rows), sa) \<longrightarrow> sorted (map act_order rows))
   \<and> (create_workflow_from_template env u tid name s = (Inr (201, ws, acts), sb)
       \<longrightarrow> (\<exists>t config items.
              find (\<lambda>t. atpl_id t = tid) (automation_templates s) = Some t
              \<and> atpl_workflow_config t = JObj config
              \<and> iterate (dict_get config ''actions'' (JArr [])) = Inr items
              \<and> take (length (actions s)) (actions sb) = actions s
              \<and> map (\<lambda>a. Inr (Some (act_order a))) (drop (length (actions s)) (actions sb))
                   = map (\<lambda>item. integer_value env (configured_order item)) items
              \<and> ((\<forall>item \<in> set items. \<exists>n. configured_order item = JNum n)
                   \<longrightarrow> map (\<lambda>a. JNum (act_order a)) (drop (length (actions s)) (actions sb))
                         = map configured_order items)
              \<and> map act_workflow (drop (length (actions s)) (actions sb))
                   = map (\<lambda>c. env_uuid env) items)
           \<and> sorted (map act_order acts))"
proof -
  have p: "get_workflow_or_404 s wid u = Some w
      \<longrightarrow> action_list 1 u wid s = ((200, take 20 (workflow_actions w s)), s)
          \<and> (1 < page \<and> 20 * (page - 1) < length (workflow_actions w s)
               \<longrightarrow> action_list page u wid s
                     = ((200, take 20 (drop (20 * (page - 1)) (workflow_actions w s))), s))"
    using action_list_page(1) [of s wid u w] action_list_page(2) [of s wid u w page] by blast
  have n: "get_workflow_or_404 s wid u = None \<longrightarrow> action_list page u wid s = ((404, []), s)"
    using action_list_404 by blast
  have l: "action_list page u wid s = ((200, rows), sa) \<longrightarrow> sorted (map act_order rows)"
    using action_list_sorted by blast
  have k: "\<forall>a. count_list (workflow_actions w s) a
              = count_list (filter (\<lambda>a. act_workflow a = wf_id w) (actions s)) a"
    using workflow_actions_count by blast
  have c: "create_workflow_from_template env u tid name s = (Inr (201, ws, acts), sb)
       \<longrightarrow> (\<exists>t config items.
              find (\<lambda>t. atpl_id t = tid) (automation_templates s) = Some t
              \<and> atpl_workflow_config t = JObj config
              \<and> iterate (dict_get config ''actions'' (JArr [])) = Inr items
              \<and> take (length (actions s)) (actions sb) = actions s
              \<and> map (\<lambda>a. Inr (Some (act_order a))) (drop (length (actions s)) (actions sb))
                   = map (\<lambda>item. integer_value env (configured_order item)) items
              \<and> ((\<forall>item \<in> set items. \<exists>n. configured_order item = JNum n)
                   \<longrightarrow> map (\<lambda>a. JNum (act_order a)) (drop (length (actions s)) (actions sb))
                         = map configured_order items)
              \<and> map act_workflow (drop (length (actions s)) (actions sb))
                   = map (\<lambda>c. env_uuid env) items)
           \<and> sorted (map act_order acts)"
  proof
    assume a: "create_workflow_from_template env u tid name s = (Inr (201, ws, acts), sb)"
    from create_from_template_201 [OF a]
    obtain t config items w' new where
      f: "find (\<lambda>t. atpl_id t = tid) (automation_templates s) = Some t"
         "atpl_workflow_config t = JObj config"
         "iterate (dict_get config ''actions'' (JArr [])) = Inr items"
      and m: "actions sb = actions s @ new"
         "map (\<lambda>a. Inr (Some (act_order a))) new
                = map (\<lambda>item. integer_value env (configured_order item)) items"
         "map act_workflow new = map (\<lambda>c. env_uuid env) items"
         "acts = workflow_actions w' sb"
      by blast
    have i: "(\<forall>item \<in> set items. \<exists>n. configured_order item = JNum n)
                   \<longrightarrow> map (\<lambda>a. JNum (act_order a)) new = map configured_order items"
      using integral_orders [OF m(2)] by blast
    have "find (\<lambda>t. atpl_id t = tid) (automation_templates s) = Some t
              \<and> atpl_workflow_config t = JObj config
              \<and> iterate (dict_get config ''actions'' (JArr [])) = Inr items
              \<and> take (length (actions s)) (actions sb) = actions s
              \<and> map (\<lambda>a. Inr (Some (act_order a))) (drop (length (actions s)) (actions sb))
                   = map (\<lambda>item. integer_value env (configured_order item)) items
              \<and> ((\<forall>item \<in> set items. \<exists>n. configured_order item = JNum n)
                   \<longrightarrow> map (\<lambda>a. JNum (act_order a)) (drop (length (actions s)) (actions sb))
                         = map configured_order items)
              \<and> map act_workflow (drop (length (actions s)) (actions sb))
                   = map (\<lambda>c. env_uuid env) items"
      using f m i by simp
    moreover have "sorted (map act_order acts)"
      using m(4) by (simp add: workflow_actions_sorted)
    ultimately show "(\<exists>t config items.
              find (\<lambda>t. atpl_id t = tid) (automation_templates s) = Some t
              \<and> atpl_workflow_config t = JObj config
              \<and> iterate (dict_get config ''actions'' (JArr [])) = Inr items
              \<and> take (length (actions s)) (actions sb) = actions s
              \<and> map (\<lambda>a. Inr (Some (act_order a))) (drop (length (actions s)) (actions sb))
                   = map (\<lambda>item. integer_value env (configured_order item)) items
              \<and> ((\<forall>item \<in> set items. \<exists>n. configured_order item = JNum n)
                   \<longrightarrow> map (\<lambda>a. JNum (act_order a)) (drop (length (actions s)) (actions sb))
                         = map configured_order items)
              \<and> map act_workflow (drop (length (actions s)) (actions sb))
                   = map (\<lambda>c. env_uuid env) items)
           \<and> sorted (map act_order acts)"
      by blast
  qed
  from p n workflow_actions_sorted [of w s] workflow_actions_set [of w s] k l c
  show ?thesis by blast
qed

lemma example_action_list:
  "action_list 1 example_user 7 action_state
     = ((200, [example_action\<lparr>act_id := 2, act_name := ''Task'', act_order := 1\<rparr>, example_action]),
        action_state)"
  by (simp add: action_list_def action_queryset_def get_workflow_or_404_def list_view_def
        paginate_def workflow_actions_def action_state_def example_state_def empty_state_def
        example_workflow_def example_user_def example_action_def)

lemma example_create_from_template:
  "fst (create_workflow_from_template example_env example_user 5 ''My leads'' template_state)
     = Inr (201,
            [\<lparr>wf_id = 42, wf_user = 1, wf_name = ''My leads'',
              wf_description = ''Created from template: Lead follow-up'',
              wf_status = ''active'', wf_trigger_type = ''email'', wf_trigger_config = JObj [],
              wf_ai_instructions = [], wf_use_ai_processing = False,
              wf_ai_model_preference = ''auto'', wf_total_executions = 0,
              wf_successful_executions = 0, wf_failed_executions = 0, wf_last_executed = None,
              wf_business_hours_only = True, wf_language_context = ''mixed'',
              wf_created_at = 100, wf_updated_at = 100\<rparr>],
            workflow_actions (example_workflow\<lparr>wf_id := 42\<rparr>)
              (snd (create_workflow_from_template example_env example_user 5 ''My leads''
                      template_state)))"
  by (simp add: create_workflow_from_template_def template_state_def example_state_def
        empty_state_def example_template_def example_user_def dict_get_def increment_usage_def
        template_workflow_row_def template_action_row_def boolean_value_def char_value_def
        integer_value_def iterate_def example_env_def
        save_row_def workflow_actions_def Let_def)

theorem workflow_actions_ordered_witness:
  "get_workflow_or_404 action_state 7 example_user = Some example_workflow
   \<and> action_list 1 example_user 7 action_state
       = ((200, [example_action\<lparr>act_id := 2, act_name := ''Task'', act_order := 1\<rparr>,
                 example_action]), action_state)
   \<and> map act_order (actions action_state) = [2, 1, 0]
   \<and> map act_order (workflow_actions example_workflow action_state) = [1, 2]
   \<and> (\<exists>ws acts.
         create_workflow_from_template example_env example_user 5 ''My leads'' template_state
           = (Inr (201, ws, acts),
              snd (create_workflow_from_template example_env example_user 5 ''My leads''
                     template_state))
         \<and> map act_order acts = [1, 2])
   \<and> map act_order
        (actions (snd (create_workflow_from_template example_env example_user 5 ''My leads''
                         template_state)))
       = [2, 1]"
proof -
  let ?r = "create_workflow_from_template example_env example_user 5 ''My leads'' template_state"
  let ?w = "\<lparr>wf_id = 42, wf_user = 1, wf_name = ''My leads'',
              wf_description = ''Created from template: Lead follow-up'',
              wf_status = ''active'', wf_trigger_type = ''email'', wf_trigger_config = JObj [],
              wf_ai_instructions = [], wf_use_ai_processing = False,
              wf_ai_model_preference = ''auto'', wf_total_executions = 0,
              wf_successful_executions = 0, wf_failed_executions = 0, wf_last_executed = None,
              wf_business_hours_only = True, wf_language_context = ''mixed'',
              wf_created_at = 100, wf_updated_at = 100\<rparr>"
  let ?acts = "workflow_actions (example_workflow\<lparr>wf_id := 42\<rparr>) (snd ?r)"
  have g: "get_workflow_or_404 action_state 7 example_user = Some example_workflow"
    by (simp add: get_workflow_or_404_def action_state_def example_state_def empty_state_def
          example_workflow_def example_user_def)
  have e: "?r = (Inr (201, [?w], ?acts), snd ?r)"
    using example_create_from_template by (simp add: prod_eq_iff)
  have a0: "actions template_state = []"
    by (simp add: template_state_def example_state_def empty_state_def)
  have wa: "workflow_actions example_workflow action_state
              = [example_action\<lparr>act_id := 2, act_name := ''Task'', act_order := 1\<rparr>, example_action]"
    by (simp add: workflow_actions_def action_state_def example_state_def empty_state_def
          example_workflow_def example_action_def)
  note t = workflow_actions_ordered
         [where s = action_state and wid = 7 and u = example_user and w = example_workflow
            and page = 1]
  from t g have l: "action_list 1 example_user 7 action_state
       = ((200, take 20 (workflow_actions example_workflow action_state)), action_state)"
    by blast
  note c = workflow_actions_ordered
         [where s = template_state and env = example_env and u = example_user and tid = 5
            and name = "''My leads''" and ws = "[?w]" and acts = ?acts and sb = "snd ?r"]
  from c e obtain t' config items where
    f: "find (\<lambda>t. atpl_id t = 5) (automation_templates template_state) = Some t'"
       "atpl_workflow_config t' = JObj config"
       "iterate (dict_get config ''actions'' (JArr [])) = Inr items"
    and o: "(\<forall>item \<in> set items. \<exists>n. configured_order item = JNum n)
             \<longrightarrow> map (\<lambda>a. JNum (act_order a)) (drop (length (actions template_state)) (actions (snd ?r)))
                   = map configured_order items"
    by blast
  from f have t': "t' = example_template"
    by (simp add: template_state_def example_template_def)
  from f(2,3) t' have items: "map configured_order items = [JNum 2, JNum 1]"
    by (auto simp: example_template_def dict_get_def iterate_def configured_order_def)
  then have "\<forall>item \<in> set items. \<exists>n. configured_order item = JNum n"
    by (metis (no_types, lifting) imageI insert_iff list.set(2) list.set_map list.simps(15) singletonD empty_iff list.set(1))
  with o items a0 have "map (\<lambda>a. JNum (act_order a)) (actions (snd ?r)) = [JNum 2, JNum 1]"
    by simp
  then have o': "map act_order (actions (snd ?r)) = [2, 1]"
    by (auto simp: map_eq_Cons_conv)
  have w: "map act_order ?acts = [1, 2]"
    by (simp add: create_workflow_from_template_def template_state_def example_state_def
        empty_state_def example_template_def example_user_def dict_get_def increment_usage_def
        template_workflow_row_def template_action_row_def boolean_value_def char_value_def
        integer_value_def iterate_def example_env_def
        save_row_def workflow_actions_def Let_def example_workflow_def)
  have ao: "map act_order (actions action_state) = [2, 1, 0]"
    by (simp add: action_state_def example_action_def)
  have ex: "\<exists>ws acts. ?r = (Inr (201, ws, acts), snd ?r) \<and> map act_order acts = [1, 2]"
    by (rule exI [of _ "[?w]"], rule exI [of _ ?acts], rule conjI [OF e w])
  have l': "action_list 1 example_user 7 action_state
       = ((200, [example_action\<lparr>act_id := 2, act_name := ''Task'', act_order := 1\<rparr>,
                 example_action]), action_state)"
    using l wa by simp
  have wa': "map act_order (workflow_actions example_workflow action_state) = [1, 2]"
    using wa by (simp add: example_action_def)
  from g l' ao wa' ex o' show ?thesis by blast
qed

subsection \<open>The AI service\<close>

lemma save_row_fresh_append:
  "pk r \<notin> pk ` set rows \<Longrightarrow> pk r' = pk r \<Longrightarrow> save_row pk r' (rows @ [r]) = rows @ [r']"
  by (induction rows) (auto simp: save_row_def)

lemma update_usage_Inr:
  assumes "update_usage env q requests tokens cost s = (Inr q', s')"
  shows "\<exists>c. py_add (env_fl env) (current_cost_usd q) cost = Inr c
           \<and> q' = q\<lparr>current_requests := current_requests q + requests,
                     current_tokens := current_tokens q + tokens,
                     current_cost_usd := c,
                     is_exceeded := (current_requests q + requests \<ge> max_requests q
                                     \<or> current_tokens q + tokens \<ge> max_tokens q
                                     \<or> py_ge c (max_cost_usd q))\<rparr>
           \<and> s' = s\<lparr>ai_quotas := save_row q_id (quota_to_db env q') (ai_quotas s)\<rparr>"
  using assms by (auto simp: update_usage_def Let_def split: sum.splits)

lemma update_usage_Inl:
  assumes "update_usage env q requests tokens cost s = (Inl e, s')"
  shows "py_add (env_fl env) (current_cost_usd q) cost = Inl e \<and> s' = s"
  using assms by (auto simp: update_usage_def Let_def split: sum.splits)

lemma py_add_decimal_float: "py_add fl (PyDecimal d) (PyFloat x) \<noteq> Inr c"
  by simp

lemma get_or_create_quota_float:
  assumes "get_or_create_quota env u mc s = ((q, created), s1)"
    and "\<forall>q \<in> set (ai_quotas s). \<exists>d. current_cost_usd q = PyDecimal d"
    and "py_add fl (current_cost_usd q) (PyFloat x) = Inr c"
  shows "created \<and> q = \<lparr>q_id = env_auto_id env, q_user = user_id u, q_period_type = ''monthly'',
                    q_period_start = env_month_start env, q_period_end = env_month_end env,
                    max_requests = ai_usage_limit u, max_tokens = ai_usage_limit u * 1000,
                    max_cost_usd = mc,
                    current_requests = 0, current_tokens = 0, current_cost_usd = PyFloat 0,
                    is_exceeded = False\<rparr>
         \<and> s1 = s\<lparr>ai_quotas := ai_quotas s @ [quota_to_db env q]\<rparr>"
proof (cases "find (\<lambda>q. q_user q = user_id u \<and> q_period_type q = ''monthly''
                     \<and> q_period_start q = env_month_start env) (ai_quotas s)")
  case None
  with assms(1) show ?thesis by (auto simp: get_or_create_quota_def Let_def)
next
  case (Some q0)
  with assms(1) have "q = q0" by (simp add: get_or_create_quota_def)
  moreover from Some have "q0 \<in> set (ai_quotas s)" by (auto dest: find_Some_mem)
  ultimately obtain d where "current_cost_usd q = PyDecimal d" using assms(2) by blast
  with assms(3) show ?thesis by simp
qed

lemma save_request_twice:
  "req_id r' = req_id r \<Longrightarrow> save_request env r' (save_request env r s) = save_request env r' s"
  by (simp add: save_request_def request_to_db_def save_row_twice)

lemma calculate_cost_state:
  "ai_providers s' = ai_providers s \<Longrightarrow> calculate_cost s' = calculate_cost s"
  by (intro ext) (simp add: calculate_cost_def)

text \<open>The instance that the try body leaves when it completes.\<close>

lemma try_body_cases:
  "try_body env u model q sys usr req s =
     (let r1 = req\<lparr>req_processed_input := processed_input sys usr\<rparr>;
          s2 = (save_request env r1 s)\<lparr>provider_calls := provider_calls s @ [(mdl_model_id model, sys, usr)]\<rparr>
      in case env_chat_completions_create env (mdl_model_id model) sys usr of
           Inl e \<Rightarrow> (Inl e, r1, s2)
         | Inr response \<Rightarrow>
             (case env_json_loads env (cmp_content response) of
                Inl e \<Rightarrow> (Inl e, r1, s2)
              | Inr result \<Rightarrow>
                  (let r2 = r1\<lparr>req_status := ''completed'',
                               req_output_data := result,
                               req_input_tokens := cmp_prompt_tokens response,
                               req_output_tokens := cmp_completion_tokens response,
                               req_total_tokens := cmp_total_tokens response,
                               req_response_time_ms := Some (env_response_time_ms env),
                               req_completed_at := Some (env_now env)\<rparr>
                   in case calculate_cost s model (cmp_prompt_tokens response)
                             (cmp_completion_tokens response) of
                        Inl e \<Rightarrow> (Inl e, r2, s2)
                      | Inr cost_usd \<Rightarrow>
                          (let r3 = r2\<lparr>req_cost_usd := cost_usd,
                                       req_cost_php := PyDecimal (pyval cost_usd * 56)\<rparr>;
                               s4 = bump_monthly_ai_calls u
                                      ((save_request env r3 s)\<lparr>provider_calls :=
                                          provider_calls s @ [(mdl_model_id model, sys, usr)]\<rparr>)
                           in case update_usage env q 1 (cmp_total_tokens response)
                                     (PyFloat (py_float (env_fl env) cost_usd)) s4 of
                                (Inl e, s5) \<Rightarrow> (Inl e, r3, s5)
                              | (Inr q', s5) \<Rightarrow> (Inr result, r3, s5)))))"
proof -
  let ?r1 = "req\<lparr>req_processed_input := processed_input sys usr\<rparr>"
  let ?s2 = "(save_request env ?r1 s)\<lparr>provider_calls := provider_calls s @ [(mdl_model_id model, sys, usr)]\<rparr>"
  have cc: "calculate_cost ?s2 = calculate_cost s"
    by (rule calculate_cost_state) (simp add: save_request_def)
  have pc: "provider_calls (save_request env ?r1 s) = provider_calls s"
    by (simp add: save_request_def)
  have sv: "save_request env x ?s2 =
              (save_request env x s)\<lparr>provider_calls := provider_calls s @ [(mdl_model_id model, sys, usr)]\<rparr>"
    if "req_id x = req_id req" for x
    using that by (simp add: save_request_def request_to_db_def save_row_twice)
  show ?thesis
  proof (cases "env_chat_completions_create env (mdl_model_id model) sys usr")
    case (Inl e)
    then show ?thesis by (simp add: try_body_def Let_def pc)
  next
    case r: (Inr response)
    show ?thesis
    proof (cases "env_json_loads env (cmp_content response)")
      case (Inl e)
      with r show ?thesis by (simp add: try_body_def Let_def pc)
    next
      case j: (Inr result)
      show ?thesis
      proof (cases "calculate_cost s model (cmp_prompt_tokens response) (cmp_completion_tokens response)")
        case (Inl e)
        with r j show ?thesis by (simp add: try_body_def Let_def pc cc)
      next
        case (Inr cost)
        with r j show ?thesis by (simp add: try_body_def Let_def pc cc sv)
      qed
    qed
  qed
qed


lemma check_usage_quota_Inr:
  assumes "check_usage_quota env u s = (Inr qc, s1)"
  shows "\<exists>created. get_or_create_quota env u
             (if subscription_tier u = ''starter'' then PyDecimal 10 else PyDecimal 50) s
           = ((quota qc, created), s1)
         \<and> can_use qc = (\<not> is_exceeded (quota qc) \<and> current_requests (quota qc) < max_requests (quota qc))"
proof -
  obtain q created s0 where g: "get_or_create_quota env u
             (if subscription_tier u = ''starter'' then PyDecimal 10 else PyDecimal 50) s
           = ((q, created), s0)"
    by (metis surj_pair)
  with assms show ?thesis
    by (auto simp: check_usage_quota_def split: sum.splits)
qed

lemma get_available_model_state:
  "ai_models s' = ai_models s \<Longrightarrow> get_available_model s' = get_available_model s"
proof -
  assume a: "ai_models s' = ai_models s"
  have g: "get_ai_model s' = get_ai_model s"
    by (intro ext) (simp add: get_ai_model_def a)
  have f: "first_preferred s' ty ids = first_preferred s ty ids" for ty ids
    by (induction ids) (auto simp: g split: sum.splits exn.splits)
  show ?thesis
    by (intro ext) (simp add: get_available_model_def f a split: sum.splits option.splits)
qed

lemma get_or_create_quota_frame:
  assumes "get_or_create_quota env u mc s = ((q, created), s1)"
  shows "s1 = s \<or> s1 = s\<lparr>ai_quotas := ai_quotas s @ [quota_to_db env q]\<rparr>"
  using assms by (auto simp: get_or_create_quota_def Let_def split: option.splits)

lemma run_ai_task_success:
  assumes run: "run_ai_task env (Some u) task_of s = (Inr r, s')" and ok: "success r"
    and inv: "\<forall>q \<in> set (ai_quotas s). \<exists>d. current_cost_usd q = PyDecimal d"
    and fq: "env_auto_id env \<notin> q_id ` set (ai_quotas s)"
    and fr: "env_uuid env \<notin> req_id ` set (ai_requests s)"
  shows "\<exists>model provider response result.
           get_available_model s (subscription_tier u) ''chat'' = Inr (Some model)
         \<and> find (\<lambda>p. prov_id p = mdl_provider model) (ai_providers s) = Some provider
         \<and> env_chat_completions_create env (mdl_model_id model)
               (task_system_prompt (task_of u)) (task_user_prompt (task_of u)) = Inr response
         \<and> env_json_loads env (cmp_content response) = Inr result
         \<and> (let cost = cost_per_input_token provider * of_int (cmp_prompt_tokens response)
                        + cost_per_output_token provider * of_int (cmp_completion_tokens response)
            in r = \<lparr>success = True, res_key = task_result_key (task_of u),
                     res_payload = Some result, res_error = None,
                     res_request_id = env_uuid env,
                     res_cost_php = Some (PyDecimal (cost * 56)),
                     res_tokens_used = Some (cmp_total_tokens response)\<rparr>
             \<and> s' = s\<lparr>users := map (\<lambda>x. if user_id x = user_id u
                                     then x\<lparr>monthly_ai_calls := monthly_ai_calls u + 1\<rparr> else x) (users s),
                       ai_quotas := ai_quotas s @
                          [quota_to_db env
                             \<lparr>q_id = env_auto_id env, q_user = user_id u, q_period_type = ''monthly'',
      q_period_start = env_month_start env, q_period_end = env_month_end env,
      max_requests = ai_usage_limit u, max_tokens = ai_usage_limit u * 1000,
      max_cost_usd = (if subscription_tier u = ''starter'' then PyDecimal 10 else PyDecimal 50),
      current_requests = 1, current_tokens = cmp_total_tokens response,
      current_cost_usd = PyFloat (env_fl env (0 + env_fl env cost)),
      is_exceeded =
        (1 \<ge> ai_usage_limit u \<or> cmp_total_tokens response \<ge> ai_usage_limit u * 1000
         \<or> py_ge (PyFloat (env_fl env (0 + env_fl env cost)))
              (if subscription_tier u = ''starter'' then PyDecimal 10 else PyDecimal 50))\<rparr>],
                       ai_requests := ai_requests s @
                          [request_to_db env
                             \<lparr>req_id = env_uuid env, req_user = user_id u,
      req_model = Some (mdl_pk model),
      req_request_type = task_request_type (task_of u),
      req_status = ''completed'',
      req_input_data = task_input_data (task_of u),
      req_processed_input =
        processed_input (task_system_prompt (task_of u)) (task_user_prompt (task_of u)),
      req_output_data = result,
      req_input_tokens = cmp_prompt_tokens response,
      req_output_tokens = cmp_completion_tokens response,
      req_total_tokens = cmp_total_tokens response,
      req_cost_usd = PyDecimal cost, req_cost_php = PyDecimal (cost * 56),
      req_response_time_ms = Some (env_response_time_ms env),
      req_error_message = [], req_error_code = [],
      req_retry_count = 0,
      req_created_at = env_now env, req_completed_at = Some (env_now env)\<rparr>],
                       provider_calls := provider_calls s @
                          [(mdl_model_id model, task_system_prompt (task_of u), task_user_prompt (task_of u))]\<rparr>)"
proof -
  let ?task = "task_of u"
  let ?mc = "if subscription_tier u = ''starter'' then PyDecimal 10 else PyDecimal 50"
  obtain cres s1 where c: "check_usage_quota env u s = (cres, s1)" by (metis surj_pair)
  with run obtain qc where qc: "cres = Inr qc"
    by (cases cres) (auto simp: run_ai_task_def)
  from run c qc have cu: "can_use qc"
    by (auto simp: run_ai_task_def split: if_splits)
  from check_usage_quota_Inr [OF c [unfolded qc]] obtain created where
    g: "get_or_create_quota env u ?mc s = ((quota qc, created), s1)" by blast
  from get_or_create_quota_frame [OF g] have m1: "ai_models s1 = ai_models s" and p1: "ai_providers s1 = ai_providers s"
    by auto
  obtain mres where mr: "get_available_model s1 (subscription_tier u) ''chat'' = mres" by blast
  with run c qc cu obtain model where model: "mres = Inr (Some model)"
    by (cases mres; cases "projr mres") (auto simp: run_ai_task_def)
  let ?req = "\<lparr>req_id = env_uuid env, req_user = user_id u,
                              req_model = Some (mdl_pk model),
                              req_request_type = task_request_type ?task,
                              req_status = ''processing'',
                              req_input_data = task_input_data ?task,
                              req_processed_input = [],
                              req_output_data = JObj [],
                              req_input_tokens = 0, req_output_tokens = 0, req_total_tokens = 0,
                              req_cost_usd = PyFloat 0, req_cost_php = PyFloat 0,
                              req_response_time_ms = None,
                              req_error_message = [], req_error_code = [],
                              req_retry_count = 0,
                              req_created_at = env_now env, req_completed_at = None\<rparr>"
  let ?s2 = "s1\<lparr>ai_requests := ai_requests s1 @ [request_to_db env ?req]\<rparr>"
  obtain tres r3 s3 where t: "try_body env u model (quota qc) (task_system_prompt ?task)
                                 (task_user_prompt ?task) ?req ?s2 = (tres, r3, s3)"
    by (metis surj_pair)
  from run c qc cu mr model t ok obtain result where res: "tres = Inr result"
    by (cases tres) (auto simp: run_ai_task_def Let_def)
  let ?sys = "task_system_prompt ?task" and ?usr = "task_user_prompt ?task"
  from t res obtain response where
    1: "env_chat_completions_create env (mdl_model_id model) ?sys ?usr = Inr response"
    by (cases "env_chat_completions_create env (mdl_model_id model) ?sys ?usr")
       (auto simp: try_body_cases Let_def)
  from t res 1 have 2: "env_json_loads env (cmp_content response) = Inr result"
    by (cases "env_json_loads env (cmp_content response)")
       (auto simp: try_body_cases Let_def split: sum.splits prod.splits)
  have cs: "calculate_cost ?s2 = calculate_cost s"
    by (rule calculate_cost_state) (simp add: p1)
  from t res 1 2 obtain costv where
    3: "calculate_cost s model (cmp_prompt_tokens response) (cmp_completion_tokens response) = Inr costv"
    by (cases "calculate_cost s model (cmp_prompt_tokens response) (cmp_completion_tokens response)")
       (auto simp: try_body_cases Let_def cs split: sum.splits prod.splits)
  then obtain provider where
    pr: "find (\<lambda>p. prov_id p = mdl_provider model) (ai_providers s) = Some provider"
    and cv: "costv = PyDecimal (cost_per_input_token provider * of_int (cmp_prompt_tokens response)
                        + cost_per_output_token provider * of_int (cmp_completion_tokens response))"
    by (auto simp: calculate_cost_def Let_def split: option.splits)
  let ?cost = "cost_per_input_token provider * of_int (cmp_prompt_tokens response)
                        + cost_per_output_token provider * of_int (cmp_completion_tokens response)"
  let ?r3 = "\<lparr>req_id = env_uuid env, req_user = user_id u,
      req_model = Some (mdl_pk model),
      req_request_type = task_request_type (task_of u),
      req_status = ''completed'',
      req_input_data = task_input_data (task_of u),
      req_processed_input =
        processed_input (task_system_prompt (task_of u)) (task_user_prompt (task_of u)),
      req_output_data = result,
      req_input_tokens = cmp_prompt_tokens response,
      req_output_tokens = cmp_completion_tokens response,
      req_total_tokens = cmp_total_tokens response,
      req_cost_usd = PyDecimal ?cost, req_cost_php = PyDecimal (?cost * 56),
      req_response_time_ms = Some (env_response_time_ms env),
      req_error_message = [], req_error_code = [],
      req_retry_count = 0,
      req_created_at = env_now env, req_completed_at = Some (env_now env)\<rparr>"
  let ?q = "\<lparr>q_id = env_auto_id env, q_user = user_id u, q_period_type = ''monthly'',
      q_period_start = env_month_start env, q_period_end = env_month_end env,
      max_requests = ai_usage_limit u, max_tokens = ai_usage_limit u * 1000,
      max_cost_usd = (if subscription_tier u = ''starter'' then PyDecimal 10 else PyDecimal 50),
      current_requests = 1, current_tokens = cmp_total_tokens response,
      current_cost_usd = PyFloat (env_fl env (0 + env_fl env ?cost)),
      is_exceeded =
        (1 \<ge> ai_usage_limit u \<or> cmp_total_tokens response \<ge> ai_usage_limit u * 1000
         \<or> py_ge (PyFloat (env_fl env (0 + env_fl env ?cost)))
              (if subscription_tier u = ''starter'' then PyDecimal 10 else PyDecimal 50))\<rparr>"
  let ?s4 = "bump_monthly_ai_calls u
               ((save_request env ?r3 ?s2)\<lparr>provider_calls := provider_calls ?s2 @ [(mdl_model_id model, ?sys, ?usr)]\<rparr>)"
  obtain ures s5 where uu: "update_usage env (quota qc) 1 (cmp_total_tokens response)
                              (PyFloat (py_float (env_fl env) costv)) ?s4 = (ures, s5)"
    by (metis surj_pair)
  from t res 1 2 3 uu cv have r3: "r3 = ?r3" and s35: "s3 = s5" and "\<exists>q'. ures = Inr q'"
    by (cases ures; auto simp: try_body_cases Let_def cs)+
  then obtain q' where q': "ures = Inr q'" by blast
  from update_usage_Inr [OF uu [unfolded q']] obtain c where
    pa: "py_add (env_fl env) (current_cost_usd (quota qc)) (PyFloat (py_float (env_fl env) costv)) = Inr c"
    and q'v: "q' = (quota qc)\<lparr>current_requests := current_requests (quota qc) + 1,
                     current_tokens := current_tokens (quota qc) + cmp_total_tokens response,
                     current_cost_usd := c,
                     is_exceeded := (current_requests (quota qc) + 1 \<ge> max_requests (quota qc)
                                     \<or> current_tokens (quota qc) + cmp_total_tokens response \<ge> max_tokens (quota qc)
                                     \<or> py_ge c (max_cost_usd (quota qc)))\<rparr>"
    and s5v: "s5 = ?s4\<lparr>ai_quotas := save_row q_id (quota_to_db env q') (ai_quotas ?s4)\<rparr>"
    by blast
  from get_or_create_quota_float [OF g inv pa] have
    qv: "quota qc = \<lparr>q_id = env_auto_id env, q_user = user_id u, q_period_type = ''monthly'',
                    q_period_start = env_month_start env, q_period_end = env_month_end env,
                    max_requests = ai_usage_limit u, max_tokens = ai_usage_limit u * 1000,
                    max_cost_usd = ?mc,
                    current_requests = 0, current_tokens = 0, current_cost_usd = PyFloat 0,
                    is_exceeded = False\<rparr>"
    and s1v: "s1 = s\<lparr>ai_quotas := ai_quotas s @ [quota_to_db env (quota qc)]\<rparr>"
    by blast+
  from pa qv cv have cval: "c = PyFloat (env_fl env (0 + env_fl env ?cost))" by simp
  have q'u: "q' = ?q"
    unfolding q'v qv cval by simp
  have quotas: "save_row q_id (quota_to_db env q') (ai_quotas ?s4) = ai_quotas s @ [quota_to_db env q']"
  proof -
    have "ai_quotas ?s4 = ai_quotas s @ [quota_to_db env (quota qc)]"
      by (simp add: bump_monthly_ai_calls_def save_request_def s1v)
    moreover have "q_id (quota_to_db env (quota qc)) \<notin> q_id ` set (ai_quotas s)"
      using fq by (simp add: quota_to_db_def qv)
    moreover have "q_id (quota_to_db env q') = q_id (quota_to_db env (quota qc))"
      by (simp add: quota_to_db_def q'v)
    ultimately show ?thesis by (simp add: save_row_fresh_append)
  qed
  have requests: "ai_requests ?s4 = ai_requests s @ [request_to_db env ?r3]"
  proof -
    have "ai_requests ?s4 = save_row req_id (request_to_db env ?r3) (ai_requests s @ [request_to_db env ?req])"
      by (simp add: bump_monthly_ai_calls_def save_request_def s1v)
    moreover have "req_id (request_to_db env ?req) \<notin> req_id ` set (ai_requests s)"
      using fr by (simp add: request_to_db_def)
    moreover have "req_id (request_to_db env ?r3) = req_id (request_to_db env ?req)"
      by (simp add: request_to_db_def)
    ultimately show ?thesis by (simp add: save_row_fresh_append)
  qed
  have s'v: "s' = s3" and rv: "r = \<lparr>success = True, res_key = task_result_key ?task,
                                    res_payload = Some result, res_error = None,
                                    res_request_id = req_id r3,
                                    res_cost_php = Some (req_cost_php r3),
                                    res_tokens_used = Some (req_total_tokens r3)\<rparr>"
    using run c qc cu mr model t res by (auto simp: run_ai_task_def Let_def)
  have final: "s' = s\<lparr>users := map (\<lambda>x. if user_id x = user_id u
                                     then x\<lparr>monthly_ai_calls := monthly_ai_calls u + 1\<rparr> else x) (users s),
                       ai_quotas := ai_quotas s @ [quota_to_db env ?q],
                       ai_requests := ai_requests s @ [request_to_db env ?r3],
                       provider_calls := provider_calls s @ [(mdl_model_id model, ?sys, ?usr)]\<rparr>"
    unfolding s'v s35 s5v quotas q'u [symmetric]
    using requests
    by (simp add: bump_monthly_ai_calls_def save_request_def s1v)
  have gm: "get_available_model s (subscription_tier u) ''chat'' = Inr (Some model)"
    using mr model get_available_model_state [OF m1] by simp
  show ?thesis
    apply (rule exI [of _ model], rule exI [of _ provider], rule exI [of _ response], rule exI [of _ result])
    using gm pr 1 2 final rv r3
    by (simp add: Let_def)
qed

lemma ai_methods_as_tasks:
  "process_email_to_task env (Some u) content ctx s = (Inr r, s')
     \<or> generate_filipino_social_content env (Some u) upd platform ctx s = (Inr r, s')
   \<Longrightarrow> \<exists>task_of. run_ai_task env (Some u) task_of s = (Inr r, s')"
  unfolding process_email_to_task_def generate_filipino_social_content_def by blast

lemma round_places_exact:
  assumes "x * 10 ^ places = of_int n"
  shows "round_places places x = x"
proof -
  have "round_places places x = of_int n / 10 ^ places"
    using assms by (simp add: round_places_def Let_def)
  also have "\<dots> = x" using assms [symmetric] by simp
  finally show ?thesis .
qed

lemma round_places_small: "round_places 4 (1 / 50000) = 0"
proof -
  have f: "\<lfloor>1 / 5 :: rat\<rfloor> = 0" by (rule floor_unique) simp_all
  show ?thesis by (simp add: round_places_def Let_def f)
qed

lemma round_places_examples:
  "round_places 4 (1 / 5000) = 1 / 5000"
  "round_places 6 (1 / 5000) = 1 / 5000"
  "round_places 4 (7 / 625) = 7 / 625"
  "round_places 6 (1 / 50000) = 1 / 50000"
  "round_places 4 0 = 0"
  "round_places 6 0 = 0"
  "round_places 4 10 = 10"
proof -
  show "round_places 4 (1 / 5000) = 1 / 5000" by (rule round_places_exact [of _ _ 2]) simp
  show "round_places 6 (1 / 5000) = 1 / 5000" by (rule round_places_exact [of _ _ 200]) simp
  show "round_places 4 (7 / 625) = 7 / 625" by (rule round_places_exact [of _ _ 112]) simp
  show "round_places 6 (1 / 50000) = 1 / 50000" by (rule round_places_exact [of _ _ 20]) simp
  show "round_places 4 0 = 0" by (rule round_places_exact [of _ _ 0]) simp
  show "round_places 6 0 = 0" by (rule round_places_exact [of _ _ 0]) simp
  show "round_places 4 10 = 10" by (rule round_places_exact [of _ _ 100000]) simp
qed

lemma example_success:
  "\<exists>r s'. process_email_to_task example_env (Some example_user) ''Please send the invoice'' None ai_state
            = (Inr r, s') \<and> success r"
  by (simp add: process_email_to_task_def run_ai_task_def check_usage_quota_def get_or_create_quota_def
        ai_state_def empty_state_def example_user_def example_env_def Let_def
        requests_percentage_def int_truediv_def min_100_def ai_usage_limit_def
        get_available_model_def model_priorities_def get_ai_model_def
        try_body_cases calculate_cost_def update_usage_def example_completion_def)

lemma small_success:
  "\<exists>r s'. process_email_to_task small_env (Some example_user) ''Please send the invoice'' None ai_state
            = (Inr r, s') \<and> success r"
  by (simp add: process_email_to_task_def run_ai_task_def check_usage_quota_def get_or_create_quota_def
        ai_state_def empty_state_def example_user_def example_env_def Let_def
        small_env_def rounding_env_def small_completion_def
        requests_percentage_def int_truediv_def min_100_def ai_usage_limit_def
        get_available_model_def model_priorities_def get_ai_model_def
        try_body_cases calculate_cost_def update_usage_def)

text \<open>
  The claim C4 as it is written fails: the quota's \<open>current_cost_usd\<close> is a column of
  four decimal places. A call that succeeds with 10 input and 5 output tokens costs
  0.00002 dollars, and the quota that it creates holds a cost of 0.
\<close>

theorem usage_cost_counterexample:
  "success (projr (fst (process_email_to_task small_env (Some example_user)
                          ''Please send the invoice'' None ai_state)))
   \<and> env_chat_completions_create small_env ''deepseek/deepseek-r1'' [] [] = Inr small_completion
   \<and> calculate_cost ai_state (hd (ai_models ai_state)) (cmp_prompt_tokens small_completion)
        (cmp_completion_tokens small_completion) = Inr (PyDecimal (1 / 50000))
   \<and> ai_quotas ai_state = []
   \<and> map current_requests
        (ai_quotas (snd (process_email_to_task small_env (Some example_user)
                           ''Please send the invoice'' None ai_state))) = [1]
   \<and> map current_cost_usd
        (ai_quotas (snd (process_email_to_task small_env (Some example_user)
                           ''Please send the invoice'' None ai_state))) = [PyDecimal 0]"
proof -
  let ?x = "process_email_to_task small_env (Some example_user) ''Please send the invoice'' None ai_state"
  have c: "calculate_cost ai_state (hd (ai_models ai_state)) (cmp_prompt_tokens small_completion)
        (cmp_completion_tokens small_completion) = Inr (PyDecimal (1 / 50000))"
    by (simp add: calculate_cost_def ai_state_def empty_state_def small_completion_def)
  have e: "env_chat_completions_create small_env ''deepseek/deepseek-r1'' [] [] = Inr small_completion"
    by (simp add: small_env_def)
  have q0: "ai_quotas ai_state = []" by (simp add: ai_state_def empty_state_def)
  have ok: "success (projr (fst ?x))"
    using small_success by auto
  from small_success obtain r s' where x: "?x = (Inr r, s')" and okr: "success r" by blast
  have inv: "\<forall>q \<in> set (ai_quotas ai_state). \<exists>d. current_cost_usd q = PyDecimal d"
    by (simp add: ai_state_def empty_state_def)
  have fq: "env_auto_id small_env \<notin> q_id ` set (ai_quotas ai_state)"
    by (simp add: ai_state_def empty_state_def)
  have fr: "env_uuid small_env \<notin> req_id ` set (ai_requests ai_state)"
    by (simp add: ai_state_def empty_state_def)
  from ai_methods_as_tasks [OF disjI1 [OF x]] obtain task_of where
    t: "run_ai_task small_env (Some example_user) task_of ai_state = (Inr r, s')" by blast
  from run_ai_task_success [OF t okr inv fq fr] obtain model provider response and result :: json where
    m: "get_available_model ai_state (subscription_tier example_user) ''chat'' = Inr (Some model)"
    and p: "find (\<lambda>p. prov_id p = mdl_provider model) (ai_providers ai_state) = Some provider"
    and cc: "env_chat_completions_create small_env (mdl_model_id model)
               (task_system_prompt (task_of example_user)) (task_user_prompt (task_of example_user))
              = Inr response"
    and rest: "let cost = cost_per_input_token provider * of_int (cmp_prompt_tokens response)
                        + cost_per_output_token provider * of_int (cmp_completion_tokens response)
            in \<exists>q. ai_quotas s' = ai_quotas ai_state @ [quota_to_db small_env q]
                 \<and> current_requests q = 1
                 \<and> current_cost_usd q = PyFloat (env_fl small_env (0 + env_fl small_env cost))"
    by (fastforce simp: Let_def)
  from cc have resp: "response = small_completion" by (simp add: small_env_def)
  from m have "mdl_provider model = 1"
    by (auto simp: get_available_model_def model_priorities_def get_ai_model_def example_user_def
          ai_state_def empty_state_def)
  with p have prov: "cost_per_input_token provider = 1 / 1000000"
                    "cost_per_output_token provider = 2 / 1000000"
    by (auto simp: ai_state_def empty_state_def)
  have s: "snd ?x = s'" using x by simp
  have q: "map current_requests (ai_quotas (snd ?x)) = [1]
           \<and> map current_cost_usd (ai_quotas (snd ?x)) = [PyDecimal 0]"
    unfolding s using rest
    by (auto simp: Let_def resp prov small_completion_def q0 quota_to_db_def to_decimal_def
          small_env_def rounding_env_def example_env_def round_places_small)
  from ok e c q0 q show ?thesis by blast
qed

text \<open>
  C4, amended. When \<open>process_email_to_task\<close> or \<open>generate_filipino_social_content\<close>
  returns a result with \<open>success\<close> true, the provider has answered with a completion
  \<open>response\<close>, and with \<open>cost\<close> the computed cost, the input tokens times
  \<open>cost_per_input_token\<close> plus the output tokens times \<open>cost_per_output_token\<close>: the
  row of the user holds \<open>monthly_ai_calls\<close> of the instance plus 1; the month's quota is
  a new row, the counters of which, 0 when the call created it, are now 1 request, the
  response's total tokens and, as the cost, the float sum of 0.0 and \<open>float(cost)\<close>
  rounded to the four decimal places of the column; the request's row is new, with
  status \<open>completed\<close>, the response's three token counts, \<open>cost\<close> rounded to six
  places and 56 times \<open>cost\<close> rounded to four; one call to the provider is logged; and
  nothing else in the database has changed. Where the conversion to float and the
  rounding of the columns leave \<open>cost\<close> as it is, the quota's cost has grown by
  \<open>cost\<close> and the request holds \<open>cost\<close>. The hypotheses: the stored quotas hold their
  cost as decimals, as rows read from the database do, and the keys of the two new rows
  are new.
\<close>

theorem usage_counters_on_success:
  assumes inv: "\<forall>q \<in> set (ai_quotas s). \<exists>d. current_cost_usd q = PyDecimal d"
    and fq: "env_auto_id env \<notin> q_id ` set (ai_quotas s)"
    and fr: "env_uuid env \<notin> req_id ` set (ai_requests s)"
    and run: "process_email_to_task env (Some u) content ctx s = (Inr r, s')
              \<or> generate_filipino_social_content env (Some u) upd platform ctx s = (Inr r, s')"
    and ok: "success r"
  shows "\<exists>model provider response system_prompt user_prompt q row.
           get_available_model s (subscription_tier u) ''chat'' = Inr (Some model)
         \<and> find (\<lambda>p. prov_id p = mdl_provider model) (ai_providers s) = Some provider
         \<and> env_chat_completions_create env (mdl_model_id model) system_prompt user_prompt = Inr response
         \<and> (let cost = cost_per_input_token provider * of_int (cmp_prompt_tokens response)
                        + cost_per_output_token provider * of_int (cmp_completion_tokens response)
            in calculate_cost s model (cmp_prompt_tokens response) (cmp_completion_tokens response)
                 = Inr (PyDecimal cost)
             \<and> users s' = map (\<lambda>x. if user_id x = user_id u
                                     then x\<lparr>monthly_ai_calls := monthly_ai_calls u + 1\<rparr> else x) (users s)
             \<and> ai_quotas s' = ai_quotas s @ [q]
             \<and> q_user q = user_id u
             \<and> q_period_start q = env_month_start env
             \<and> current_requests q = 0 + 1
             \<and> current_tokens q = 0 + cmp_total_tokens response
             \<and> current_cost_usd q
                  = PyDecimal (env_quantize env 4 (env_fl env (0 + env_fl env cost)))
             \<and> ai_requests s' = ai_requests s @ [row]
             \<and> req_id row = res_request_id r
             \<and> req_user row = user_id u
             \<and> req_status row = ''completed''
             \<and> req_input_tokens row = cmp_prompt_tokens response
             \<and> req_output_tokens row = cmp_completion_tokens response
             \<and> req_total_tokens row = cmp_total_tokens response
             \<and> req_cost_usd row = PyDecimal (env_quantize env 6 cost)
             \<and> req_cost_php row = PyDecimal (env_quantize env 4 (cost * 56))
             \<and> (env_fl env cost = cost \<and> env_fl env (0 + cost) = cost
                    \<and> env_quantize env 4 cost = cost \<and> env_quantize env 6 cost = cost
                  \<longrightarrow> current_cost_usd q = PyDecimal (0 + cost)
                      \<and> req_cost_usd row = PyDecimal cost)
             \<and> res_tokens_used r = Some (cmp_total_tokens response)
             \<and> res_cost_php r = Some (PyDecimal (cost * 56))
             \<and> provider_calls s' = provider_calls s @ [(mdl_model_id model, system_prompt, user_prompt)]
             \<and> s'\<lparr>users := users s, ai_quotas := ai_quotas s, ai_requests := ai_requests s,
                   provider_calls := provider_calls s\<rparr> = s)"
proof -
  from ai_methods_as_tasks [OF run] obtain task_of where
    t: "run_ai_task env (Some u) task_of s = (Inr r, s')" by blast
  from run_ai_task_success [OF t ok inv fq fr] obtain model provider response result where
    m: "get_available_model s (subscription_tier u) ''chat'' = Inr (Some model)"
    and p: "find (\<lambda>p. prov_id p = mdl_provider model) (ai_providers s) = Some provider"
    and c: "env_chat_completions_create env (mdl_model_id model)
               (task_system_prompt (task_of u)) (task_user_prompt (task_of u)) = Inr response"
    and rest: "let cost = cost_per_input_token provider * of_int (cmp_prompt_tokens response)
                        + cost_per_output_token provider * of_int (cmp_completion_tokens response)
            in r = \<lparr>success = True, res_key = task_result_key (task_of u),
                     res_payload = Some result, res_error = None,
                     res_request_id = env_uuid env,
                     res_cost_php = Some (PyDecimal (cost * 56)),
                     res_tokens_used = Some (cmp_total_tokens response)\<rparr>
             \<and> s' = s\<lparr>users := map (\<lambda>x. if user_id x = user_id u
                                     then x\<lparr>monthly_ai_calls := monthly_ai_calls u + 1\<rparr> else x) (users s),
                       ai_quotas := ai_quotas s @
                          [quota_to_db env
                             \<lparr>q_id = env_auto_id env, q_user = user_id u, q_period_type = ''monthly'',
      q_period_start = env_month_start env, q_period_end = env_month_end env,
      max_requests = ai_usage_limit u, max_tokens = ai_usage_limit u * 1000,
      max_cost_usd = (if subscription_tier u = ''starter'' then PyDecimal 10 else PyDecimal 50),
      current_requests = 1, current_tokens = cmp_total_tokens response,
      current_cost_usd = PyFloat (env_fl env (0 + env_fl env cost)),
      is_exceeded =
        (1 \<ge> ai_usage_limit u \<or> cmp_total_tokens response \<ge> ai_usage_limit u * 1000
         \<or> py_ge (PyFloat (env_fl env (0 + env_fl env cost)))
              (if subscription_tier u = ''starter'' then PyDecimal 10 else PyDecimal 50))\<rparr>],
                       ai_requests := ai_requests s @
                          [request_to_db env
                             \<lparr>req_id = env_uuid env, req_user = user_id u,
      req_model = Some (mdl_pk model),
      req_request_type = task_request_type (task_of u),
      req_status = ''completed'',
      req_input_data = task_input_data (task_of u),
      req_processed_input =
        processed_input (task_system_prompt (task_of u)) (task_user_prompt (task_of u)),
      req_output_data = result,
      req_input_tokens = cmp_prompt_tokens response,
      req_output_tokens = cmp_completion_tokens response,
      req_total_tokens = cmp_total_tokens response,
      req_cost_usd = PyDecimal cost, req_cost_php = PyDecimal (cost * 56),
      req_response_time_ms = Some (env_response_time_ms env),
      req_error_message = [], req_error_code = [],
      req_retry_count = 0,
      req_created_at = env_now env, req_completed_at = Some (env_now env)\<rparr>],
                       provider_calls := provider_calls s @
                          [(mdl_model_id model, task_system_prompt (task_of u), task_user_prompt (task_of u))]\<rparr>"
    by blast
  let ?cost = "cost_per_input_token provider * of_int (cmp_prompt_tokens response)
                        + cost_per_output_token provider * of_int (cmp_completion_tokens response)"
  show ?thesis
    apply (rule exI [of _ model], rule exI [of _ provider], rule exI [of _ response])
    apply (rule exI [of _ "task_system_prompt (task_of u)"], rule exI [of _ "task_user_prompt (task_of u)"])
    apply (rule exI [of _ "quota_to_db env \<lparr>q_id = env_auto_id env, q_user = user_id u, q_period_type = ''monthly'',
      q_period_start = env_month_start env, q_period_end = env_month_end env,
      max_requests = ai_usage_limit u, max_tokens = ai_usage_limit u * 1000,
      max_cost_usd = (if subscription_tier u = ''starter'' then PyDecimal 10 else PyDecimal 50),
      current_requests = 1, current_tokens = cmp_total_tokens response,
      current_cost_usd = PyFloat (env_fl env (0 + env_fl env ?cost)),
      is_exceeded =
        (1 \<ge> ai_usage_limit u \<or> cmp_total_tokens response \<ge> ai_usage_limit u * 1000
         \<or> py_ge (PyFloat (env_fl env (0 + env_fl env ?cost)))
              (if subscription_tier u = ''starter'' then PyDecimal 10 else PyDecimal 50))\<rparr>"])
    apply (rule exI [of _ "request_to_db env \<lparr>req_id = env_uuid env, req_user = user_id u,
      req_model = Some (mdl_pk model),
      req_request_type = task_request_type (task_of u),
      req_status = ''completed'',
      req_input_data = task_input_data (task_of u),
      req_processed_input =
        processed_input (task_system_prompt (task_of u)) (task_user_prompt (task_of u)),
      req_output_data = result,
      req_input_tokens = cmp_prompt_tokens response,
      req_output_tokens = cmp_completion_tokens response,
      req_total_tokens = cmp_total_tokens response,
      req_cost_usd = PyDecimal ?cost, req_cost_php = PyDecimal (?cost * 56),
      req_response_time_ms = Some (env_response_time_ms env),
      req_error_message = [], req_error_code = [],
      req_retry_count = 0,
      req_created_at = env_now env, req_completed_at = Some (env_now env)\<rparr>"])
    using m p c rest
    by (simp add: Let_def quota_to_db_def request_to_db_def to_decimal_def calculate_cost_def)
qed

lemma rounding_success:
  "\<exists>r s'. process_email_to_task rounding_env (Some example_user) ''Please send the invoice'' None ai_state
            = (Inr r, s') \<and> success r"
  by (simp add: process_email_to_task_def run_ai_task_def check_usage_quota_def get_or_create_quota_def
        ai_state_def empty_state_def example_user_def example_env_def Let_def rounding_env_def
        requests_percentage_def int_truediv_def min_100_def ai_usage_limit_def
        get_available_model_def model_priorities_def get_ai_model_def
        try_body_cases calculate_cost_def update_usage_def example_completion_def)

theorem usage_counters_on_success_witness:
  "success (projr (fst (process_email_to_task rounding_env (Some example_user)
                          ''Please send the invoice'' None ai_state)))
   \<and> map monthly_ai_calls (users ai_state) = [0]
   \<and> map monthly_ai_calls
        (users (snd (process_email_to_task rounding_env (Some example_user)
                       ''Please send the invoice'' None ai_state))) = [1]
   \<and> map current_requests
        (ai_quotas (snd (process_email_to_task rounding_env (Some example_user)
                           ''Please send the invoice'' None ai_state))) = [1]
   \<and> map current_tokens
        (ai_quotas (snd (process_email_to_task rounding_env (Some example_user)
                           ''Please send the invoice'' None ai_state))) = [150]
   \<and> map current_cost_usd
        (ai_quotas (snd (process_email_to_task rounding_env (Some example_user)
                           ''Please send the invoice'' None ai_state))) = [PyDecimal (1 / 5000)]
   \<and> map req_status
        (ai_requests (snd (process_email_to_task rounding_env (Some example_user)
                             ''Please send the invoice'' None ai_state))) = [''completed'']
   \<and> map req_total_tokens
        (ai_requests (snd (process_email_to_task rounding_env (Some example_user)
                             ''Please send the invoice'' None ai_state))) = [150]
   \<and> map req_cost_usd
        (ai_requests (snd (process_email_to_task rounding_env (Some example_user)
                             ''Please send the invoice'' None ai_state))) = [PyDecimal (1 / 5000)]
   \<and> map req_cost_php
        (ai_requests (snd (process_email_to_task rounding_env (Some example_user)
                             ''Please send the invoice'' None ai_state))) = [PyDecimal (7 / 625)]"
proof -
  let ?x = "process_email_to_task rounding_env (Some example_user) ''Please send the invoice'' None ai_state"
  from rounding_success obtain r s' where x: "?x = (Inr r, s')" and ok: "success r" by blast
  have inv: "\<forall>q \<in> set (ai_quotas ai_state). \<exists>d. current_cost_usd q = PyDecimal d"
    by (simp add: ai_state_def empty_state_def)
  have fq: "env_auto_id rounding_env \<notin> q_id ` set (ai_quotas ai_state)"
    by (simp add: ai_state_def empty_state_def)
  have fr: "env_uuid rounding_env \<notin> req_id ` set (ai_requests ai_state)"
    by (simp add: ai_state_def empty_state_def)
  from usage_counters_on_success [OF inv fq fr disjI1 [OF x] ok]
  obtain model provider response system_prompt user_prompt q row where
    p: "find (\<lambda>p. prov_id p = mdl_provider model) (ai_providers ai_state) = Some provider"
    and m: "get_available_model ai_state (subscription_tier example_user) ''chat'' = Inr (Some model)"
    and c: "env_chat_completions_create rounding_env (mdl_model_id model) system_prompt user_prompt = Inr response"
    and u: "users s' = map (\<lambda>x. if user_id x = user_id example_user
                                     then x\<lparr>monthly_ai_calls := monthly_ai_calls example_user + 1\<rparr> else x)
                          (users ai_state)"
    and qs: "ai_quotas s' = ai_quotas ai_state @ [q]"
    and q1: "current_requests q = 0 + 1"
    and q2: "current_tokens q = 0 + cmp_total_tokens response"
    and q3: "current_cost_usd q =
              PyDecimal (env_quantize rounding_env 4 (env_fl rounding_env (0 + env_fl rounding_env
                 (cost_per_input_token provider * of_int (cmp_prompt_tokens response)
                  + cost_per_output_token provider * of_int (cmp_completion_tokens response)))))"
    and rs: "ai_requests s' = ai_requests ai_state @ [row]"
    and r1: "req_status row = ''completed''"
    and r2: "req_total_tokens row = cmp_total_tokens response"
    and r3: "req_cost_usd row =
              PyDecimal (env_quantize rounding_env 6
                 (cost_per_input_token provider * of_int (cmp_prompt_tokens response)
                  + cost_per_output_token provider * of_int (cmp_completion_tokens response)))"
    and r4: "req_cost_php row =
              PyDecimal (env_quantize rounding_env 4
                 ((cost_per_input_token provider * of_int (cmp_prompt_tokens response)
                  + cost_per_output_token provider * of_int (cmp_completion_tokens response)) * 56))"
    unfolding Let_def by blast
  from c have resp: "response = example_completion" by (simp add: rounding_env_def example_env_def)
  from m have "mdl_provider model = 1"
    by (auto simp: get_available_model_def model_priorities_def get_ai_model_def example_user_def
          ai_state_def empty_state_def)
  with p have prov: "cost_per_input_token provider = 1 / 1000000"
                    "cost_per_output_token provider = 2 / 1000000"
    by (auto simp: ai_state_def empty_state_def)
  have s: "snd ?x = s'" and f: "fst ?x = Inr r" using x by simp_all
  show ?thesis
    unfolding s f
    using ok u qs q1 q2 q3 rs r1 r2 r3 r4
    by (simp add: resp prov example_completion_def ai_state_def empty_state_def example_user_def
          rounding_env_def example_env_def round_places_examples)
qed

lemma map_pk_save_row: "map pk (save_row pk r rows) = map pk rows"
  by (induction rows) (auto simp: save_row_def)

lemma save_row_set: "x \<in> set (save_row pk r rows) \<Longrightarrow> x \<in> set rows \<or> x = r"
  by (auto simp: save_row_def split: if_splits)

lemma save_row_mem: "y \<in> set rows \<Longrightarrow> pk y = pk r \<Longrightarrow> r \<in> set (save_row pk r rows)"
  by (force simp: save_row_def)

lemma update_usage_frame:
  assumes "update_usage env q requests tokens cost s = (res, s')"
  shows "s'\<lparr>ai_quotas := ai_quotas s\<rparr> = s"
  using assms by (auto simp: update_usage_def Let_def split: sum.splits)

lemma check_usage_quota_frame:
  assumes "check_usage_quota env u s = (res, s1)"
  shows "s1\<lparr>ai_quotas := ai_quotas s\<rparr> = s"
proof -
  obtain q created s0 where g: "get_or_create_quota env u
             (if subscription_tier u = ''starter'' then PyDecimal 10 else PyDecimal 50) s
           = ((q, created), s0)"
    by (metis surj_pair)
  from get_or_create_quota_frame [OF g] have "s0\<lparr>ai_quotas := ai_quotas s\<rparr> = s" by auto
  moreover from assms g have "s1 = s0"
    by (auto simp: check_usage_quota_def split: sum.splits)
  ultimately show ?thesis by simp
qed

lemma frame_fields:
  assumes "s1\<lparr>ai_quotas := ai_quotas s\<rparr> = s"
  shows "users s1 = users s" "ai_requests s1 = ai_requests s" "provider_calls s1 = provider_calls s"
    "ai_models s1 = ai_models s" "ai_providers s1 = ai_providers s"
  using arg_cong [OF assms, of users] arg_cong [OF assms, of ai_requests]
    arg_cong [OF assms, of provider_calls] arg_cong [OF assms, of ai_models]
    arg_cong [OF assms, of ai_providers]
  by simp_all

lemma try_body_shape:
  assumes "try_body env u model q sys usr req s = (res, r, s')"
  shows "req_id r = req_id req \<and> req_retry_count r = req_retry_count req
       \<and> (\<exists>rs. req_id rs = req_id req
              \<and> ai_requests s' = save_row req_id (request_to_db env rs) (ai_requests s)
              \<and> (\<forall>result. res = Inr result \<longrightarrow> rs = r))
       \<and> (\<forall>result. res = Inr result \<longrightarrow> req_status r = ''completed'')
       \<and> provider_calls s' = provider_calls s @ [(mdl_model_id model, sys, usr)]
       \<and> s'\<lparr>users := users s, ai_requests := ai_requests s, ai_quotas := ai_quotas s,
             provider_calls := provider_calls s\<rparr> = s"
proof -
  let ?r1 = "req\<lparr>req_processed_input := processed_input sys usr\<rparr>"
  let ?call = "(mdl_model_id model, sys, usr)"
  have A: ?thesis if "res = Inl e" "r = ?r1"
       "s' = (save_request env ?r1 s)\<lparr>provider_calls := provider_calls s @ [?call]\<rparr>" for e
    using that
    by (auto simp: save_request_def intro!: exI [of _ ?r1])
  show ?thesis
  proof (cases "env_chat_completions_create env (mdl_model_id model) sys usr")
    case (Inl e)
    with assms show ?thesis by (intro A [of e]) (auto simp: try_body_cases Let_def)
  next
    case c: (Inr response)
    show ?thesis
    proof (cases "env_json_loads env (cmp_content response)")
      case (Inl e)
      with assms c show ?thesis by (intro A [of e]) (auto simp: try_body_cases Let_def)
    next
      case j: (Inr result)
      let ?r2 = "?r1\<lparr>req_status := ''completed'',
                               req_output_data := result,
                               req_input_tokens := cmp_prompt_tokens response,
                               req_output_tokens := cmp_completion_tokens response,
                               req_total_tokens := cmp_total_tokens response,
                               req_response_time_ms := Some (env_response_time_ms env),
                               req_completed_at := Some (env_now env)\<rparr>"
      show ?thesis
      proof (cases "calculate_cost s model (cmp_prompt_tokens response) (cmp_completion_tokens response)")
        case (Inl e)
        with assms c j have "res = Inl e" "r = ?r2"
          "s' = (save_request env ?r1 s)\<lparr>provider_calls := provider_calls s @ [?call]\<rparr>"
          by (auto simp: try_body_cases Let_def)
        then show ?thesis by (auto simp: save_request_def intro!: exI [of _ ?r1])
      next
        case k: (Inr cost)
        let ?r3 = "?r2\<lparr>req_cost_usd := cost, req_cost_php := PyDecimal (pyval cost * 56)\<rparr>"
        let ?s4 = "bump_monthly_ai_calls u
                     ((save_request env ?r3 s)\<lparr>provider_calls := provider_calls s @ [?call]\<rparr>)"
        obtain ures s5 where uu: "update_usage env q 1 (cmp_total_tokens response)
                                    (PyFloat (py_float (env_fl env) cost)) ?s4 = (ures, s5)"
          by (metis surj_pair)
        from assms c j k uu have rr: "r = ?r3" and ss: "s' = s5"
          and rres: "res = (case ures of Inl e \<Rightarrow> Inl e | Inr q' \<Rightarrow> Inr result)"
          by (auto simp: try_body_cases Let_def split: sum.splits)
        from update_usage_frame [OF uu] have fr: "s5\<lparr>ai_quotas := ai_quotas ?s4\<rparr> = ?s4" .
        have 1: "ai_requests s5 = save_row req_id (request_to_db env ?r3) (ai_requests s)"
          using frame_fields(2) [OF fr] by (simp add: bump_monthly_ai_calls_def save_request_def)
        have 2: "provider_calls s5 = provider_calls s @ [?call]"
          using frame_fields(3) [OF fr] by (simp add: bump_monthly_ai_calls_def save_request_def)
        have 3: "s5\<lparr>users := users s, ai_requests := ai_requests s, ai_quotas := ai_quotas s,
                   provider_calls := provider_calls s\<rparr> = s"
        proof -
          have "s5\<lparr>users := users s, ai_requests := ai_requests s, ai_quotas := ai_quotas s,
                   provider_calls := provider_calls s\<rparr>
                = (s5\<lparr>ai_quotas := ai_quotas ?s4\<rparr>)\<lparr>users := users s, ai_requests := ai_requests s,
                     ai_quotas := ai_quotas s, provider_calls := provider_calls s\<rparr>"
            by simp
          also have "\<dots> = s"
            unfolding fr by (simp add: bump_monthly_ai_calls_def save_request_def)
          finally show ?thesis .
        qed
        show ?thesis
          unfolding rr ss using 1 2 3
          by (auto intro!: exI [of _ ?r3])
      qed
    qed
  qed
qed


lemma run_ai_task_outcome:
  assumes "run_ai_task env (Some u) task_of s = (res, s')"
  shows "(\<exists>e. res = Inl e \<and> ai_requests s' = ai_requests s \<and> provider_calls s' = provider_calls s
              \<and> users s' = users s)
       \<or> (\<exists>r row (model::ai_model).
              res = Inr r \<and> res_request_id r = env_uuid env
            \<and> req_id row = env_uuid env \<and> req_user row = user_id u \<and> req_retry_count row = 0
            \<and> request_to_db env row \<in> set (ai_requests s')
            \<and> (\<forall>x \<in> set (ai_requests s'). x \<in> set (ai_requests s) \<or> x = request_to_db env row)
            \<and> map req_id (ai_requests s') = map req_id (ai_requests s) @ [env_uuid env]
            \<and> provider_calls s' = provider_calls s @
                 [(mdl_model_id model, task_system_prompt (task_of u), task_user_prompt (task_of u))]
            \<and> (if success r then req_status row = ''completed'' \<and> res_error r = None
                else req_status row = ''failed'' \<and> res_error r = Some (req_error_message row)))"
    and "s'\<lparr>users := users s, ai_requests := ai_requests s, ai_quotas := ai_quotas s,
             provider_calls := provider_calls s\<rparr> = s"
proof -
  let ?task = "task_of u"
  let ?P = "(\<exists>e. res = Inl e \<and> ai_requests s' = ai_requests s \<and> provider_calls s' = provider_calls s
              \<and> users s' = users s)
       \<or> (\<exists>r row (model::ai_model).
              res = Inr r \<and> res_request_id r = env_uuid env
            \<and> req_id row = env_uuid env \<and> req_user row = user_id u \<and> req_retry_count row = 0
            \<and> request_to_db env row \<in> set (ai_requests s')
            \<and> (\<forall>x \<in> set (ai_requests s'). x \<in> set (ai_requests s) \<or> x = request_to_db env row)
            \<and> map req_id (ai_requests s') = map req_id (ai_requests s) @ [env_uuid env]
            \<and> provider_calls s' = provider_calls s @
                 [(mdl_model_id model, task_system_prompt (task_of u), task_user_prompt (task_of u))]
            \<and> (if success r then req_status row = ''completed'' \<and> res_error r = None
                else req_status row = ''failed'' \<and> res_error r = Some (req_error_message row)))"
  let ?F = "s'\<lparr>users := users s, ai_requests := ai_requests s, ai_quotas := ai_quotas s,
             provider_calls := provider_calls s\<rparr> = s"
  obtain cres s1 where c: "check_usage_quota env u s = (cres, s1)" by (metis surj_pair)
  note f1 = check_usage_quota_frame [OF c]
  note ff = frame_fields [OF f1]
  have early: "?P \<and> ?F" if "res = Inl e" "s' = s1" for e
  proof -
    have "s1\<lparr>users := users s, ai_requests := ai_requests s, ai_quotas := ai_quotas s,
             provider_calls := provider_calls s\<rparr>
          = (s1\<lparr>ai_quotas := ai_quotas s\<rparr>)\<lparr>users := users s, ai_requests := ai_requests s,
               provider_calls := provider_calls s\<rparr>" by simp
    also have "\<dots> = s" unfolding f1 by simp
    finally show ?thesis using that ff by simp
  qed
  have "?P \<and> ?F"
  proof (cases cres)
    case (Inl e)
    with assms c show ?thesis by (intro early [of e]) (auto simp: run_ai_task_def)
  next
    case qc: (Inr quota_check)
    show ?thesis
    proof (cases "can_use quota_check")
      case False
      with assms c qc show ?thesis
        by (intro early [of "Exception ''AI usage quota exceeded''"]) (auto simp: run_ai_task_def)
    next
      case cu: True
      show ?thesis
      proof (cases "get_available_model s1 (subscription_tier u) ''chat''")
        case (Inl e)
        with assms c qc cu show ?thesis by (intro early [of e]) (auto simp: run_ai_task_def)
      next
        case m: (Inr mo)
        show ?thesis
        proof (cases mo)
          case None
          with assms c qc cu m show ?thesis
            by (intro early [of "Exception (task_no_model_message ?task)"]) (auto simp: run_ai_task_def)
        next
          case (Some model)
          let ?req = "\<lparr>req_id = env_uuid env, req_user = user_id u,
                              req_model = Some (mdl_pk model),
                              req_request_type = task_request_type ?task,
                              req_status = ''processing'',
                              req_input_data = task_input_data ?task,
                              req_processed_input = [],
                              req_output_data = JObj [],
                              req_input_tokens = 0, req_output_tokens = 0, req_total_tokens = 0,
                              req_cost_usd = PyFloat 0, req_cost_php = PyFloat 0,
                              req_response_time_ms = None,
                              req_error_message = [], req_error_code = [],
                              req_retry_count = 0,
                              req_created_at = env_now env, req_completed_at = None\<rparr>"
          let ?s2 = "s1\<lparr>ai_requests := ai_requests s1 @ [request_to_db env ?req]\<rparr>"
          let ?rows2 = "ai_requests s @ [request_to_db env ?req]"
          obtain tres r3 s3 where t: "try_body env u model (quota quota_check) (task_system_prompt ?task)
                                 (task_user_prompt ?task) ?req ?s2 = (tres, r3, s3)"
            by (metis surj_pair)
          from try_body_shape [OF t] obtain rs where
            id3: "req_id r3 = env_uuid env" and rc3: "req_retry_count r3 = 0"
            and idrs: "req_id rs = env_uuid env"
            and rows3: "ai_requests s3 = save_row req_id (request_to_db env rs) ?rows2"
            and rsr: "\<forall>result. tres = Inr result \<longrightarrow> rs = r3"
            and st3: "\<forall>result. tres = Inr result \<longrightarrow> req_status r3 = ''completed''"
            and pc3: "provider_calls s3 = provider_calls s @
                 [(mdl_model_id model, task_system_prompt ?task, task_user_prompt ?task)]"
            and fr3: "s3\<lparr>users := users ?s2, ai_requests := ai_requests ?s2, ai_quotas := ai_quotas ?s2,
                        provider_calls := provider_calls ?s2\<rparr> = ?s2"
            by (auto simp: ff)
          have u3: "req_user r3 = user_id u"
            using t by (auto simp: try_body_cases Let_def split: sum.splits prod.splits)
          have fr3': "s3\<lparr>users := users s, ai_requests := ai_requests s, ai_quotas := ai_quotas s,
                        provider_calls := provider_calls s\<rparr> = s"
          proof -
            have "s3\<lparr>users := users s, ai_requests := ai_requests s, ai_quotas := ai_quotas s,
                        provider_calls := provider_calls s\<rparr>
                  = (s3\<lparr>users := users ?s2, ai_requests := ai_requests ?s2, ai_quotas := ai_quotas ?s2,
                        provider_calls := provider_calls ?s2\<rparr>)\<lparr>users := users s,
                        ai_requests := ai_requests s, ai_quotas := ai_quotas s,
                        provider_calls := provider_calls s\<rparr>" by simp
            also have "\<dots> = (s1\<lparr>ai_quotas := ai_quotas s\<rparr>)\<lparr>users := users s,
                        ai_requests := ai_requests s, provider_calls := provider_calls s\<rparr>"
              unfolding fr3 by simp
            also have "\<dots> = s" unfolding f1 by simp
            finally show ?thesis .
          qed
          have shape: "request_to_db env row \<in> set (save_row req_id (request_to_db env row) ?rows2)
                \<and> (\<forall>x \<in> set (save_row req_id (request_to_db env row) ?rows2).
                       x \<in> set (ai_requests s) \<or> x = request_to_db env row)
                \<and> map req_id (save_row req_id (request_to_db env row) ?rows2)
                     = map req_id (ai_requests s) @ [env_uuid env]"
            if "req_id row = env_uuid env" for row
          proof -
            have k: "req_id (request_to_db env row) = env_uuid env"
              using that by (simp add: request_to_db_def)
            have a: "request_to_db env row \<in> set (save_row req_id (request_to_db env row) ?rows2)"
              by (rule save_row_mem [of "request_to_db env ?req"]) (simp_all add: request_to_db_def that)
            have b: "\<forall>x \<in> set (save_row req_id (request_to_db env row) ?rows2).
                       x \<in> set (ai_requests s) \<or> x = request_to_db env row"
              using that by (auto simp: save_row_def request_to_db_def split: if_splits)
            have c: "map req_id (save_row req_id (request_to_db env row) ?rows2)
                     = map req_id (ai_requests s) @ [env_uuid env]"
              by (simp add: map_pk_save_row request_to_db_def)
            from a b c show ?thesis by blast
          qed
          show ?thesis
          proof (cases tres)
            case (Inr result)
            with assms c qc cu m Some t have
              r: "res = Inr \<lparr>success = True, res_key = task_result_key ?task,
                                    res_payload = Some result, res_error = None,
                                    res_request_id = req_id r3,
                                    res_cost_php = Some (req_cost_php r3),
                                    res_tokens_used = Some (req_total_tokens r3)\<rparr>" and s: "s' = s3"
              by (auto simp: run_ai_task_def Let_def)
            from rsr Inr have "rs = r3" by blast
            with rows3 have rows: "ai_requests s3 = save_row req_id (request_to_db env r3) ?rows2" by simp
            have ?P
              apply (rule disjI2)
              apply (rule exI [of _ "projr res"], rule exI [of _ r3], rule exI [of _ model])
              using r s id3 rc3 u3 st3 Inr pc3 shape [OF id3] rows by simp
            with fr3' s show ?thesis by simp
          next
            case (Inl e)
            let ?r' = "r3\<lparr>req_status := ''failed'', req_error_message := str_exn e,
                           req_completed_at := Some (env_now env)\<rparr>"
            from Inl assms c qc cu m Some t have
              r: "res = Inr \<lparr>success = False, res_key = task_result_key ?task,
                                        res_payload = None, res_error = Some (str_exn e),
                                        res_request_id = req_id ?r',
                                        res_cost_php = None, res_tokens_used = None\<rparr>"
              and s: "s' = save_request env ?r' s3"
              by (auto simp: run_ai_task_def Let_def)
            have rows: "ai_requests s' = save_row req_id (request_to_db env ?r') ?rows2"
              unfolding s save_request_def using rows3 idrs id3
              by (simp add: save_row_twice request_to_db_def)
            have id': "req_id ?r' = env_uuid env" using id3 by simp
            have ?P
              apply (rule disjI2)
              apply (rule exI [of _ "projr res"], rule exI [of _ ?r'], rule exI [of _ model])
              using r id3 rc3 u3 pc3 shape [OF id'] rows by (simp add: s save_request_def)
            moreover have ?F using fr3' by (simp add: s save_request_def)
            ultimately show ?thesis by simp
          qed
        qed
      qed
    qed
  qed
  then show ?P and ?F by blast+
qed

subsection \<open>Updating the usage of a quota\<close>

text \<open>
  What \<open>update_usage\<close> does when the addition to \<open>current_cost_usd\<close> is defined: the
  three counters grow by the three increments, \<open>is_exceeded\<close> is set exactly when a
  counter has reached its maximum, and the row of the quota is written.
\<close>

lemma update_usage_compatible:
  assumes "py_add (env_fl env) (current_cost_usd q) cost = Inr c"
  shows "update_usage env q requests tokens cost s =
           (Inr (q\<lparr>current_requests := current_requests q + requests,
                   current_tokens := current_tokens q + tokens,
                   current_cost_usd := c,
                   is_exceeded := (current_requests q + requests \<ge> max_requests q
                                   \<or> current_tokens q + tokens \<ge> max_tokens q
                                   \<or> py_ge c (max_cost_usd q))\<rparr>),
            s\<lparr>ai_quotas := save_row q_id
                 (quota_to_db env
                    (q\<lparr>current_requests := current_requests q + requests,
                       current_tokens := current_tokens q + tokens,
                       current_cost_usd := c,
                       is_exceeded := (current_requests q + requests \<ge> max_requests q
                                       \<or> current_tokens q + tokens \<ge> max_tokens q
                                       \<or> py_ge c (max_cost_usd q))\<rparr>))
                 (ai_quotas s)\<rparr>)"
  using assms by (simp add: update_usage_def Let_def)

text \<open>
  C2. The two methods of the service call
  \<open>update_usage(requests=1, tokens=..., cost_usd=float(cost_usd))\<close> on the quota that
  \<open>get_or_create\<close> returned. When the quota's row existed, its \<open>current_cost_usd\<close> is
  the \<open>Decimal\<close> read from the database, and adding the float to it raises
  \<open>TypeError\<close>: no counter of the row changes and \<open>is_exceeded\<close> is not set. Here the
  quota is of a user with 1 request of 2 used, and the increments are 1 request, 150
  tokens and a cost of 0.0002.
\<close>

theorem update_usage_decimal_float_raises:
  "update_usage example_env example_quota 1 150 (PyFloat (1 / 5000)) quota_state =
     (Inl (TypeError ''unsupported operand type(s) for +=: decimal.Decimal and float''),
      quota_state)"
  by (simp add: update_usage_def example_quota_def Let_def)

text \<open>
  The same through the service: with the month's quota in the database, the request is
  admitted, the provider is called and answers, the user's \<open>monthly_ai_calls\<close> grows,
  and the method returns a failure with the \<open>TypeError\<close>'s message; the quota's row
  is as it was.
\<close>

lemma second_request_of_month_fails:
  "fst (process_email_to_task example_env (Some example_user) ''Please send the invoice'' None
          quota_state)
     = Inr \<lparr>success = False, res_key = ''task'', res_payload = None,
            res_error = Some ''unsupported operand type(s) for +=: decimal.Decimal and float'',
            res_request_id = 42, res_cost_php = None, res_tokens_used = None\<rparr>
   \<and> ai_quotas (snd (process_email_to_task example_env (Some example_user)
                         ''Please send the invoice'' None quota_state)) = [example_quota]
   \<and> map monthly_ai_calls
        (users (snd (process_email_to_task example_env (Some example_user)
                       ''Please send the invoice'' None quota_state))) = [1]
   \<and> length (provider_calls (snd (process_email_to_task example_env (Some example_user)
                                     ''Please send the invoice'' None quota_state))) = 1
   \<and> map req_status
        (ai_requests (snd (process_email_to_task example_env (Some example_user)
                             ''Please send the invoice'' None quota_state))) = [''failed'']"
  by (simp add: process_email_to_task_def run_ai_task_def check_usage_quota_def get_or_create_quota_def
        quota_state_def ai_state_def empty_state_def example_user_def example_env_def Let_def
        requests_percentage_def int_truediv_def min_100_def ai_usage_limit_def
        get_available_model_def model_priorities_def get_ai_model_def example_quota_def
        try_body_cases calculate_cost_def update_usage_def example_completion_def
        save_request_def save_row_def bump_monthly_ai_calls_def request_to_db_def)

subsection \<open>Errors of the AI service\<close>

lemma ai_methods_as_tasks_any:
  "process_email_to_task env (Some u) content ctx s = (res, s')
     \<or> generate_filipino_social_content env (Some u) upd platform ctx s = (res, s')
   \<Longrightarrow> \<exists>task_of. run_ai_task env (Some u) task_of s = (res, s')"
  unfolding process_email_to_task_def generate_filipino_social_content_def by blast

lemma service_errors:
  assumes "process_email_to_task env (Some u) content ctx s = (res, s')
     \<or> generate_filipino_social_content env (Some u) upd platform ctx s = (res, s')"
  shows "(\<forall>e. res = Inl e \<longrightarrow> ai_requests s' = ai_requests s \<and> provider_calls s' = provider_calls s)
       \<and> (\<forall>r. res = Inr r \<and> \<not> success r \<longrightarrow>
             (\<exists>row \<in> set (ai_requests s'). req_id row = res_request_id r \<and> req_status row = ''failed''
                 \<and> res_error r = Some (req_error_message row) \<and> req_retry_count row = 0))
       \<and> length (provider_calls s') \<le> length (provider_calls s) + 1
       \<and> ((\<forall>x \<in> set (ai_requests s). req_retry_count x = 0)
            \<longrightarrow> (\<forall>x \<in> set (ai_requests s'). req_retry_count x = 0))
       \<and> actions s' = actions s"
proof -
  from ai_methods_as_tasks_any [OF assms] obtain task_of where
    t: "run_ai_task env (Some u) task_of s = (res, s')" by blast
  note o = run_ai_task_outcome [OF t]
  have a: "actions s' = actions s"
    using arg_cong [OF o(2), of actions] by simp
  from o(1) show ?thesis
  proof
    assume "\<exists>e. res = Inl e \<and> ai_requests s' = ai_requests s \<and> provider_calls s' = provider_calls s
              \<and> users s' = users s"
    with a show ?thesis by auto
  next
    assume "\<exists>r row (model::ai_model).
              res = Inr r \<and> res_request_id r = env_uuid env
            \<and> req_id row = env_uuid env \<and> req_user row = user_id u \<and> req_retry_count row = 0
            \<and> request_to_db env row \<in> set (ai_requests s')
            \<and> (\<forall>x \<in> set (ai_requests s'). x \<in> set (ai_requests s) \<or> x = request_to_db env row)
            \<and> map req_id (ai_requests s') = map req_id (ai_requests s) @ [env_uuid env]
            \<and> provider_calls s' = provider_calls s @
                 [(mdl_model_id model, task_system_prompt (task_of u), task_user_prompt (task_of u))]
            \<and> (if success r then req_status row = ''completed'' \<and> res_error r = None
                else req_status row = ''failed'' \<and> res_error r = Some (req_error_message row))"
    then obtain r row and model :: ai_model where
      r: "res = Inr r" "res_request_id r = env_uuid env" "req_id row = env_uuid env"
         "req_retry_count row = 0" "request_to_db env row \<in> set (ai_requests s')"
         "\<forall>x \<in> set (ai_requests s'). x \<in> set (ai_requests s) \<or> x = request_to_db env row"
         "provider_calls s' = provider_calls s @
                 [(mdl_model_id model, task_system_prompt (task_of u), task_user_prompt (task_of u))]"
         "if success r then req_status row = ''completed'' \<and> res_error r = None
                else req_status row = ''failed'' \<and> res_error r = Some (req_error_message row)"
      by blast
    have f: "\<not> success r \<longrightarrow>
             (\<exists>x \<in> set (ai_requests s'). req_id x = res_request_id r \<and> req_status x = ''failed''
                 \<and> res_error r = Some (req_error_message x) \<and> req_retry_count x = 0)"
      using r(2-5,8) by (auto intro!: bexI [of _ "request_to_db env row"] simp: request_to_db_def)
    have i: "(\<forall>x \<in> set (ai_requests s). req_retry_count x = 0)
            \<longrightarrow> (\<forall>x \<in> set (ai_requests s'). req_retry_count x = 0)"
      using r(4,6) by (auto simp: request_to_db_def)
    from r(1,7) f i a show ?thesis by auto
  qed
qed

lemma email_to_task_status: "ar_status (fst (email_to_task env u d s)) \<in> {200, 400, 402}"
  by (auto simp: email_to_task_def quota_402_def split: json.splits sum.splits prod.splits)

lemma generate_social_content_status: "ar_status (fst (generate_social_content env u d s)) \<in> {200, 400, 402}"
  by (auto simp: generate_social_content_def quota_402_def split: sum.splits prod.splits)

lemma email_to_task_400:
  assumes "can_use_ai u" and "ed_additional_context d = JObj additional"
    and "process_email_to_task env (Some u) (ed_email_content d)
           (Some (additional @
                  [(''sender_email'', opt_str (ed_sender_email d)),
                   (''sender_name'', opt_str (ed_sender_name d)),
                   (''subject'', opt_str (ed_subject d))])) s = (Inl e, s1)"
  shows "email_to_task env u d s = (\<lparr>ar_status = 400, ar_result = None, ar_error = Some (str_exn e)\<rparr>, s1)"
  using assms by (simp add: email_to_task_def)

lemma generate_social_content_400:
  assumes "can_use_ai u"
    and "generate_filipino_social_content env (Some u) (sd_business_update d) (sd_platform d)
                (Some [(''platform'', JStr (sd_platform d)),
                       (''tone'', JStr (sd_tone d)),
                       (''include_hashtags'', JBool (sd_include_hashtags d)),
                       (''include_call_to_action'', JBool (sd_include_call_to_action d)),
                       (''target_audience'', JStr (field (sd_target_audience d) []))]) s = (Inl e, s1)"
  shows "generate_social_content env u d s = (\<lparr>ar_status = 400, ar_result = None, ar_error = Some (str_exn e)\<rparr>, s1)"
  using assms by (simp add: generate_social_content_def)

lemma with_actions_fields [simp]:
  "ai_requests (with_actions a x) = ai_requests x"
  "ai_quotas (with_actions a x) = ai_quotas x"
  "users (with_actions a x) = users x"
  "provider_calls (with_actions a x) = provider_calls x"
  "ai_models (with_actions a x) = ai_models x"
  "ai_providers (with_actions a x) = ai_providers x"
  by (simp_all add: with_actions_def)

lemma with_actions_commute [simp]:
  "(with_actions a x)\<lparr>ai_requests := r\<rparr> = with_actions a (x\<lparr>ai_requests := r\<rparr>)"
  "(with_actions a x)\<lparr>ai_quotas := q\<rparr> = with_actions a (x\<lparr>ai_quotas := q\<rparr>)"
  "(with_actions a x)\<lparr>users := us\<rparr> = with_actions a (x\<lparr>users := us\<rparr>)"
  "(with_actions a x)\<lparr>provider_calls := p\<rparr> = with_actions a (x\<lparr>provider_calls := p\<rparr>)"
  by (simp_all add: with_actions_def)

lemma save_request_with_actions [simp]:
  "save_request env r (with_actions a x) = with_actions a (save_request env r x)"
  by (simp add: save_request_def)

lemma bump_with_actions [simp]:
  "bump_monthly_ai_calls u (with_actions a x) = with_actions a (bump_monthly_ai_calls u x)"
  by (simp add: bump_monthly_ai_calls_def)

lemma calculate_cost_with_actions [simp]:
  "calculate_cost (with_actions a x) = calculate_cost x"
  by (rule calculate_cost_state) simp

lemma get_available_model_with_actions [simp]:
  "get_available_model (with_actions a x) = get_available_model x"
  by (rule get_available_model_state) simp

lemma update_usage_with_actions [simp]:
  "update_usage env q n m k (with_actions a x) =
     (fst (update_usage env q n m k x), with_actions a (snd (update_usage env q n m k x)))"
  by (simp add: update_usage_def Let_def split: sum.splits)

lemma check_usage_quota_with_actions [simp]:
  "check_usage_quota env u (with_actions a x) =
     (fst (check_usage_quota env u x), with_actions a (snd (check_usage_quota env u x)))"
  by (simp add: check_usage_quota_def get_or_create_quota_def Let_def split: option.splits sum.splits)

lemma try_body_with_actions [simp]:
  "try_body env u model q sys usr req (with_actions a x) =
     (fst (try_body env u model q sys usr req x),
      fst (snd (try_body env u model q sys usr req x)),
      with_actions a (snd (snd (try_body env u model q sys usr req x))))"
  by (simp add: try_body_def Let_def split: sum.splits prod.splits)

lemma run_ai_task_with_actions:
  "run_ai_task env (Some u) task_of (with_actions a s) =
     (fst (run_ai_task env (Some u) task_of s),
      with_actions a (snd (run_ai_task env (Some u) task_of s)))"
  by (simp add: run_ai_task_def Let_def split: sum.splits prod.splits option.splits)

text \<open>
  C3. For \<open>process_email_to_task\<close> and \<open>generate_filipino_social_content\<close>: an
  exception leaves the method only when it was raised before the request was recorded
  (no row is added and the provider is not called); otherwise the method returns, and
  a result with \<open>success\<close> false comes with the request's row in status \<open>failed\<close>,
  holding the message that the result reports, and with \<open>retry_count\<close> 0. The method
  calls the provider at most once, and leaves \<open>retry_count\<close> 0 on every row if it was
  0 on every row before. The views \<open>email_to_task\<close> and \<open>generate_social_content\<close>
  answer 200, 400 or 402, and 400 with the exception's message when the method raises.
  Neither method reads the table of actions (\<open>retry_on_failure\<close>, \<open>max_retries\<close>): on
  a database with other actions it returns the same result and writes the same rows.
\<close>

theorem ai_errors_caught_no_retry:
  "(process_email_to_task env (Some u) content ctx s = (res, s')
      \<or> generate_filipino_social_content env (Some u) upd platform ctx s = (res, s')
    \<longrightarrow> (\<forall>e. res = Inl e \<longrightarrow> ai_requests s' = ai_requests s \<and> provider_calls s' = provider_calls s)
       \<and> (\<forall>r. res = Inr r \<and> \<not> success r \<longrightarrow>
             (\<exists>row \<in> set (ai_requests s'). req_id row = res_request_id r \<and> req_status row = ''failed''
                 \<and> res_error r = Some (req_error_message row) \<and> req_retry_count row = 0))
       \<and> length (provider_calls s') \<le> length (provider_calls s) + 1
       \<and> ((\<forall>x \<in> set (ai_requests s). req_retry_count x = 0)
            \<longrightarrow> (\<forall>x \<in> set (ai_requests s'). req_retry_count x = 0))
       \<and> actions s' = actions s)
   \<and> ar_status (fst (email_to_task env u ed s)) \<in> {200, 400, 402}
   \<and> ar_status (fst (generate_social_content env u sd s)) \<in> {200, 400, 402}
   \<and> (can_use_ai u \<and> ed_additional_context ed = JObj additional
       \<and> process_email_to_task env (Some u) (ed_email_content ed)
           (Some (additional @
                  [(''sender_email'', opt_str (ed_sender_email ed)),
                   (''sender_name'', opt_str (ed_sender_name ed)),
                   (''subject'', opt_str (ed_subject ed))])) s = (Inl e1, s1)
      \<longrightarrow> email_to_task env u ed s =
            (\<lparr>ar_status = 400, ar_result = None, ar_error = Some (str_exn e1)\<rparr>, s1))
   \<and> (can_use_ai u
       \<and> generate_filipino_social_content env (Some u) (sd_business_update sd) (sd_platform sd)
                (Some [(''platform'', JStr (sd_platform sd)),
                       (''tone'', JStr (sd_tone sd)),
                       (''include_hashtags'', JBool (sd_include_hashtags sd)),
                       (''include_call_to_action'', JBool (sd_include_call_to_action sd)),
                       (''target_audience'', JStr (field (sd_target_audience sd) []))]) s = (Inl e2, s2)
      \<longrightarrow> generate_social_content env u sd s =
            (\<lparr>ar_status = 400, ar_result = None, ar_error = Some (str_exn e2)\<rparr>, s2))
   \<and> process_email_to_task env (Some u) content ctx (with_actions a s) =
       (fst (process_email_to_task env (Some u) content ctx s),
        with_actions a (snd (process_email_to_task env (Some u) content ctx s)))
   \<and> generate_filipino_social_content env (Some u) upd platform ctx (with_actions a s) =
       (fst (generate_filipino_social_content env (Some u) upd platform ctx s),
        with_actions a (snd (generate_filipino_social_content env (Some u) upd platform ctx s)))"
proof -
  have 1: "process_email_to_task env (Some u) content ctx s = (res, s')
      \<or> generate_filipino_social_content env (Some u) upd platform ctx s = (res, s')
    \<longrightarrow> (\<forall>e. res = Inl e \<longrightarrow> ai_requests s' = ai_requests s \<and> provider_calls s' = provider_calls s)
       \<and> (\<forall>r. res = Inr r \<and> \<not> success r \<longrightarrow>
             (\<exists>row \<in> set (ai_requests s'). req_id row = res_request_id r \<and> req_status row = ''failed''
                 \<and> res_error r = Some (req_error_message row) \<and> req_retry_count row = 0))
       \<and> length (provider_calls s') \<le> length (provider_calls s) + 1
       \<and> ((\<forall>x \<in> set (ai_requests s). req_retry_count x = 0)
            \<longrightarrow> (\<forall>x \<in> set (ai_requests s'). req_retry_count x = 0))
       \<and> actions s' = actions s"
    using service_errors by blast
  have 2: "can_use_ai u \<and> ed_additional_context ed = JObj additional
       \<and> process_email_to_task env (Some u) (ed_email_content ed)
           (Some (additional @
                  [(''sender_email'', opt_str (ed_sender_email ed)),
                   (''sender_name'', opt_str (ed_sender_name ed)),
                   (''subject'', opt_str (ed_subject ed))])) s = (Inl e1, s1)
      \<longrightarrow> email_to_task env u ed s =
            (\<lparr>ar_status = 400, ar_result = None, ar_error = Some (str_exn e1)\<rparr>, s1)"
    using email_to_task_400 by blast
  have 3: "can_use_ai u
       \<and> generate_filipino_social_content env (Some u) (sd_business_update sd) (sd_platform sd)
                (Some [(''platform'', JStr (sd_platform sd)),
                       (''tone'', JStr (sd_tone sd)),
                       (''include_hashtags'', JBool (sd_include_hashtags sd)),
                       (''include_call_to_action'', JBool (sd_include_call_to_action sd)),
                       (''target_audience'', JStr (field (sd_target_audience sd) []))]) s = (Inl e2, s2)
      \<longrightarrow> generate_social_content env u sd s =
            (\<lparr>ar_status = 400, ar_result = None, ar_error = Some (str_exn e2)\<rparr>, s2)"
    using generate_social_content_400 by blast
  have 4: "process_email_to_task env (Some u) content ctx (with_actions a s) =
       (fst (process_email_to_task env (Some u) content ctx s),
        with_actions a (snd (process_email_to_task env (Some u) content ctx s)))"
    unfolding process_email_to_task_def by (rule run_ai_task_with_actions)
  have 5: "generate_filipino_social_content env (Some u) upd platform ctx (with_actions a s) =
       (fst (generate_filipino_social_content env (Some u) upd platform ctx s),
        with_actions a (snd (generate_filipino_social_content env (Some u) upd platform ctx s)))"
    unfolding generate_filipino_social_content_def by (rule run_ai_task_with_actions)
  from 1 2 3 4 5 email_to_task_status [of env u ed s] generate_social_content_status [of env u sd s]
  show ?thesis by blast
qed

lemma example_failure:
  "fst (process_email_to_task failing_env (Some example_user) ''Please send the invoice'' None ai_state)
     = Inr \<lparr>success = False, res_key = ''task'', res_payload = None,
            res_error = Some ''Rate limit exceeded'',
            res_request_id = 42, res_cost_php = None, res_tokens_used = None\<rparr>"
  by (simp add: process_email_to_task_def run_ai_task_def check_usage_quota_def get_or_create_quota_def
        ai_state_def empty_state_def example_user_def example_env_def failing_env_def Let_def
        requests_percentage_def int_truediv_def min_100_def ai_usage_limit_def
        get_available_model_def model_priorities_def get_ai_model_def
        try_body_cases)

theorem ai_errors_caught_no_retry_witness:
  "fst (process_email_to_task failing_env (Some example_user) ''Please send the invoice'' None ai_state)
     = Inr \<lparr>success = False, res_key = ''task'', res_payload = None,
            res_error = Some ''Rate limit exceeded'',
            res_request_id = 42, res_cost_php = None, res_tokens_used = None\<rparr>
   \<and> (\<exists>row \<in> set (ai_requests (snd (process_email_to_task failing_env (Some example_user)
                                         ''Please send the invoice'' None ai_state))).
         req_id row = 42 \<and> req_status row = ''failed''
         \<and> req_error_message row = ''Rate limit exceeded'' \<and> req_retry_count row = 0)
   \<and> length (provider_calls (snd (process_email_to_task failing_env (Some example_user)
                                     ''Please send the invoice'' None ai_state))) \<le> 1"
proof -
  let ?x = "process_email_to_task failing_env (Some example_user) ''Please send the invoice'' None ai_state"
  let ?r = "\<lparr>success = False, res_key = ''task'', res_payload = None,
            res_error = Some ''Rate limit exceeded'',
            res_request_id = 42, res_cost_php = None, res_tokens_used = None\<rparr>"
  have x: "?x = (Inr ?r, snd ?x)"
    using example_failure by (metis prod.collapse)
  from ai_errors_caught_no_retry
         [where env = failing_env and u = example_user and content = "''Please send the invoice''"
            and ctx = None and s = ai_state and res = "Inr ?r" and s' = "snd ?x"] x
  have "(\<forall>r. Inr ?r = Inr r \<and> \<not> success r \<longrightarrow>
             (\<exists>row \<in> set (ai_requests (snd ?x)). req_id row = res_request_id r \<and> req_status row = ''failed''
                 \<and> res_error r = Some (req_error_message row) \<and> req_retry_count row = 0))"
    and l: "length (provider_calls (snd ?x)) \<le> length (provider_calls ai_state) + 1"
    by blast+
  then have "\<exists>row \<in> set (ai_requests (snd ?x)). req_id row = res_request_id ?r \<and> req_status row = ''failed''
                 \<and> res_error ?r = Some (req_error_message row) \<and> req_retry_count row = 0"
    by simp
  then have b: "\<exists>row \<in> set (ai_requests (snd ?x)).
         req_id row = 42 \<and> req_status row = ''failed''
         \<and> req_error_message row = ''Rate limit exceeded'' \<and> req_retry_count row = 0"
    by auto
  from l have l': "length (provider_calls (snd ?x)) \<le> 1"
    by (simp add: ai_state_def empty_state_def)
  from example_failure b l' show ?thesis by blast
qed

subsection \<open>What the routes leave unchanged\<close>

lemma generic_view_state [simp]:
  "snd (list_view page qs s) = s"
  "snd (retrieve_view pk qs k s) = s"
  by (simp_all add: list_view_def retrieve_view_def split: option.splits)

lemma tagged_simps [simp]:
  "snd (tagged tag r) = snd r" "fst (fst (tagged tag r)) = fst (fst r)"
  "snd (fst (tagged tag r)) = map tag (snd (fst r))"
  by (simp_all add: tagged_def)

lemma status_only_simps [simp]:
  "snd (status_only r) = snd r" "snd (ai_status_only r2) = snd r2"
  "snd (fst (status_only r)) = []" "snd (fst (ai_status_only r2)) = []"
  by (simp_all add: status_only_def ai_status_only_def)

lemma snd_case_result:
  "snd (case p of (Inl e, s') \<Rightarrow> (g e, s') | (Inr r, s') \<Rightarrow> (f r, s')) = snd p"
  by (cases p; cases "fst p") auto

lemma run_ai_task_frame:
  "(snd (run_ai_task env (Some u) task_of s))\<lparr>users := users s, ai_requests := ai_requests s,
       ai_quotas := ai_quotas s, provider_calls := provider_calls s\<rparr> = s"
  using run_ai_task_outcome(2) [of env u task_of s "fst (run_ai_task env (Some u) task_of s)"
          "snd (run_ai_task env (Some u) task_of s)"]
  by simp

lemma email_to_task_frame:
  "(snd (email_to_task env u d s))\<lparr>users := users s, ai_requests := ai_requests s,
       ai_quotas := ai_quotas s, provider_calls := provider_calls s\<rparr> = s"
proof (cases "can_use_ai u")
  case False
  then show ?thesis by (simp add: email_to_task_def)
next
  case True
  show ?thesis
  proof (cases "ed_additional_context d")
    case (JObj additional)
    with True show ?thesis
      by (simp add: email_to_task_def snd_case_result process_email_to_task_def run_ai_task_frame)
  qed (use True in \<open>simp_all add: email_to_task_def\<close>)
qed

lemma generate_social_content_frame:
  "(snd (generate_social_content env u d s))\<lparr>users := users s, ai_requests := ai_requests s,
       ai_quotas := ai_quotas s, provider_calls := provider_calls s\<rparr> = s"
  by (cases "can_use_ai u")
     (simp_all add: generate_social_content_def snd_case_result
        generate_filipino_social_content_def run_ai_task_frame)


lemma custom_ai_request_frame:
  "(snd (custom_ai_request env u d s))\<lparr>ai_requests := ai_requests s, ai_templates := ai_templates s\<rparr> = s"
proof -
  have "snd (custom_ai_request env u d s) = s
        \<or> (\<exists>r t. snd (custom_ai_request env u d s) =
                 increment_template_usage env t True (s\<lparr>ai_requests := ai_requests s @ [r]\<rparr>))"
    unfolding custom_ai_request_def Let_def
    by (auto split: option.splits sum.splits)
  then show ?thesis
    by (auto simp: increment_template_usage_def Let_def)
qed

lemma create_from_template_frame:
  "(snd (create_workflow_from_template env u t name s))
      \<lparr>workflows := workflows s, actions := actions s,
        automation_templates := automation_templates s\<rparr> = s"
proof -
  from create_from_template_cases [of env u t name s]
  consider "snd (create_workflow_from_template env u t name s) = s"
    | w where "snd (create_workflow_from_template env u t name s) = s\<lparr>workflows := workflows s @ [w]\<rparr>"
    | w items r s2 template where
        "create_template_actions env (env_auto_id env) w items
                     (s\<lparr>workflows := workflows s @ [w]\<rparr>) = (r, s2)"
        "create_workflow_from_template env u t name s
                     = (case r of
                          Some e \<Rightarrow> (Inl e, s2)
                        | None \<Rightarrow> (Inr (201, [w], workflow_actions w (increment_usage template s2)),
                                    increment_usage template s2))"
    by fastforce
  then show ?thesis
  proof cases
    case 1
    then show ?thesis by simp
  next
    case 2
    then show ?thesis by simp
  next
    case 3
    from create_template_actions_appends [OF 3(1)] obtain new where
      s2: "s2 = (s\<lparr>workflows := workflows s @ [w]\<rparr>)\<lparr>actions := actions (s\<lparr>workflows := workflows s @ [w]\<rparr>) @ new\<rparr>"
      by blast
    from 3(2) have "snd (create_workflow_from_template env u t name s) = s2
            \<or> snd (create_workflow_from_template env u t name s) = increment_usage template s2"
      by (cases r) simp_all
    then show ?thesis
      by (auto simp: s2 increment_usage_def)
  qed
qed


lemma ai_views_executions:
  "executions (snd (email_to_task env u ed s)) = executions s"
  "executions (snd (generate_social_content env u sd s)) = executions s"
  "executions (snd (custom_ai_request env u cd s)) = executions s"
  "executions (snd (create_workflow_from_template env u t name s)) = executions s"
  using arg_cong [OF email_to_task_frame, where f = executions]
    arg_cong [OF generate_social_content_frame, where f = executions]
    arg_cong [OF custom_ai_request_frame, where f = executions]
    arg_cong [OF create_from_template_frame, where f = executions]
  by simp_all

lemma update_view_state:
  "snd (update_view pk qs k change store s) = s
   \<or> (\<exists>r \<in> set qs. pk r = k \<and> snd (update_view pk qs k change store s) = store (change r) s)"
  by (auto simp: update_view_def get_object_def split: option.splits dest: find_Some_mem)

lemma destroy_view_state:
  "snd (destroy_view pk qs k delete s) = s
   \<or> (\<exists>r \<in> set qs. pk r = k \<and> snd (destroy_view pk qs k delete s) = delete r s)"
  by (auto simp: destroy_view_def get_object_def split: option.splits dest: find_Some_mem)

lemma executions_workflow_views:
  "executions (snd (workflow_list page u s)) = executions s"
  "executions (snd (workflow_create now new_id u d s)) = executions s"
  "executions (snd (workflow_retrieve u k s)) = executions s"
  "executions (snd (workflow_update now u k d s)) = executions s"
  "executions (snd (toggle_workflow_status now u k s)) = executions s"
  using update_view_state [of wf_id "workflow_queryset u s" k "update_workflow now d"
          "\<lambda>w s. s\<lparr>workflows := save_row wf_id w (workflows s)\<rparr>" s]
  by (auto simp: workflow_list_def workflow_create_def workflow_retrieve_def workflow_update_def
        toggle_workflow_status_def Let_def split: option.splits)

lemma executions_action_views:
  "executions (snd (action_list page u w s)) = executions s"
  "executions (snd (action_create now new_id u w d s)) = executions s"
  "executions (snd (action_retrieve u w k s)) = executions s"
  "executions (snd (action_update now u w k da s)) = executions s"
  "executions (snd (action_destroy u w k s)) = executions s"
proof -
  show "executions (snd (action_list page u w s)) = executions s"
    by (simp add: action_list_def split: option.splits)
  show "executions (snd (action_create now new_id u w d s)) = executions s"
    by (simp add: action_create_def Let_def split: option.splits)
  show "executions (snd (action_retrieve u w k s)) = executions s"
    by (simp add: action_retrieve_def split: option.splits)
  show "executions (snd (action_update now u w k da s)) = executions s"
  proof (cases "action_queryset u w s")
    case None then show ?thesis by (simp add: action_update_def)
  next
    case (Some qs)
    with update_view_state [of act_id qs k "update_action now da"
          "\<lambda>a s. s\<lparr>actions := save_row act_id a (actions s)\<rparr>" s]
    show ?thesis by (auto simp: action_update_def)
  qed
  show "executions (snd (action_destroy u w k s)) = executions s"
  proof (cases "action_queryset u w s")
    case None then show ?thesis by (simp add: action_destroy_def)
  next
    case (Some qs)
    with destroy_view_state [of act_id qs k
          "\<lambda>a s. s\<lparr>actions := filter (\<lambda>x. act_id x \<noteq> act_id a) (actions s)\<rparr>" s]
    show ?thesis by (auto simp: action_destroy_def)
  qed
qed


lemma executions_read_views:
  "executions (snd (execution_list page u s)) = executions s"
  "executions (snd (execution_retrieve u k s)) = executions s"
  "executions (snd (template_list page u s)) = executions s"
  "executions (snd (template_retrieve u k s)) = executions s"
  "executions (snd (ai_request_list page u s)) = executions s"
  "executions (snd (ai_request_retrieve u k s)) = executions s"
  "executions (snd (integration_list page u s)) = executions s"
  "executions (snd (integration_retrieve u k s)) = executions s"
  "executions (snd (integration_log_list page u s)) = executions s"
  "executions (snd (webhook_list page u s)) = executions s"
  "executions (snd (webhook_retrieve u k s)) = executions s"
  "executions (snd (analyze_text u td s)) = executions s"
  "executions (snd (refresh_integration_auth u k s)) = executions s"
  by (simp_all add: execution_list_def execution_retrieve_def template_list_def template_retrieve_def
        ai_request_list_def ai_request_retrieve_def integration_list_def integration_retrieve_def
        integration_log_list_def webhook_list_def webhook_retrieve_def analyze_text_def Let_def
        refresh_integration_auth_def split: option.splits)

lemma executions_quota_status: "executions (snd (ai_quota_status env u s)) = executions s"
  by (simp add: ai_quota_status_def get_or_create_quota_def Let_def split: option.splits)

lemma executions_integration_views:
  "executions (snd (integration_create now new_id u d s)) = executions s"
  "executions (snd (integration_update now u k d s)) = executions s"
  "executions (snd (integration_destroy u k s)) = executions s"
  "executions (snd (test_integration now new_id u k ty td s)) = executions s"
proof -
  show "executions (snd (integration_create now new_id u d s)) = executions s"
    by (simp add: integration_create_def Let_def)
  show "executions (snd (integration_update now u k d s)) = executions s"
    using update_view_state [of int_id "integration_queryset u s" k "update_integration now d"
          "\<lambda>i s. s\<lparr>integrations := save_row int_id i (integrations s)\<rparr>" s]
    by (auto simp: integration_update_def split: option.splits)
  show "executions (snd (integration_destroy u k s)) = executions s"
    using destroy_view_state [of int_id "integration_queryset u s" k delete_integration s]
    by (auto simp: integration_destroy_def delete_integration_def)
  show "executions (snd (test_integration now new_id u k ty td s)) = executions s"
    by (simp add: test_integration_def Let_def split: option.splits)
qed

lemma executions_webhook_views:
  "executions (snd (webhook_create now new_id u d s)) = executions s"
  "executions (snd (webhook_update now u k d s)) = executions s"
  "executions (snd (webhook_destroy u k s)) = executions s"
proof -
  show "executions (snd (webhook_create now new_id u d s)) = executions s"
    by (simp add: webhook_create_def Let_def split: option.splits)
  show "executions (snd (webhook_update now u k d s)) = executions s"
    using update_view_state [of wh_id "webhook_queryset u s" k "update_webhook now d"
          "\<lambda>w s. s\<lparr>webhooks := save_row wh_id w (webhooks s)\<rparr>" s]
    by (auto simp: webhook_update_def split: option.splits)
  show "executions (snd (webhook_destroy u k s)) = executions s"
    using destroy_view_state [of wh_id "webhook_queryset u s" k
          "\<lambda>w s. s\<lparr>webhooks := filter (\<lambda>x. wh_id x \<noteq> wh_id w) (webhooks s)\<rparr>" s]
    by (auto simp: webhook_destroy_def)
qed

lemma executions_workflow_destroy:
  "set (executions (snd (workflow_destroy u k s))) \<subseteq> set (executions s)"
  using destroy_view_state [of wf_id "workflow_queryset u s" k delete_workflow s]
  by (auto simp: workflow_destroy_def delete_workflow_def)

lemma executions_execute:
  assumes "x \<in> set (executions (snd (execute_workflow_manually now new_id u d k s)))"
  shows "x \<in> set (executions s) \<or> (ex_status x = ''pending'' \<and> ex_actions_completed x = 0
         \<and> ex_actions_failed x = 0 \<and> ex_completed_at x = None \<and> ex_execution_log x = JArr [])"
  using assms
  by (auto simp: execute_workflow_manually_def Let_def split: option.splits if_splits json.splits)

lemma api_step_executions:
  assumes "x \<in> set (executions (snd (api_step env u c s)))"
  shows "x \<in> set (executions s) \<or> (ex_status x = ''pending'' \<and> ex_actions_completed x = 0
         \<and> ex_actions_failed x = 0 \<and> ex_completed_at x = None \<and> ex_execution_log x = JArr [])"
proof (cases c)
  case (WorkflowExecute k d)
  with assms show ?thesis
    using executions_execute [of x "env_now env" "env_uuid env" u d k s]
    by (simp add: snd_case_result)
next
  case (WorkflowDestroy k)
  with assms show ?thesis using executions_workflow_destroy by auto
next
  case (CreateWorkflowFromTemplate t name)
  with assms show ?thesis
    using ai_views_executions(4) [of env u t name s]
    by (auto split: prod.splits sum.splits)
qed (use assms in \<open>simp_all add: executions_workflow_views executions_action_views
       executions_read_views executions_quota_status executions_integration_views
       executions_webhook_views ai_views_executions\<close>)

subsection \<open>Manual execution\<close>

lemma api_run_executions:
  "x \<in> set (executions (api_run h s))
   \<Longrightarrow> x \<in> set (executions s) \<or> (ex_status x = ''pending'' \<and> ex_actions_completed x = 0
         \<and> ex_actions_failed x = 0 \<and> ex_completed_at x = None \<and> ex_execution_log x = JArr [])"
proof (induction h arbitrary: s)
  case Nil
  then show ?case by simp
next
  case (Cons a h)
  obtain env u c where a: "a = (env, u, c)" by (metis prod_cases3)
  from Cons.IH [of "snd (api_step env u c s)"] Cons.prems a
  have "x \<in> set (executions (snd (api_step env u c s))) \<or> (ex_status x = ''pending'' \<and> ex_actions_completed x = 0
         \<and> ex_actions_failed x = 0 \<and> ex_completed_at x = None \<and> ex_execution_log x = JArr [])"
    by simp
  then show ?case using api_step_executions by blast
qed

lemma execute_accepted:
  assumes "get_workflow_or_404 s wid u = Some w" and "wf_status w = ''active''"
    and "\<not> wf_use_ai_processing w \<or> can_use_ai u"
    and "dict_get items ''trigger_data'' (JObj []) \<noteq> JNull"
  shows "execute_workflow_manually now new_id u (JObj items) wid s =
           (Inr \<lparr>status_code = 202,
                 body = JObj [(''message'', JStr ''Workflow execution queued''),
                              (''execution_id'', JNum (int new_id))]\<rparr>,
            s\<lparr>executions := executions s @
                 [\<lparr>ex_id = new_id, ex_workflow = wid, ex_status = ''pending'',
                   ex_trigger_data = dict_get items ''trigger_data'' (JObj []),
                   ex_execution_log = JArr [], ex_output_data = JObj [],
                   ex_error_message = [], ex_error_details = JObj [],
                   ex_started_at = now, ex_completed_at = None, ex_duration_seconds = None,
                   ex_ai_calls_made = 0, ex_ai_tokens_used = 0, ex_ai_cost_estimate = PyFloat 0,
                   ex_actions_completed = 0, ex_actions_failed = 0\<rparr>]\<rparr>)"
proof -
  from assms(1) have "wf_id w = wid"
    unfolding get_workflow_or_404_def by (auto dest: find_Some_mem)
  with assms show ?thesis
    by (cases "dict_get items ''trigger_data'' (JObj [])")
       (auto simp: execute_workflow_manually_def Let_def)
qed

lemma execute_refused:
  "fst (execute_workflow_manually now new_id u data wid s) = Inr r \<Longrightarrow> status_code r \<noteq> 202
   \<Longrightarrow> snd (execute_workflow_manually now new_id u data wid s) = s"
  by (auto simp: execute_workflow_manually_def Let_def not_found_def
      split: option.splits if_splits json.splits)

text \<open>
  The claim C1 as it is written fails twice. An active workflow with AI processing on
  (the default), requested by its owner who has used the month's AI calls, is answered
  402 and no execution is recorded. And a code path of the repository moves an execution
  out of \<open>pending\<close>: the change form of the admin, where \<open>status\<close> is an input, saves
  the execution 9 that the endpoint created as \<open>completed\<close>.
\<close>

theorem execute_active_workflow_counterexample:
  "get_workflow_or_404 limited_state 7 limited_user = Some ai_workflow
   \<and> wf_status ai_workflow = ''active''
   \<and> api_step example_env limited_user (WorkflowExecute 7 (JObj [])) limited_state
       = ((402, []), limited_state)
   \<and> executions limited_state = []
   \<and> fst (api_step example_env example_user (WorkflowExecute 7 (JObj [])) example_state) = (202, [])
   \<and> map ex_id
        (executions (snd (api_step example_env example_user (WorkflowExecute 7 (JObj []))
                            example_state))) = [42]
   \<and> map ex_status
        (executions (snd (api_step example_env example_user (WorkflowExecute 7 (JObj []))
                            example_state))) = [''pending'']
   \<and> fst (admin_execution_change example_env complete_form 42
             (snd (api_step example_env example_user (WorkflowExecute 7 (JObj [])) example_state)))
       = Inr Saved
   \<and> map ex_status
        (executions
           (snd (admin_execution_change example_env complete_form 42
                   (snd (api_step example_env example_user (WorkflowExecute 7 (JObj []))
                           example_state))))) = [''completed'']"
  by (simp add: get_workflow_or_404_def limited_state_def limited_user_def ai_workflow_def
        example_workflow_def example_user_def empty_state_def execute_workflow_manually_def
        can_use_ai_def ai_usage_limit_def example_state_def example_env_def dict_get_def
        admin_execution_change_def execution_form_valid_def complete_form_def
        execution_status_choices_def empty_value_def decimal_column_def save_row_def)

text \<open>
  C1, amended. A manual execution request on a workflow that the requester owns, that
  is active, and that has AI processing off or a requester under the monthly limit of
  AI calls, with a body that is a JSON object in which \<open>trigger_data\<close> is absent or
  not null, is answered 202 and appends one execution with status \<open>pending\<close>; a
  request answered with another status writes nothing. After any history of requests to
  the routes of the API, every stored execution is either a row of the database before
  the history, unchanged, or a row in status \<open>pending\<close> with no action completed or
  failed, no completion time and an empty log: no route of the API runs the actions of a
  workflow or changes an execution. (The change form of the admin does, by the hand of
  a staff user: see the counterexample.)
\<close>

theorem manual_execution_stays_pending:
  "(get_workflow_or_404 s wid u = Some w \<and> wf_status w = ''active''
      \<and> (\<not> wf_use_ai_processing w \<or> can_use_ai u)
      \<and> dict_get items ''trigger_data'' (JObj []) \<noteq> JNull
     \<longrightarrow> (\<exists>r e. execute_workflow_manually now new_id u (JObj items) wid s
                    = (Inr r, s\<lparr>executions := executions s @ [e]\<rparr>)
               \<and> status_code r = 202
               \<and> ex_id e = new_id \<and> ex_workflow e = wid \<and> ex_status e = ''pending''
               \<and> ex_trigger_data e = dict_get items ''trigger_data'' (JObj [])))
   \<and> (fst (execute_workflow_manually now new_id u data wid s) = Inr r' \<and> status_code r' \<noteq> 202
       \<longrightarrow> snd (execute_workflow_manually now new_id u data wid s) = s)
   \<and> (\<forall>x \<in> set (executions (api_run h s)).
         x \<in> set (executions s)
         \<or> (ex_status x = ''pending'' \<and> ex_actions_completed x = 0 \<and> ex_actions_failed x = 0
            \<and> ex_completed_at x = None \<and> ex_execution_log x = JArr []))"
proof -
  have a: "get_workflow_or_404 s wid u = Some w \<and> wf_status w = ''active''
      \<and> (\<not> wf_use_ai_processing w \<or> can_use_ai u)
      \<and> dict_get items ''trigger_data'' (JObj []) \<noteq> JNull
     \<longrightarrow> (\<exists>r e. execute_workflow_manually now new_id u (JObj items) wid s
                    = (Inr r, s\<lparr>executions := executions s @ [e]\<rparr>)
               \<and> status_code r = 202
               \<and> ex_id e = new_id \<and> ex_workflow e = wid \<and> ex_status e = ''pending''
               \<and> ex_trigger_data e = dict_get items ''trigger_data'' (JObj []))"
  proof
    assume h: "get_workflow_or_404 s wid u = Some w \<and> wf_status w = ''active''
      \<and> (\<not> wf_use_ai_processing w \<or> can_use_ai u)
      \<and> dict_get items ''trigger_data'' (JObj []) \<noteq> JNull"
    let ?r = "\<lparr>status_code = 202,
                 body = JObj [(''message'', JStr ''Workflow execution queued''),
                              (''execution_id'', JNum (int new_id))]\<rparr>"
    let ?e = "\<lparr>ex_id = new_id, ex_workflow = wid, ex_status = ''pending'',
                   ex_trigger_data = dict_get items ''trigger_data'' (JObj []),
                   ex_execution_log = JArr [], ex_output_data = JObj [],
                   ex_error_message = [], ex_error_details = JObj [],
                   ex_started_at = now, ex_completed_at = None, ex_duration_seconds = None,
                   ex_ai_calls_made = 0, ex_ai_tokens_used = 0, ex_ai_cost_estimate = PyFloat 0,
                   ex_actions_completed = 0, ex_actions_failed = 0\<rparr>"
    from h have "execute_workflow_manually now new_id u (JObj items) wid s
                   = (Inr ?r, s\<lparr>executions := executions s @ [?e]\<rparr>)"
      by (intro execute_accepted) blast+
    then show "\<exists>r e. execute_workflow_manually now new_id u (JObj items) wid s
                    = (Inr r, s\<lparr>executions := executions s @ [e]\<rparr>)
               \<and> status_code r = 202
               \<and> ex_id e = new_id \<and> ex_workflow e = wid \<and> ex_status e = ''pending''
               \<and> ex_trigger_data e = dict_get items ''trigger_data'' (JObj [])"
      by (intro exI [of _ ?r] exI [of _ ?e]) simp
  qed
  from a execute_refused [of now new_id u data wid s r'] api_run_executions [of _ h s]
  show ?thesis by blast
qed

theorem manual_execution_stays_pending_witness:
  "get_workflow_or_404 example_state 7 example_user = Some example_workflow
   \<and> wf_status example_workflow = ''active''
   \<and> wf_use_ai_processing example_workflow = False
   \<and> dict_get [(''trigger_data'', JObj [(''lead'', JNum 3)])] ''trigger_data'' (JObj [])
       = JObj [(''lead'', JNum 3)]
   \<and> (\<exists>r e. execute_workflow_manually 50 9 example_user
                (JObj [(''trigger_data'', JObj [(''lead'', JNum 3)])]) 7 example_state
              = (Inr r, example_state\<lparr>executions := executions example_state @ [e]\<rparr>)
          \<and> status_code r = 202
          \<and> ex_id e = 9 \<and> ex_workflow e = 7 \<and> ex_status e = ''pending''
          \<and> ex_trigger_data e = JObj [(''lead'', JNum 3)])
   \<and> \<not> (\<exists>x \<in> set (executions
                      (api_run [(example_env, example_user, WorkflowExecute 7 (JObj [])),
                                (example_env, example_user, WorkflowToggle 7),
                                (example_env, example_user, ExecutionList 1)] example_state)).
          ex_status x \<noteq> ''pending'')"
proof -
  have h1: "get_workflow_or_404 example_state 7 example_user = Some example_workflow"
    by (simp add: get_workflow_or_404_def example_state_def empty_state_def
          example_workflow_def example_user_def)
  have h2: "wf_status example_workflow = ''active''"
    and h3: "wf_use_ai_processing example_workflow = False"
    by (simp_all add: example_workflow_def)
  have h4: "dict_get [(''trigger_data'', JObj [(''lead'', JNum 3)])] ''trigger_data'' (JObj [])
       = JObj [(''lead'', JNum 3)]"
    by (simp add: dict_get_def)
  have e0: "executions example_state = []"
    by (simp add: example_state_def empty_state_def)
  note t = manual_execution_stays_pending
             [where s = example_state and wid = 7 and u = example_user and w = example_workflow
                and now = 50 and new_id = 9
                and items = "[(''trigger_data'', JObj [(''lead'', JNum 3)])]"
                and h = "[(example_env, example_user, WorkflowExecute 7 (JObj [])),
                          (example_env, example_user, WorkflowToggle 7),
                          (example_env, example_user, ExecutionList 1)]"]
  from t h1 h2 h3 h4 have
    a: "\<exists>r e. execute_workflow_manually 50 9 example_user
                (JObj [(''trigger_data'', JObj [(''lead'', JNum 3)])]) 7 example_state
              = (Inr r, example_state\<lparr>executions := executions example_state @ [e]\<rparr>)
          \<and> status_code r = 202
          \<and> ex_id e = 9 \<and> ex_workflow e = 7 \<and> ex_status e = ''pending''
          \<and> ex_trigger_data e = JObj [(''lead'', JNum 3)]"
    by simp
  from t e0 have
    b: "\<not> (\<exists>x \<in> set (executions
                      (api_run [(example_env, example_user, WorkflowExecute 7 (JObj [])),
                                (example_env, example_user, WorkflowToggle 7),
                                (example_env, example_user, ExecutionList 1)] example_state)).
          ex_status x \<noteq> ''pending'')"
    by auto
  from h1 h2 h3 h4 a b show ?thesis by blast
qed

subsection \<open>Calls to the provider\<close>












subsection \<open>Requests served at the same time\<close>

lemma requests_percentage_Inr: "\<exists>p. requests_percentage fl q = Inr p"
  by (simp add: requests_percentage_def int_truediv_def)

lemma find_append_None: "find P xs = None \<Longrightarrow> find P (xs @ ys) = find P ys"
  by (induction xs) (auto split: if_splits)

lemma check_existing:
  assumes "find (\<lambda>q. q_user q = user_id u \<and> q_period_type q = ''monthly''
                     \<and> q_period_start q = env_month_start env) (ai_quotas s) = Some q"
  shows "\<exists>qc. check_usage_quota env u s = (Inr qc, s) \<and> quota qc = q
           \<and> can_use qc = (\<not> is_exceeded q \<and> current_requests q < max_requests q)"
  using assms requests_percentage_Inr [of "env_fl env" q]
  by (auto simp: check_usage_quota_def get_or_create_quota_def)

lemma thread_step_admitted:
  assumes "thread_step a Checking s = (Admitted qa, s1)"
  shows "\<exists>row. find (\<lambda>q. q_user q = user_id (call_user a) \<and> q_period_type q = ''monthly''
                     \<and> q_period_start q = env_month_start (call_env a)) (ai_quotas s1) = Some row
           \<and> current_requests row = current_requests qa \<and> max_requests row = max_requests qa
           \<and> q_id row = q_id qa \<and> is_exceeded row = is_exceeded qa
           \<and> \<not> is_exceeded qa \<and> current_requests qa < max_requests qa"
proof -
  let ?P = "\<lambda>q. q_user q = user_id (call_user a) \<and> q_period_type q = ''monthly''
                     \<and> q_period_start q = env_month_start (call_env a)"
  show ?thesis
  proof (cases "find ?P (ai_quotas s)")
    case (Some q)
    from check_existing [OF Some] obtain qc where
      c: "check_usage_quota (call_env a) (call_user a) s = (Inr qc, s)" "quota qc = q"
         "can_use qc = (\<not> is_exceeded q \<and> current_requests q < max_requests q)"
      by blast
    from assms c have "s1 = s \<and> qa = q \<and> \<not> is_exceeded q \<and> current_requests q < max_requests q"
      by (simp add: thread_step_def split: if_splits)
    with Some show ?thesis by simp
  next
    case None
    then have n: "find ?P (ai_quotas s @ ys) = find ?P ys" for ys
      by (rule find_append_None)
    from None assms requests_percentage_Inr show ?thesis
      apply (auto simp: thread_step_def check_usage_quota_def get_or_create_quota_def Let_def n
            quota_to_db_def requests_percentage_def int_truediv_def
          split: if_splits sum.splits)
      done
  qed
qed


lemma update_usage_rows:
  assumes "update_usage env q 1 tokens cost s = (r, s1)"
  shows "\<forall>x \<in> set (ai_quotas s1).
           x \<in> set (ai_quotas s) \<or> current_requests x = current_requests q + 1"
  using assms
  by (auto simp: update_usage_def Let_def save_row_def quota_to_db_def split: sum.splits if_splits)

lemma thread_step_update_rows:
  assumes "thread_step c (Admitted q) s = (t, s1)"
  shows "\<forall>x \<in> set (ai_quotas s1).
           x \<in> set (ai_quotas s) \<or> current_requests x = current_requests q + 1"
proof -
  obtain r s2 where u: "update_usage (call_env c) q 1 (call_tokens c) (PyFloat (call_cost c)) s = (r, s2)"
    by (metis surj_pair)
  with assms have "s1 = s2" by (simp add: thread_step_def)
  with update_usage_rows [OF u] show ?thesis by simp
qed

lemma first_call_admitted:
  "thread_step first_call Checking quota_state = (Admitted example_quota, quota_state)"
  by (simp add: thread_step_def first_call_def check_usage_quota_def get_or_create_quota_def
        quota_state_def ai_state_def empty_state_def example_quota_def example_user_def
        example_env_def requests_percentage_def int_truediv_def)

text \<open>
  C6. Two requests of one user in one month, served at the same time: when the check
  of the first admits it, the check of the second, made before the first request
  updates the quota, admits it as well. It leaves the database as the first check left
  it and observes the same \<open>current_requests\<close> and \<open>max_requests\<close>, also when one
  request is left in the quota. After the two updates every quota row is a row as it was
  after the checks or holds the observed \<open>current_requests\<close> plus one: each update
  writes the counters of its own instance, so of two admitted requests the counter
  records at most one.
\<close>

theorem concurrent_requests_both_admitted:
  assumes m: "env_month_start (call_env b) = env_month_start (call_env a)"
    and u: "user_id (call_user b) = user_id (call_user a)"
    and adm: "thread_step a Checking s = (Admitted qa, s1)"
  shows "(\<exists>qb. run_schedule [a, b] [0, 1] ([Checking, Checking], s)
                  = ([Admitted qa, Admitted qb], s1)
               \<and> q_id qb = q_id qa \<and> current_requests qb = current_requests qa
               \<and> max_requests qb = max_requests qa)
         \<and> (\<forall>x \<in> set (ai_quotas (snd (run_schedule [a, b] [0, 1, 0, 1] ([Checking, Checking], s)))).
               x \<in> set (ai_quotas s1) \<or> current_requests x = current_requests qa + 1)"
proof -
  from thread_step_admitted [OF adm] obtain row where
    f: "find (\<lambda>q. q_user q = user_id (call_user a) \<and> q_period_type q = ''monthly''
                     \<and> q_period_start q = env_month_start (call_env a)) (ai_quotas s1) = Some row"
    and r: "current_requests row = current_requests qa" "max_requests row = max_requests qa"
           "q_id row = q_id qa" "is_exceeded row = is_exceeded qa"
           "\<not> is_exceeded qa" "current_requests qa < max_requests qa"
    by blast
  from f m u have "find (\<lambda>q. q_user q = user_id (call_user b) \<and> q_period_type q = ''monthly''
                     \<and> q_period_start q = env_month_start (call_env b)) (ai_quotas s1) = Some row"
    by simp
  from check_existing [OF this] r obtain qc where
    c: "check_usage_quota (call_env b) (call_user b) s1 = (Inr qc, s1)" "quota qc = row" "can_use qc"
    by auto
  then have b: "thread_step b Checking s1 = (Admitted row, s1)"
    by (simp add: thread_step_def)
  have two: "run_schedule [a, b] [0, 1] ([Checking, Checking], s) = ([Admitted qa, Admitted row], s1)"
    using adm b by simp
  obtain ta s2 where ua: "thread_step a (Admitted qa) s1 = (ta, s2)" by (metis surj_pair)
  obtain tb s3 where ub: "thread_step b (Admitted row) s2 = (tb, s3)" by (metis surj_pair)
  have four: "run_schedule [a, b] [0, 1, 0, 1] ([Checking, Checking], s) = ([ta, tb], s3)"
    using adm b ua ub by simp
  from thread_step_update_rows [OF ua] thread_step_update_rows [OF ub] r(1)
  have "\<forall>x \<in> set (ai_quotas s3).
               x \<in> set (ai_quotas s1) \<or> current_requests x = current_requests qa + 1"
    by auto
  with two four r show ?thesis by simp
qed

theorem concurrent_requests_both_admitted_witness:
  "thread_step first_call Checking quota_state = (Admitted example_quota, quota_state)
   \<and> current_requests example_quota + 1 = max_requests example_quota
   \<and> (\<exists>qb. run_schedule [first_call, second_call] [0, 1] ([Checking, Checking], quota_state)
              = ([Admitted example_quota, Admitted qb], quota_state)
            \<and> current_requests qb = current_requests example_quota)
   \<and> \<not> (\<exists>x \<in> set (ai_quotas (snd (run_schedule [first_call, second_call] [0, 1, 0, 1]
                                          ([Checking, Checking], quota_state)))).
           x \<notin> set (ai_quotas quota_state) \<and> current_requests x \<noteq> 2)"
proof -
  have m: "env_month_start (call_env second_call) = env_month_start (call_env first_call)"
    and u: "user_id (call_user second_call) = user_id (call_user first_call)"
    by (simp_all add: first_call_def second_call_def example_env_def)
  have c: "current_requests example_quota = 1" "max_requests example_quota = 2"
    by (simp_all add: example_quota_def)
  from concurrent_requests_both_admitted [OF m u first_call_admitted] c first_call_admitted
  show ?thesis by auto
qed


text \<open>
  The two requests in a month without a quota row: both are admitted, the update of
  the request that created the row succeeds, and the update of the other, on an
  instance read from the database, raises the \<open>TypeError\<close> of the mixed addition.
\<close>

lemma new_month_interleaving:
  "(\<exists>qa qb. fst (run_schedule [first_call, second_call] [0, 1] ([Checking, Checking], ai_state))
              = [Admitted qa, Admitted qb])
   \<and> (\<exists>q. fst (run_schedule [first_call, second_call] [0, 1, 0, 1] ([Checking, Checking], ai_state))
          = [Updated (Inr q),
             Updated (Inl (TypeError ''unsupported operand type(s) for +=: decimal.Decimal and float''))])
   \<and> map current_requests
        (ai_quotas (snd (run_schedule [first_call, second_call] [0, 1, 0, 1]
                           ([Checking, Checking], ai_state)))) = [1]"
  by (simp add: thread_step_def first_call_def second_call_def check_usage_quota_def
        get_or_create_quota_def ai_state_def empty_state_def example_user_def update_usage_def
        save_row_def Let_def example_env_def requests_percentage_def int_truediv_def
        quota_to_db_def to_decimal_def ai_usage_limit_def min_100_def py_ge_def)

text \<open>
  With one request left in the month's quota both are admitted, and both updates
  raise: the row stays as it was.
\<close>

lemma last_slot_interleaving:
  "run_schedule [first_call, second_call] [0, 1, 0, 1] ([Checking, Checking], quota_state)
     = ([Updated (Inl (TypeError ''unsupported operand type(s) for +=: decimal.Decimal and float'')),
         Updated (Inl (TypeError ''unsupported operand type(s) for +=: decimal.Decimal and float''))],
        quota_state)"
  by (simp add: thread_step_def first_call_def second_call_def check_usage_quota_def
        get_or_create_quota_def quota_state_def ai_state_def empty_state_def example_user_def
        update_usage_def example_quota_def
        save_row_def Let_def example_env_def requests_percentage_def int_truediv_def
        quota_to_db_def to_decimal_def ai_usage_limit_def min_100_def py_ge_def)

subsection \<open>Records of another user\<close>

text \<open>
  C8. The querysets of the views are restricted to the requester's records, and still a
  request of one user writes into the records of another: the \<open>integration\<close> field
  of \<open>WebhookEndpointSerializer\<close> is writable and takes any integration. The first
  user updates the webhook endpoint 5, their own, with the integration 20 of the second
  user. The answer is 200 with the endpoint, now of integration 20; the second user, who
  had no webhook endpoint, lists it from then on, and the first user does not.
\<close>

theorem webhook_update_crosses_users:
  "user_id example_user \<noteq> user_id other_user
   \<and> int_user other_integration = user_id other_user
   \<and> webhook_queryset example_user webhook_state = [example_webhook]
   \<and> webhook_queryset other_user webhook_state = []
   \<and> api_step example_env example_user (WebhookUpdate 5 move_webhook) webhook_state
       = ((200, [RWebhook (example_webhook\<lparr>wh_integration := int_id other_integration,
                                             wh_updated_at := 100\<rparr>)]),
          webhook_state\<lparr>webhooks := [example_webhook\<lparr>wh_integration := int_id other_integration,
                                                      wh_updated_at := 100\<rparr>]\<rparr>)
   \<and> webhook_queryset other_user
         (snd (api_step example_env example_user (WebhookUpdate 5 move_webhook) webhook_state))
       = [example_webhook\<lparr>wh_integration := int_id other_integration, wh_updated_at := 100\<rparr>]
   \<and> webhook_queryset example_user
         (snd (api_step example_env example_user (WebhookUpdate 5 move_webhook) webhook_state))
       = []"
  by (simp add: webhook_queryset_def webhook_state_def empty_state_def example_user_def
        other_user_def example_integration_def other_integration_def example_webhook_def
        move_webhook_def webhook_update_def webhook_data_valid_def update_view_def
        get_object_def update_webhook_def field_def save_row_def tagged_def example_env_def)

end
